(* ===== verification/CC_Prelude.thy ===== *)
theory CC_Prelude
  imports Main
begin

text \<open>
  Shared vocabulary of the CodeCommit platform adapter model
  (\<^verbatim>\<open>src/lib/modules/platform/codecommit/index.ts\<close>). This theory holds the
  parts of the JavaScript runtime that the adapter relies on and that decide its
  behaviour: JavaScript truthiness of optional strings, numbers as they come out of
  \<^verbatim>\<open>Number.parseInt\<close> (a number or \<open>NaN\<close>), the template-literal rendering
  \<^verbatim>\<open>`${n}`\<close> of an integer, \<^verbatim>\<open>String.prototype.trim\<close> and
  \<^verbatim>\<open>String.prototype.startsWith\<close>. Numbers are mathematical integers: the
  adapter only handles pull-request numbers, which stay far below \<open>2^53\<close>,
  where a JavaScript double is exact. Characters are bytes, so only the ASCII
  white-space characters count as white space.
\<close>

named_theorems cc_simps "evaluation rules of the adapter model"

section \<open>JavaScript values\<close>

text \<open>
  A JavaScript number produced by \<^verbatim>\<open>Number.parseInt\<close>: an integer or \<open>NaN\<close>.
\<close>

datatype js_number = JsInt int | NaN

text \<open>
  An optional string (\<^verbatim>\<open>string | undefined\<close>) in a boolean context: \<open>undefined\<close>
  and the empty string are false. \<open>nonempty\<close> keeps the value only where it is truthy.
\<close>

definition nonempty :: "string option \<Rightarrow> string option" where
  "nonempty s = (case s of None \<Rightarrow> None | Some v \<Rightarrow> if v = [] then None else Some v)"

definition js_truthy :: "string option \<Rightarrow> bool" where
  "js_truthy s \<longleftrightarrow> nonempty s \<noteq> None"

section \<open>Strings\<close>

text \<open>\<^verbatim>\<open>s.startsWith(p)\<close>.\<close>

fun starts_with :: "'a list \<Rightarrow> 'a list \<Rightarrow> bool" where
  "starts_with s [] = True"
| "starts_with [] (c # cs) = False"
| "starts_with (x # xs) (c # cs) = (x = c \<and> starts_with xs cs)"

definition nl :: string where
  "nl = [CHR 0x0A]"

text \<open>
  White space of \<^verbatim>\<open>String.prototype.trim\<close> and of \<^verbatim>\<open>Number.parseInt\<close> among the
  bytes: tab, line feed, vertical tab, form feed, carriage return, space and no-break
  space (U+00A0).
\<close>

definition js_ws :: "char \<Rightarrow> bool" where
  "js_ws c \<longleftrightarrow> (of_char c :: nat) \<in> {9, 10, 11, 12, 13, 32, 160}"

text \<open>The line terminators a regular expression's \<^verbatim>\<open>.\<close> does not match (of the bytes:
  line feed and carriage return).\<close>

definition line_term :: "char \<Rightarrow> bool" where
  "line_term c \<longleftrightarrow> c = CHR 0x0A \<or> c = CHR 0x0D"

definition js_trim :: "string \<Rightarrow> string" where
  "js_trim s = rev (dropWhile js_ws (rev (dropWhile js_ws s)))"

section \<open>Rendering an integer: \<^verbatim>\<open>`${n}`\<close>\<close>

definition digit_char :: "nat \<Rightarrow> char" where
  "digit_char d = char_of (48 + d)"

fun nat_to_str :: "nat \<Rightarrow> string" where
  "nat_to_str n = (if n < 10 then [digit_char n] else nat_to_str (n div 10) @ [digit_char (n mod 10)])"

declare nat_to_str.simps [simp del]

definition int_to_str :: "int \<Rightarrow> string" where
  "int_to_str i = (if i < 0 then CHR ''-'' # nat_to_str (nat (- i)) else nat_to_str (nat i))"

primrec js_str :: "js_number \<Rightarrow> string" where
  "js_str (JsInt i) = int_to_str i"
| "js_str NaN = ''NaN''"

section \<open>\<^verbatim>\<open>Number.parseInt(s)\<close> without a radix\<close>

text \<open>
  ECMAScript's \<^verbatim>\<open>parseInt\<close>: skip leading white space, read an optional sign, read a
  \<^verbatim>\<open>0x\<close>/\<^verbatim>\<open>0X\<close> prefix as radix 16 (radix 10 otherwise), take the longest prefix of
  digits of the radix and return its value, or \<open>NaN\<close> when that prefix is empty.
\<close>

definition digit_value :: "char \<Rightarrow> nat option" where
  "digit_value c = (let n = (of_char c :: nat) in
     if 48 \<le> n \<and> n \<le> 57 then Some (n - 48)
     else if 97 \<le> n \<and> n \<le> 122 then Some (n - 87)
     else if 65 \<le> n \<and> n \<le> 90 then Some (n - 55)
     else None)"

definition radix_digit :: "nat \<Rightarrow> char \<Rightarrow> nat option" where
  "radix_digit R c = (case digit_value c of Some d \<Rightarrow> if d < R then Some d else None | None \<Rightarrow> None)"

definition is_radix_digit :: "nat \<Rightarrow> char \<Rightarrow> bool" where
  "is_radix_digit R c \<longleftrightarrow> radix_digit R c \<noteq> None"

definition digits_value :: "nat \<Rightarrow> nat list \<Rightarrow> nat" where
  "digits_value R ds = foldl (\<lambda>acc d. acc * R + d) 0 ds"

definition parse_sign :: "string \<Rightarrow> int \<times> string" where
  "parse_sign s = (case s of
       c # t \<Rightarrow> if c = CHR ''-'' then (-1, t) else if c = CHR ''+'' then (1, t) else (1, s)
     | [] \<Rightarrow> (1, s))"

definition parse_radix :: "string \<Rightarrow> nat \<times> string" where
  "parse_radix s = (if take 2 s = ''0x'' \<or> take 2 s = ''0X'' then (16, drop 2 s) else (10, s))"

definition parseInt :: "string \<Rightarrow> js_number" where
  "parseInt str = (let (sign, s) = parse_sign (dropWhile js_ws str);
       (R, s') = parse_radix s;
       z = takeWhile (is_radix_digit R) s'
     in if z = [] then NaN
        else JsInt (sign * int (digits_value R (map (\<lambda>c. the (radix_digit R c)) z))))"

section \<open>Lemmas\<close>

subsection \<open>Lists\<close>

lemma find_filter_hd:
  "find P xs = (case filter P xs of [] \<Rightarrow> None | x # _ \<Rightarrow> Some x)"
  by (induction xs) auto

lemma find_Some_filter:
  "find P xs = Some x \<Longrightarrow> \<exists>ys. filter P xs = x # ys"
  by (induction xs) (auto split: if_splits)

lemma find_SomeD: "find P xs = Some x \<Longrightarrow> x \<in> set xs \<and> P x"
  by (induction xs) (auto split: if_splits)

lemma filter_filter_comm:
  "filter P (filter Q xs) = filter Q (filter P xs)"
  by (induction xs) auto

subsection \<open>Truthiness\<close>

lemma bind_ex_Some: "(\<exists>r. Option.bind x f = Some r) \<longleftrightarrow> (\<exists>y. x = Some y \<and> (\<exists>r. f y = Some r))"
  by (cases x) auto

lemma dropWhile_idem: "dropWhile P (dropWhile P xs) = dropWhile P xs"
  by (induction xs) auto

lemma rev_dropWhile_rev_prefix: "\<exists>r. xs = rev (dropWhile P (rev xs)) @ r"
proof -
  have "rev xs = takeWhile P (rev xs) @ dropWhile P (rev xs)" by simp
  then have "xs = rev (dropWhile P (rev xs)) @ rev (takeWhile P (rev xs))"
    by (metis rev_append rev_rev_ident)
  then show ?thesis ..
qed

lemma js_trim_idem: "js_trim (js_trim s) = js_trim s"
proof -
  let ?t = "dropWhile js_ws s"
  have tr: "js_trim s = rev (dropWhile js_ws (rev ?t))" by (simp add: js_trim_def)
  obtain r where r: "?t = js_trim s @ r" using rev_dropWhile_rev_prefix [of ?t js_ws] tr by auto
  have front: "dropWhile js_ws (js_trim s) = js_trim s"
  proof (cases "js_trim s")
    case (Cons c cs)
    with r have "\<not> js_ws c"
      by (metis append_Cons hd_dropWhile list.discI list.sel(1))
    with Cons show ?thesis by simp
  qed simp
  have "rev (js_trim s) = dropWhile js_ws (rev ?t)" by (simp add: tr)
  then have bk: "dropWhile js_ws (rev (js_trim s)) = rev (js_trim s)" by (simp add: dropWhile_idem)
  have "js_trim (js_trim s) = rev (dropWhile js_ws (rev (dropWhile js_ws (js_trim s))))"
    by (rule js_trim_def)
  then show ?thesis by (simp only: front bk rev_rev_ident)
qed

lemma nonempty_Some [simp]: "nonempty (Some v) = (if v = [] then None else Some v)"
  by (simp add: nonempty_def)

lemma nonempty_None [simp]: "nonempty None = None"
  by (simp add: nonempty_def)

lemma js_truthy_simps [simp]:
  "js_truthy None = False"
  "js_truthy (Some v) = (v \<noteq> [])"
  by (simp_all add: js_truthy_def)

lemma nonempty_eq_Some [simp]: "nonempty s = Some v \<longleftrightarrow> s = Some v \<and> v \<noteq> []"
  by (cases s) auto

subsection \<open>Prefixes\<close>

lemma starts_with_iff: "starts_with s p \<longleftrightarrow> (\<exists>r. s = p @ r)"
  by (induction s p rule: starts_with.induct) auto

lemma starts_with_append [simp]: "starts_with (p @ r) p"
  by (simp add: starts_with_iff)

lemma starts_with_refl [simp]: "starts_with s s"
  using starts_with_append [of s "[]"] by simp

subsection \<open>Rendering and parsing are inverse\<close>

lemma radix_digit_digit_char [simp]: "d < 10 \<Longrightarrow> radix_digit 10 (digit_char d) = Some d"
  by (simp add: radix_digit_def digit_value_def digit_char_def)

lemma nat_to_str_digits: "c \<in> set (nat_to_str n) \<Longrightarrow> \<exists>d < 10. c = digit_char d"
proof (induction n rule: nat_to_str.induct)
  case (1 n)
  show ?case
  proof (cases "n < 10")
    case True
    with "1.prems" show ?thesis by (auto simp: nat_to_str.simps [of n])
  next
    case False
    with "1.prems" have "c \<in> set (nat_to_str (n div 10)) \<or> c = digit_char (n mod 10)"
      by (auto simp: nat_to_str.simps [of n])
    with False "1.IH" show ?thesis by (metis mod_less_divisor zero_less_numeral)
  qed
qed

lemma nat_to_str_not_ws: "c \<in> set (nat_to_str n) \<Longrightarrow> \<not> js_ws c"
  by (auto dest!: nat_to_str_digits simp: js_ws_def digit_char_def)

lemma nat_to_str_ne [simp]: "nat_to_str n \<noteq> []"
  by (subst nat_to_str.simps) simp

lemma digit_char_ne_x: "d < 10 \<Longrightarrow> digit_char d \<noteq> CHR ''x'' \<and> digit_char d \<noteq> CHR ''X''"
  by (auto simp: digit_char_def dest!: arg_cong [where f = "of_char :: char \<Rightarrow> nat"])

lemma digit_char_ne_sign: "d < 10 \<Longrightarrow> digit_char d \<noteq> CHR ''-'' \<and> digit_char d \<noteq> CHR ''+''"
  by (auto simp: digit_char_def dest!: arg_cong [where f = "of_char :: char \<Rightarrow> nat"])

lemma digits_value_snoc: "digits_value R (ds @ [d]) = digits_value R ds * R + d"
  by (simp add: digits_value_def)

lemma nat_to_str_value:
  "digits_value 10 (map (\<lambda>c. the (radix_digit 10 c)) (nat_to_str n)) = n"
proof (induction n rule: nat_to_str.induct)
  case (1 n)
  show ?case
  proof (cases "n < 10")
    case True
    then show ?thesis by (simp add: nat_to_str.simps [of n] digits_value_def)
  next
    case False
    with "1.IH" show ?thesis
      by (simp add: nat_to_str.simps [of n] digits_value_snoc)
  qed
qed

lemma nat_to_str_takeWhile:
  "takeWhile (is_radix_digit 10) (nat_to_str n) = nat_to_str n"
  by (auto simp: takeWhile_eq_all_conv is_radix_digit_def dest!: nat_to_str_digits)

lemma nat_to_str_radix: "parse_radix (nat_to_str n) = (10, nat_to_str n)"
proof -
  have "take 2 (nat_to_str n) \<noteq> ''0x'' \<and> take 2 (nat_to_str n) \<noteq> ''0X''"
  proof (cases "nat_to_str n")
    case (Cons a t)
    show ?thesis
    proof (cases t)
      case (Cons b u)
      then have "b \<in> set (nat_to_str n)" using \<open>nat_to_str n = a # t\<close> by simp
      then obtain d where "d < 10" "b = digit_char d" by (blast dest: nat_to_str_digits)
      with \<open>nat_to_str n = a # t\<close> Cons show ?thesis by (auto dest: digit_char_ne_x)
    qed (simp add: \<open>nat_to_str n = a # t\<close>)
  qed simp
  then show ?thesis by (simp add: parse_radix_def)
qed

lemma nat_to_str_sign: "parse_sign (nat_to_str n) = (1, nat_to_str n)"
proof (cases "nat_to_str n")
  case (Cons a t)
  then have "a \<in> set (nat_to_str n)" by simp
  then obtain d where "d < 10" "a = digit_char d" by (blast dest: nat_to_str_digits)
  with Cons show ?thesis by (auto simp: parse_sign_def dest: digit_char_ne_sign)
qed simp

lemma dropWhile_ws_nat_to_str [simp]: "dropWhile js_ws (nat_to_str n) = nat_to_str n"
  using nat_to_str_not_ws [OF hd_in_set [OF nat_to_str_ne]]
  by (simp add: dropWhile_eq_self_iff)

lemma parseInt_nat_to_str: "parseInt (nat_to_str n) = JsInt (int n)"
  by (simp add: parseInt_def nat_to_str_sign nat_to_str_radix nat_to_str_takeWhile
      nat_to_str_value)

lemma parseInt_neg_nat_to_str: "parseInt (CHR ''-'' # nat_to_str n) = JsInt (- int n)"
proof -
  have "\<not> js_ws CHR ''-''" by (simp add: js_ws_def)
  then show ?thesis
    by (simp add: parseInt_def parse_sign_def nat_to_str_radix nat_to_str_takeWhile
        nat_to_str_value)
qed

lemma int_to_str_nat [simp]: "int_to_str (int n) = nat_to_str n"
  by (simp add: int_to_str_def)

lemma parseInt_int_to_str [simp]: "parseInt (int_to_str i) = JsInt i"
  by (simp add: int_to_str_def parseInt_nat_to_str parseInt_neg_nat_to_str)


subsection \<open>Literals used by the examples\<close>

lemma parseInt_1 [simp]: "parseInt ''1'' = JsInt 1"
  by code_simp

lemma int_to_str_1 [simp]: "int_to_str 1 = ''1''"
  by code_simp

lemma int_to_str_7 [simp]: "int_to_str 7 = ''7''"
  by code_simp

end
