(* ===== verification/CC_Types.thy ===== *)
theory CC_Types
  imports CC_Prelude
begin

text \<open>
  The data the adapter reads and produces. The canonical pull request \<open>Pr\<close> and the
  state enum \<open>PrState\<close> are those of the platform interface (\<^verbatim>\<open>platform/types\<close>,
  \<^verbatim>\<open>types/pr-state\<close>); the AWS shapes (\<open>PullRequest\<close>, \<open>PullRequestTarget\<close>,
  \<open>Comment\<close>, the source-reference-updated event) are the SDK records of
  \<^verbatim>\<open>@aws-sdk/client-codecommit\<close> restricted to the fields the adapter reads, each
  optional as in the SDK. The session \<open>Config\<close> is the module-level \<^verbatim>\<open>config\<close>
  object of \<^verbatim>\<open>index.ts\<close>.
\<close>

section \<open>Pull-request states\<close>

text \<open>
  One enum serves as the state of a pull request (\<open>Open\<close>, \<open>Closed\<close>, \<open>Merged\<close>) and
  as the state filter of \<^verbatim>\<open>findPr\<close> (also \<open>NotOpen\<close> and \<open>All\<close>), as in the source.
\<close>

datatype PrState = Open | Closed | Merged | NotOpen | All

section \<open>The canonical pull request\<close>

text \<open>
  The adapter fills the branch and title fields through non-null assertions
  (\<^verbatim>\<open>sourceReference!\<close>, \<^verbatim>\<open>title!\<close>): an absent value flows through as
  \<^verbatim>\<open>undefined\<close>, so these fields are optional here.
\<close>

record Pr =
  number :: js_number
  sourceBranch :: "string option"
  targetBranch :: "string option"
  title :: "string option"
  state :: PrState
  sha :: "string option"
  sourceRepo :: "string option"

section \<open>AWS CodeCommit shapes\<close>

record MergeMetadata =
  isMerged :: "bool option"

record PullRequestTarget =
  repositoryName :: "string option"
  sourceReference :: "string option"
  destinationReference :: "string option"
  mergeMetadata :: "MergeMetadata option"

text \<open>The SDK fields \<^verbatim>\<open>title\<close> and \<^verbatim>\<open>description\<close> of a pull request are
  \<open>pr_title\<close> and \<open>pr_description\<close> here.\<close>

record PullRequest =
  pullRequestId :: "string option"
  pr_title :: "string option"
  pr_description :: "string option"
  pullRequestStatus :: "string option"
  pullRequestTargets :: "PullRequestTarget list option"
  revisionId :: "string option"

text \<open>The SDK's \<^verbatim>\<open>repositoryMetadata\<close>; its \<^verbatim>\<open>defaultBranch\<close> is \<open>rm_defaultBranch\<close>.\<close>

record RepositoryMetadata =
  rm_defaultBranch :: "string option"
  repositoryId :: "string option"

record Comment =
  commentId :: "string option"
  content :: "string option"

text \<open>
  A comment thread (\<^verbatim>\<open>CommentsForPullRequest\<close>) is read only through its optional
  \<^verbatim>\<open>comments\<close> array; the first element is the root comment.
\<close>

type_synonym CommentsForPullRequest = "Comment list option"

record SourceReferenceUpdated =
  beforeCommitId :: "string option"
  afterCommitId :: "string option"

text \<open>
  A pull-request event is read only through its optional
  \<^verbatim>\<open>pullRequestSourceReferenceUpdatedEventMetadata\<close>.
\<close>

type_synonym PullRequestEvent = "SourceReferenceUpdated option"

section \<open>Session configuration\<close>

record Credentials =
  accessKeyId :: string
  secretAccessKey :: string
  sessionToken :: "string option"

record Config =
  repository :: "string option"
  defaultBranch :: "string option"
  region :: "string option"
  prList :: "Pr list option"
  credentials :: "Credentials option"
  userArn :: "string option"

definition empty_config :: Config where
  "empty_config = \<lparr>repository = None, defaultBranch = None, region = None, prList = None,
     credentials = None, userArn = None\<rparr>"

section \<open>Example records\<close>

text \<open>
  The pull request of the scenario of the specification (section 8): number 1, open,
  from \<^verbatim>\<open>refs/heads/feature\<close> into \<^verbatim>\<open>refs/heads/main\<close>, titled \<^verbatim>\<open>Update dep\<close>, not merged.
  The witnesses of the component theories evaluate the model on it.
\<close>

definition ex_target :: PullRequestTarget where
  "ex_target = \<lparr>repositoryName = Some ''repo'', sourceReference = Some ''refs/heads/feature'',
     destinationReference = Some ''refs/heads/main'', mergeMetadata = Some \<lparr>isMerged = Some False\<rparr>\<rparr>"

definition ex_pull_request :: PullRequest where
  "ex_pull_request = \<lparr>pullRequestId = Some ''1'', pr_title = Some ''Update dep'',
     pr_description = Some ''Bump dep'',
     pullRequestStatus = Some ''OPEN'', pullRequestTargets = Some [ex_target],
     revisionId = Some ''rev1''\<rparr>"

section \<open>Errors\<close>

text \<open>
  What a call of the adapter can reject its promise with: a failed remote request
  (\<open>RemoteError\<close>), a property read on \<^verbatim>\<open>undefined\<close> (\<open>TypeError\<close>), or an
  \<^verbatim>\<open>Error\<close> the adapter throws itself, with its message.
\<close>

datatype error = RemoteError | TypeError | PlatformError string

end
