(* ===== verification/State_Translator.thy ===== *)
theory State_Translator
  imports CC_Types
begin

text \<open>
  The translation of a raw CodeCommit pull request into the canonical \<open>Pr\<close>
  (\<^verbatim>\<open>index.ts\<close>). The source translates in two places, with two different state
  rules: the directory listing \<^verbatim>\<open>getPrList\<close> (lines 179--189) reads only the raw
  status, while the single fetch \<^verbatim>\<open>getPr\<close> (lines 252--270) lets the merge flag of
  the first target override it. Both read the first target through
  \<^verbatim>\<open>pullRequestTargets![0]\<close>, which throws a \<open>TypeError\<close> when the targets are absent
  or empty.
\<close>

section \<open>Definitions\<close>

definition first_target :: "PullRequest \<Rightarrow> error + PullRequestTarget" where
  "first_target p = (case pullRequestTargets p of
       None \<Rightarrow> Inl TypeError
     | Some [] \<Rightarrow> Inl TypeError
     | Some (t # _) \<Rightarrow> Inr t)"

definition listed_state :: "PullRequest \<Rightarrow> PrState" where
  "listed_state p = (if pullRequestStatus p = Some ''OPEN'' then Open else Closed)"

definition merged_flag :: "PullRequestTarget \<Rightarrow> bool" where
  "merged_flag t = (case mergeMetadata t of None \<Rightarrow> False | Some m \<Rightarrow> isMerged m = Some True)"

definition derived_state :: "PullRequest \<Rightarrow> PullRequestTarget \<Rightarrow> PrState" where
  "derived_state p t = (if merged_flag t then Merged else listed_state p)"

definition pr_of_listing :: "string \<Rightarrow> PullRequest \<Rightarrow> error + Pr" where
  "pr_of_listing prId p = (case first_target p of
       Inl e \<Rightarrow> Inl e
     | Inr t \<Rightarrow> Inr \<lparr>number = parseInt prId, sourceBranch = sourceReference t,
         targetBranch = destinationReference t, title = pr_title p, state = listed_state p,
         sha = None, sourceRepo = None\<rparr>)"

definition pr_of_fetch :: "js_number \<Rightarrow> PullRequest \<Rightarrow> error + Pr" where
  "pr_of_fetch n p = (case first_target p of
       Inl e \<Rightarrow> Inl e
     | Inr t \<Rightarrow> Inr \<lparr>number = n, sourceBranch = sourceReference t,
         targetBranch = destinationReference t, title = pr_title p, state = derived_state p t,
         sha = revisionId p, sourceRepo = None\<rparr>)"

section \<open>Rules for the proofs\<close>

lemma first_target_Inr [simp]:
  "first_target p = Inr t \<longleftrightarrow> (\<exists>ts. pullRequestTargets p = Some (t # ts))"
  by (auto simp: first_target_def split: option.splits list.splits)

lemma first_target_Inl [simp]:
  "first_target p = Inl e \<longleftrightarrow> e = TypeError \<and> (pullRequestTargets p = None \<or> pullRequestTargets p = Some [])"
  by (auto simp: first_target_def split: option.splits list.splits)

lemma first_target_Cons [simp]:
  "pullRequestTargets p = Some (t # ts) \<Longrightarrow> first_target p = Inr t"
  by simp

lemma pr_of_listing_Inr:
  "pr_of_listing prId p = Inr pr \<Longrightarrow>
     \<exists>t. first_target p = Inr t \<and> number pr = parseInt prId \<and> state pr = listed_state p
       \<and> sourceBranch pr = sourceReference t \<and> targetBranch pr = destinationReference t
       \<and> title pr = pr_title p \<and> sha pr = None"
  by (auto simp: pr_of_listing_def split: sum.splits)

lemma pr_of_fetch_Inr:
  "pr_of_fetch n p = Inr pr \<Longrightarrow>
     \<exists>t. first_target p = Inr t \<and> number pr = n \<and> state pr = derived_state p t
       \<and> sourceBranch pr = sourceReference t \<and> targetBranch pr = destinationReference t
       \<and> title pr = pr_title p \<and> sha pr = revisionId p"
  by (auto simp: pr_of_fetch_def split: sum.splits)

lemma listed_state_cases: "listed_state p = Open \<or> listed_state p = Closed"
  by (simp add: listed_state_def)

section \<open>Properties\<close>

text \<open>
  C1. Derived-state precedence: a pull request whose first target reports
  \<open>isMerged = true\<close> is fetched as \<open>Merged\<close>, whatever its raw status
  (\<^verbatim>\<open>OPEN\<close>, \<^verbatim>\<open>CLOSED\<close>, absent or anything else); every other field comes from the
  record as it is.
\<close>

theorem fetch_merged_overrides_status:
  assumes "pullRequestTargets p = Some (t # ts)"
    and "mergeMetadata t = Some m" and "isMerged m = Some True"
  shows "pr_of_fetch n p = Inr \<lparr>number = n, sourceBranch = sourceReference t,
           targetBranch = destinationReference t, title = pr_title p, state = Merged,
           sha = revisionId p, sourceRepo = None\<rparr>"
  using assms by (simp add: pr_of_fetch_def derived_state_def merged_flag_def)

text \<open>
  Without the merge flag, the fetched state is \<open>Open\<close> exactly when the raw status is
  \<^verbatim>\<open>OPEN\<close>, and \<open>Closed\<close> otherwise.
\<close>

theorem fetch_state_unmerged:
  assumes "pullRequestTargets p = Some (t # ts)" and "\<not> merged_flag t"
  shows "pr_of_fetch n p = Inr pr \<Longrightarrow>
           (state pr = Open \<longleftrightarrow> pullRequestStatus p = Some ''OPEN'')
         \<and> (state pr = Closed \<longleftrightarrow> pullRequestStatus p \<noteq> Some ''OPEN'')"
  using assms by (auto simp: pr_of_fetch_def derived_state_def listed_state_def split: if_splits)

text \<open>
  C2. The directory listing never reports a merged pull request: its state is
  \<open>Open\<close> or \<open>Closed\<close>, even when the merge flag is set. A merged pull request
  (which CodeCommit lists as \<^verbatim>\<open>CLOSED\<close>) is listed as \<open>Closed\<close> and only the single
  fetch sees it as \<open>Merged\<close>.
\<close>

theorem listing_never_merged:
  "pr_of_listing prId p = Inr pr \<Longrightarrow> state pr \<noteq> Merged"
  using listed_state_cases [of p] by (auto dest!: pr_of_listing_Inr)

text \<open>
  Identifier round trip: a pull request listed under the identifier that the
  adapter renders for \<open>n\<close> (\<^verbatim>\<open>`${n}`\<close>) gets the number \<open>n\<close> back from
  \<^verbatim>\<open>Number.parseInt\<close>, so re-fetching it by number asks for the same identifier.
\<close>

theorem listing_number_roundtrip:
  "pr_of_listing (js_str (JsInt n)) p = Inr pr \<Longrightarrow>
     number pr = JsInt n \<and> js_str (number pr) = js_str (JsInt n)"
  by (auto dest!: pr_of_listing_Inr)

section \<open>Witnesses\<close>

theorem fetch_merged_overrides_status_witness:
  "pr_of_fetch (JsInt 1)
     (ex_pull_request\<lparr>pullRequestTargets := Some [ex_target\<lparr>mergeMetadata := Some \<lparr>isMerged = Some True\<rparr>\<rparr>]\<rparr>)
   = Inr \<lparr>number = JsInt 1, sourceBranch = Some ''refs/heads/feature'',
       targetBranch = Some ''refs/heads/main'', title = Some ''Update dep'', state = Merged,
       sha = Some ''rev1'', sourceRepo = None\<rparr>"
  using fetch_merged_overrides_status [of
      "ex_pull_request\<lparr>pullRequestTargets := Some [ex_target\<lparr>mergeMetadata := Some \<lparr>isMerged = Some True\<rparr>\<rparr>]\<rparr>"
      "ex_target\<lparr>mergeMetadata := Some \<lparr>isMerged = Some True\<rparr>\<rparr>" "[]" "\<lparr>isMerged = Some True\<rparr>" "JsInt 1"]
  by (simp add: ex_pull_request_def ex_target_def)

theorem fetch_state_unmerged_witness:
  "pr_of_fetch (JsInt 1) ex_pull_request = Inr \<lparr>number = JsInt 1, sourceBranch = Some ''refs/heads/feature'',
       targetBranch = Some ''refs/heads/main'', title = Some ''Update dep'', state = Open,
       sha = Some ''rev1'', sourceRepo = None\<rparr>
   \<and> pullRequestStatus ex_pull_request = Some ''OPEN''"
proof -
  have fetch: "pr_of_fetch (JsInt 1) ex_pull_request = Inr \<lparr>number = JsInt 1,
       sourceBranch = Some ''refs/heads/feature'', targetBranch = Some ''refs/heads/main'',
       title = Some ''Update dep'', state = Open, sha = Some ''rev1'', sourceRepo = None\<rparr>"
    by (simp add: pr_of_fetch_def ex_pull_request_def ex_target_def derived_state_def
        merged_flag_def listed_state_def)
  have "\<not> merged_flag ex_target" by (simp add: merged_flag_def ex_target_def)
  with fetch_state_unmerged [of ex_pull_request ex_target "[]" "JsInt 1", OF _ _ fetch] fetch
  show ?thesis by (simp add: ex_pull_request_def)
qed

theorem listing_never_merged_witness:
  "pr_of_listing ''1'' (ex_pull_request\<lparr>pullRequestStatus := Some ''CLOSED'',
       pullRequestTargets := Some [ex_target\<lparr>mergeMetadata := Some \<lparr>isMerged = Some True\<rparr>\<rparr>]\<rparr>)
     = Inr \<lparr>number = JsInt 1, sourceBranch = Some ''refs/heads/feature'',
       targetBranch = Some ''refs/heads/main'', title = Some ''Update dep'', state = Closed,
       sha = None, sourceRepo = None\<rparr>
   \<and> Closed \<noteq> Merged"
proof -
  have l: "pr_of_listing ''1'' (ex_pull_request\<lparr>pullRequestStatus := Some ''CLOSED'',
       pullRequestTargets := Some [ex_target\<lparr>mergeMetadata := Some \<lparr>isMerged = Some True\<rparr>\<rparr>]\<rparr>)
     = Inr \<lparr>number = JsInt 1, sourceBranch = Some ''refs/heads/feature'',
       targetBranch = Some ''refs/heads/main'', title = Some ''Update dep'', state = Closed,
       sha = None, sourceRepo = None\<rparr>"
    by code_simp
  from listing_never_merged [OF l] l show ?thesis by simp
qed

theorem listing_number_roundtrip_witness:
  "pr_of_listing (js_str (JsInt 1)) ex_pull_request = Inr \<lparr>number = JsInt 1,
       sourceBranch = Some ''refs/heads/feature'', targetBranch = Some ''refs/heads/main'',
       title = Some ''Update dep'', state = Open, sha = None, sourceRepo = None\<rparr>
   \<and> js_str (JsInt 1) = ''1''"
proof -
  have s: "js_str (JsInt 1) = ''1''"
    by code_simp
  have l: "pr_of_listing (js_str (JsInt 1)) ex_pull_request = Inr \<lparr>number = JsInt 1,
       sourceBranch = Some ''refs/heads/feature'', targetBranch = Some ''refs/heads/main'',
       title = Some ''Update dep'', state = Open, sha = None, sourceRepo = None\<rparr>"
    by (simp add: pr_of_listing_def ex_pull_request_def ex_target_def listed_state_def)
  from listing_number_roundtrip [OF l] l s show ?thesis by simp
qed

end
