(* ===== verification/CC_Client.thy ===== *)
theory CC_Client
  imports CC_Types
begin

text \<open>
  The remote CodeCommit service as the adapter sees it through
  \<^verbatim>\<open>codecommit-client.ts\<close> (not part of the sources under \<^verbatim>\<open>src/\<close>: modelled from the
  specification, sections 4 and 6). The service is a record \<open>remote\<close> of the data of one
  repository: the pull-request listing, each pull request by id, each pull request's
  comment threads and source-reference-updated events, the repository names, and a
  counter for fresh identifiers. Every request is recorded in \<open>calls\<close>, in order, so
  that properties can count the requests an operation issues; \<open>fails\<close> says which
  requests the transport rejects. A request is one \<open>call\<close>; \<open>request\<close> is the one
  place where a call is logged, rejected, or answered and applied.
\<close>

section \<open>Requests\<close>

datatype call =
    ListPullRequests "string option" "string option"
  | GetPr string
  | GetPrComments "string option" string
  | GetPrEvents string
  | CreatePrComment string "string option" string string string
  | UpdateComment string string
  | DeleteComment string
  | SquashMerge "string option" "string option" "string option" "string option"
  | FastForwardMerge "string option" "string option" "string option"
  | UpdatePrStatus string string
  | UpdatePrDescription string string
  | UpdatePrTitle string string
  | CreatePr string string string string "string option"
  | ListRepositories
  | CreatePrApprovalRule string string
  | GetRepositoryInfo string

section \<open>The service\<close>

record remote =
  pr_ids :: "string list option"
  prs :: "string \<Rightarrow> PullRequest option"
  threads :: "string \<Rightarrow> CommentsForPullRequest list option"
  events :: "string \<Rightarrow> PullRequestEvent list option"
  repos :: "string option list"
  approval_rules :: "string \<Rightarrow> string list"
  repo_metadata :: "string \<Rightarrow> RepositoryMetadata option"
  fails :: "call \<Rightarrow> bool"
  next_id :: nat
  calls :: "call list"

definition log_call :: "call \<Rightarrow> remote \<Rightarrow> remote" where
  "log_call c r = r\<lparr>calls := calls r @ [c]\<rparr>"

definition request :: "call \<Rightarrow> 'a \<Rightarrow> (remote \<Rightarrow> remote) \<Rightarrow> remote \<Rightarrow> (error + 'a) \<times> remote" where
  "request c v eff r =
     (if fails r c then (Inl RemoteError, log_call c r) else (Inr v, eff (log_call c r)))"

section \<open>Effects of the mutating requests\<close>

definition set_content :: "string \<Rightarrow> string option \<Rightarrow> Comment \<Rightarrow> Comment" where
  "set_content cid v c = (if commentId c = Some cid then c\<lparr>content := v\<rparr> else c)"

definition map_comments :: "(Comment \<Rightarrow> Comment) \<Rightarrow> remote \<Rightarrow> remote" where
  "map_comments f r = r\<lparr>threads := (\<lambda>p. map_option (map (map_option (map f))) (threads r p))\<rparr>"

definition fresh_comment_id :: "remote \<Rightarrow> string" where
  "fresh_comment_id r = CHR ''c'' # nat_to_str (next_id r)"

definition add_thread :: "string \<Rightarrow> string \<Rightarrow> remote \<Rightarrow> remote" where
  "add_thread prNo body r = r\<lparr>
     threads := (threads r)(prNo := Some ((case threads r prNo of None \<Rightarrow> [] | Some ts \<Rightarrow> ts)
        @ [Some [\<lparr>commentId = Some (fresh_comment_id r), content = Some body\<rparr>]])),
     next_id := Suc (next_id r)\<rparr>"

text \<open>
  A created pull request gets the service's next identifier, rendered in decimal; the
  counter \<open>next_id\<close> stays above every identifier in use. CodeCommit records the
  title, the description and one target, opens the pull request and appends it to the
  listing.
\<close>

definition fresh_pr_id :: "remote \<Rightarrow> string" where
  "fresh_pr_id r = nat_to_str (next_id r)"

definition created_pr ::
  "string \<Rightarrow> string \<Rightarrow> string \<Rightarrow> string \<Rightarrow> string option \<Rightarrow> remote \<Rightarrow> PullRequest" where
  "created_pr t d src dst repo r = \<lparr>pullRequestId = Some (fresh_pr_id r), pr_title = Some t,
     pr_description = Some d, pullRequestStatus = Some ''OPEN'',
     pullRequestTargets = Some [\<lparr>repositoryName = repo, sourceReference = Some src,
       destinationReference = Some dst, mergeMetadata = Some \<lparr>isMerged = Some False\<rparr>\<rparr>],
     revisionId = None\<rparr>"

definition add_pr :: "PullRequest \<Rightarrow> remote \<Rightarrow> remote" where
  "add_pr p r = r\<lparr>prs := (prs r)(fresh_pr_id r \<mapsto> p),
     pr_ids := Some ((case pr_ids r of None \<Rightarrow> [] | Some ids \<Rightarrow> ids) @ [fresh_pr_id r]),
     next_id := Suc (next_id r)\<rparr>"

definition update_pr :: "string \<Rightarrow> (PullRequest \<Rightarrow> PullRequest) \<Rightarrow> remote \<Rightarrow> remote" where
  "update_pr prId f r = r\<lparr>prs := (prs r)(prId := map_option f (prs r prId))\<rparr>"

definition add_rule :: "string \<Rightarrow> string \<Rightarrow> remote \<Rightarrow> remote" where
  "add_rule prId contents r = r\<lparr>approval_rules := (approval_rules r)(prId := approval_rules r prId @ [contents])\<rparr>"

definition set_status :: "string \<Rightarrow> string \<Rightarrow> remote \<Rightarrow> remote" where
  "set_status prId st r =
     r\<lparr>prs := (prs r)(prId := map_option (\<lambda>p. p\<lparr>pullRequestStatus := Some st\<rparr>) (prs r prId))\<rparr>"

section \<open>The client operations\<close>

definition client_listPullRequests ::
  "string option \<Rightarrow> string option \<Rightarrow> remote \<Rightarrow> (error + string list option) \<times> remote" where
  "client_listPullRequests repo arn r = request (ListPullRequests repo arn) (pr_ids r) id r"

text \<open>\<^verbatim>\<open>getPr\<close> of the client catches a rejected request and answers
  \<^verbatim>\<open>undefined\<close> (the \<^verbatim>\<open>getPr\<close> test of \<^verbatim>\<open>index.spec.ts\<close> rejects the request and
  expects \<open>null\<close>; spec 4.2): the request is logged, and a rejected one has no data.\<close>

definition client_getPr :: "string \<Rightarrow> remote \<Rightarrow> PullRequest option \<times> remote" where
  "client_getPr prId r = (if fails r (GetPr prId) then None else prs r prId, log_call (GetPr prId) r)"

definition client_getPrComments ::
  "string option \<Rightarrow> string \<Rightarrow> remote \<Rightarrow> (error + CommentsForPullRequest list option) \<times> remote" where
  "client_getPrComments repo prNo r = request (GetPrComments repo prNo) (threads r prNo) id r"

definition client_getPrEvents ::
  "string \<Rightarrow> remote \<Rightarrow> (error + PullRequestEvent list option) \<times> remote" where
  "client_getPrEvents prNo r = request (GetPrEvents prNo) (events r prNo) id r"

definition client_createPrComment ::
  "string \<Rightarrow> string option \<Rightarrow> string \<Rightarrow> string \<Rightarrow> string \<Rightarrow> remote \<Rightarrow> (error + unit) \<times> remote" where
  "client_createPrComment prNo repo body before after r =
     request (CreatePrComment prNo repo body before after) () (add_thread prNo body) r"

definition client_updateComment :: "string \<Rightarrow> string \<Rightarrow> remote \<Rightarrow> (error + unit) \<times> remote" where
  "client_updateComment cid body r =
     request (UpdateComment cid body) () (map_comments (set_content cid (Some body))) r"

text \<open>CodeCommit deletes a comment by deleting its content.\<close>

definition client_deleteComment :: "string \<Rightarrow> remote \<Rightarrow> (error + unit) \<times> remote" where
  "client_deleteComment cid r = request (DeleteComment cid) () (map_comments (set_content cid None)) r"

definition client_squashMerge ::
  "string option \<Rightarrow> string option \<Rightarrow> string option \<Rightarrow> string option \<Rightarrow> remote \<Rightarrow> (error + unit) \<times> remote" where
  "client_squashMerge repo src dst t r = request (SquashMerge repo src dst t) () id r"

definition client_fastForwardMerge ::
  "string option \<Rightarrow> string option \<Rightarrow> string option \<Rightarrow> remote \<Rightarrow> (error + unit) \<times> remote" where
  "client_fastForwardMerge repo src dst r = request (FastForwardMerge repo src dst) () id r"

text \<open>The answer of \<^verbatim>\<open>updatePrStatus\<close> is the updated pull request, when it exists.\<close>

definition client_updatePrStatus ::
  "string \<Rightarrow> string \<Rightarrow> remote \<Rightarrow> (error + PullRequest option) \<times> remote" where
  "client_updatePrStatus prId st r =
     request (UpdatePrStatus prId st)
       (map_option (\<lambda>p. p\<lparr>pullRequestStatus := Some st\<rparr>) (prs r prId)) (set_status prId st) r"

text \<open>The answer of \<^verbatim>\<open>createPullRequest\<close> is the created pull request.\<close>

definition client_createPr ::
  "string \<Rightarrow> string \<Rightarrow> string \<Rightarrow> string \<Rightarrow> string option \<Rightarrow> remote \<Rightarrow> (error + PullRequest option) \<times> remote" where
  "client_createPr t d src dst repo r =
     request (CreatePr t d src dst repo) (Some (created_pr t d src dst repo r))
       (add_pr (created_pr t d src dst repo r)) r"

definition client_updatePrDescription :: "string \<Rightarrow> string \<Rightarrow> remote \<Rightarrow> (error + unit) \<times> remote" where
  "client_updatePrDescription prId d r =
     request (UpdatePrDescription prId d) () (update_pr prId (\<lambda>p. p\<lparr>pr_description := Some d\<rparr>)) r"

definition client_updatePrTitle :: "string \<Rightarrow> string \<Rightarrow> remote \<Rightarrow> (error + unit) \<times> remote" where
  "client_updatePrTitle prId t r =
     request (UpdatePrTitle prId t) () (update_pr prId (\<lambda>p. p\<lparr>pr_title := Some t\<rparr>)) r"

definition client_createPrApprovalRule :: "string \<Rightarrow> string \<Rightarrow> remote \<Rightarrow> (error + unit) \<times> remote" where
  "client_createPrApprovalRule prId contents r =
     request (CreatePrApprovalRule prId contents) () (add_rule prId contents) r"

text \<open>The answer of \<^verbatim>\<open>getRepository\<close> is the repository's metadata, when it exists.\<close>

definition client_getRepositoryInfo :: "string \<Rightarrow> remote \<Rightarrow> (error + RepositoryMetadata option) \<times> remote" where
  "client_getRepositoryInfo repo r = request (GetRepositoryInfo repo) (repo_metadata r repo) id r"

definition client_listRepositories :: "remote \<Rightarrow> (error + string option list) \<times> remote" where
  "client_listRepositories r = request ListRepositories (repos r) id r"

section \<open>Example service\<close>

text \<open>
  The service of the scenario of the specification (section 8): the listing returns
  \<^verbatim>\<open>["1"]\<close>, pull request 1 is \<open>ex_pull_request\<close>, no request fails, nothing has been
  requested yet.
\<close>

definition ex_remote :: remote where
  "ex_remote = \<lparr>pr_ids = Some [''1''], prs = [''1'' \<mapsto> ex_pull_request], threads = (\<lambda>_. None),
     events = (\<lambda>_. None), repos = [Some ''repo''], approval_rules = (\<lambda>_. []),
     repo_metadata = [''repo'' \<mapsto> \<lparr>rm_defaultBranch = Some ''main'', repositoryId = Some ''id-1''\<rparr>], fails = (\<lambda>_. False),
     next_id = 2, calls = []\<rparr>"

section \<open>Facts every client operation shares\<close>

lemma request_fails [simp]:
  "fails r c \<Longrightarrow> request c v eff r = (Inl RemoteError, log_call c r)"
  by (simp add: request_def)

lemma request_ok [simp]:
  "\<not> fails r c \<Longrightarrow> request c v eff r = (Inr v, eff (log_call c r))"
  by (simp add: request_def)

lemma calls_request:
  "(\<And>r. calls (eff r) = calls r) \<Longrightarrow> calls (snd (request c v eff r)) = calls r @ [c]"
  by (simp add: request_def log_call_def)

lemma log_call_simps [simp]:
  "calls (log_call c r) = calls r @ [c]"
  "fails (log_call c r) = fails r"
  "prs (log_call c r) = prs r"
  "pr_ids (log_call c r) = pr_ids r"
  "threads (log_call c r) = threads r"
  "events (log_call c r) = events r"
  "repos (log_call c r) = repos r"
  "next_id (log_call c r) = next_id r"
  "approval_rules (log_call c r) = approval_rules r"
  "repo_metadata (log_call c r) = repo_metadata r"
  by (simp_all add: log_call_def)

lemma log_call_update_calls [simp]: "(log_call c r)\<lparr>calls := xs\<rparr> = r\<lparr>calls := xs\<rparr>"
  by (simp add: log_call_def)

lemma map_comments_simps [simp]:
  "calls (map_comments f r) = calls r"
  "fails (map_comments f r) = fails r"
  "prs (map_comments f r) = prs r"
  "pr_ids (map_comments f r) = pr_ids r"
  "events (map_comments f r) = events r"
  by (simp_all add: map_comments_def)

lemma add_thread_simps [simp]:
  "calls (add_thread p b r) = calls r"
  "fails (add_thread p b r) = fails r"
  "prs (add_thread p b r) = prs r"
  "pr_ids (add_thread p b r) = pr_ids r"
  "events (add_thread p b r) = events r"
  by (simp_all add: add_thread_def)

lemma threads_add_thread [simp]:
  "threads (add_thread p b r) = (threads r)(p := Some ((case threads r p of None \<Rightarrow> [] | Some ts \<Rightarrow> ts)
     @ [Some [\<lparr>commentId = Some (fresh_comment_id r), content = Some b\<rparr>]]))"
  by (simp add: add_thread_def)

lemma fresh_comment_id_log_call [simp]: "fresh_comment_id (log_call c r) = fresh_comment_id r"
  by (simp add: fresh_comment_id_def)

lemma threads_map_comments [simp]:
  "threads (map_comments f r) p = map_option (map (map_option (map f))) (threads r p)"
  by (simp add: map_comments_def)

lemma set_status_simps [simp]:
  "calls (set_status p s r) = calls r"
  "fails (set_status p s r) = fails r"
  "threads (set_status p s r) = threads r"
  "events (set_status p s r) = events r"
  by (simp_all add: set_status_def)

lemma fresh_pr_id_log_call [simp]: "fresh_pr_id (log_call c r) = fresh_pr_id r"
  by (simp add: fresh_pr_id_def)

lemma created_pr_log_call [simp]: "created_pr t d src dst repo (log_call c r) = created_pr t d src dst repo r"
  by (simp add: created_pr_def)

lemma add_pr_simps [simp]:
  "calls (add_pr p r) = calls r"
  "fails (add_pr p r) = fails r"
  "prs (add_pr p r) = (prs r)(fresh_pr_id r \<mapsto> p)"
  "threads (add_pr p r) = threads r"
  "events (add_pr p r) = events r"
  "approval_rules (add_pr p r) = approval_rules r"
  by (simp_all add: add_pr_def)

lemma update_pr_simps [simp]:
  "calls (update_pr i f r) = calls r"
  "fails (update_pr i f r) = fails r"
  "pr_ids (update_pr i f r) = pr_ids r"
  "prs (update_pr i f r) = (prs r)(i := map_option f (prs r i))"
  "threads (update_pr i f r) = threads r"
  "events (update_pr i f r) = events r"
  "approval_rules (update_pr i f r) = approval_rules r"
  by (simp_all add: update_pr_def)

lemma add_rule_simps [simp]:
  "calls (add_rule i c r) = calls r"
  "fails (add_rule i c r) = fails r"
  "pr_ids (add_rule i c r) = pr_ids r"
  "prs (add_rule i c r) = prs r"
  "threads (add_rule i c r) = threads r"
  "events (add_rule i c r) = events r"
  "approval_rules (add_rule i c r) = (approval_rules r)(i := approval_rules r i @ [c])"
  by (simp_all add: add_rule_def)

lemmas client_defs = client_listPullRequests_def client_getPr_def client_getPrComments_def
  client_getPrEvents_def client_createPrComment_def client_updateComment_def
  client_deleteComment_def client_squashMerge_def client_fastForwardMerge_def
  client_updatePrStatus_def client_listRepositories_def client_createPr_def
  client_updatePrDescription_def client_updatePrTitle_def client_createPrApprovalRule_def
  client_getRepositoryInfo_def

lemma fresh_comment_id_ne [simp]: "fresh_comment_id r \<noteq> []"
  by (simp add: fresh_comment_id_def)

end
