(* ===== verification/PR_Directory.thy ===== *)
theory PR_Directory
  imports State_Translator CC_Client
begin

text \<open>
  The pull-request directory of \<^verbatim>\<open>index.ts\<close>: the cached listing \<^verbatim>\<open>getPrList\<close>
  (lines 152--197), the lookup \<^verbatim>\<open>findPr\<close> (199--233), \<^verbatim>\<open>getBranchPr\<close> (235--242),
  the uncached fetch \<^verbatim>\<open>getPr\<close> (244--271) and the repository discovery \<^verbatim>\<open>getRepos\<close>
  (273--296). The listing reads and fills the session's cache slot \<open>prList\<close>; every
  operation threads the remote service, whose log records each request.
\<close>

section \<open>Definitions\<close>

text \<open>
  The loop of \<^verbatim>\<open>getPrList\<close> over the listed identifiers (lines 172--191): fetch each,
  skip one without data (a rejected fetch has none: the client catches it), translate
  the others in order. A \<open>TypeError\<close> of the translation leaves the loop and the
  function.
\<close>

fun fetch_prs :: "string list \<Rightarrow> Pr list \<Rightarrow> remote \<Rightarrow> (error + Pr list) \<times> remote" where
  "fetch_prs [] acc r = (Inr acc, r)"
| "fetch_prs (prId # ids) acc r = (case client_getPr prId r of
       (None, r') \<Rightarrow> fetch_prs ids acc r'
     | (Some p, r') \<Rightarrow> (case pr_of_listing prId p of
          Inl e \<Rightarrow> (Inl e, r')
        | Inr pr \<Rightarrow> fetch_prs ids (acc @ [pr]) r'))"

text \<open>
  A populated cache (an empty list is populated too: \<^verbatim>\<open>[]\<close> is truthy) is returned with
  no request. A listing without \<^verbatim>\<open>pullRequestIds\<close> returns the empty list without
  caching it.
\<close>

definition getPrList :: "Config \<Rightarrow> remote \<Rightarrow> (error + Pr list) \<times> Config \<times> remote" where
  "getPrList cfg r = (case prList cfg of
       Some ps \<Rightarrow> (Inr ps, cfg, r)
     | None \<Rightarrow> (case client_listPullRequests (repository cfg) (userArn cfg) r of
          (Inl e, r1) \<Rightarrow> (Inl e, cfg, r1)
        | (Inr None, r1) \<Rightarrow> (Inr [], cfg, r1)
        | (Inr (Some ids), r1) \<Rightarrow> (case fetch_prs ids [] r1 of
             (Inl e, r2) \<Rightarrow> (Inl e, cfg, r2)
           | (Inr ps, r2) \<Rightarrow> (Inr ps, cfg\<lparr>prList := Some ps\<rparr>, r2))))"

text \<open>
  \<^verbatim>\<open>getNewBranchName\<close> of \<^verbatim>\<open>platform/util\<close> (not among the sources): a non-empty
  branch name without the \<^verbatim>\<open>refs/heads/\<close> prefix gets it.
\<close>

definition getNewBranchName :: "string \<Rightarrow> string" where
  "getNewBranchName b = (if b \<noteq> [] \<and> \<not> starts_with b ''refs/heads/'' then ''refs/heads/'' @ b else b)"

text \<open>
  The \<^verbatim>\<open>switch\<close> on the requested state: \<open>All\<close> keeps everything, \<open>NotOpen\<close> keeps
  what is not open, and the \<^verbatim>\<open>default\<close> branch, taken for \<open>Open\<close>, \<open>Closed\<close> and
  \<open>Merged\<close> alike, keeps what is open.
\<close>

definition state_filter :: "PrState \<Rightarrow> Pr \<Rightarrow> bool" where
  "state_filter st pr = (case st of
       All \<Rightarrow> True
     | NotOpen \<Rightarrow> state pr \<noteq> Open
     | _ \<Rightarrow> state pr = Open)"

definition filter_prs :: "string \<Rightarrow> string option \<Rightarrow> PrState \<Rightarrow> Pr list \<Rightarrow> Pr list" where
  "filter_prs branchName prTitle st items =
     (let ref = getNewBranchName branchName;
          f1 = filter (\<lambda>item. sourceBranch item = Some ref) items;
          f2 = (if js_truthy prTitle then filter (\<lambda>item. title item = prTitle) f1 else f1)
      in filter (state_filter st) f2)"

text \<open>A failure of the listing is caught: the filtered list stays empty.\<close>

definition findPr ::
  "Config \<Rightarrow> string \<Rightarrow> string option \<Rightarrow> PrState \<Rightarrow> remote \<Rightarrow> (error + Pr option) \<times> Config \<times> remote" where
  "findPr cfg branchName prTitle st r = (case getPrList cfg r of
       (Inl e, cfg', r') \<Rightarrow> (Inr None, cfg', r')
     | (Inr items, cfg', r') \<Rightarrow>
         (Inr (case filter_prs branchName prTitle st items of [] \<Rightarrow> None | pr # _ \<Rightarrow> Some pr), cfg', r'))"

definition getPr :: "js_number \<Rightarrow> remote \<Rightarrow> (error + Pr option) \<times> remote" where
  "getPr n r = (case client_getPr (js_str n) r of
       (None, r') \<Rightarrow> (Inr None, r')
     | (Some p, r') \<Rightarrow> (case pr_of_fetch n p of
          Inl e \<Rightarrow> (Inl e, r')
        | Inr pr \<Rightarrow> (Inr (Some pr), r')))"

definition getBranchPr :: "Config \<Rightarrow> string \<Rightarrow> remote \<Rightarrow> (error + Pr option) \<times> Config \<times> remote" where
  "getBranchPr cfg branchName r = (case findPr cfg branchName None Open r of
       (Inl e, cfg', r') \<Rightarrow> (Inl e, cfg', r')
     | (Inr None, cfg', r') \<Rightarrow> (Inr None, cfg', r')
     | (Inr (Some pr), cfg', r') \<Rightarrow> (case getPr (number pr) r' of (res, r'') \<Rightarrow> (res, cfg', r'')))"

definition repo_names :: "string option list \<Rightarrow> string list" where
  "repo_names names = concat (map (\<lambda>n. case nonempty n of None \<Rightarrow> [] | Some s \<Rightarrow> [s]) names)"

definition getRepos :: "remote \<Rightarrow> (error + string list) \<times> remote" where
  "getRepos r = (case client_listRepositories r of
       (Inl e, r') \<Rightarrow> (Inr [], r')
     | (Inr names, r') \<Rightarrow> (Inr (repo_names names), r'))"

text \<open>
  The reference behaviour of a lookup: the first listed pull request whose source branch
  is the canonical ref of the branch, whose title is the requested one when a title is
  given, and that passes the state filter.
\<close>

definition pr_matches :: "string \<Rightarrow> string option \<Rightarrow> PrState \<Rightarrow> Pr \<Rightarrow> bool" where
  "pr_matches branchName prTitle st pr \<longleftrightarrow>
     sourceBranch pr = Some (getNewBranchName branchName)
     \<and> (js_truthy prTitle \<longrightarrow> title pr = prTitle) \<and> state_filter st pr"

text \<open>
  The reference behaviour of an uncached listing: the translation of every listed
  identifier whose fetch is accepted and has data, in listing order.
\<close>

definition listed_prs :: "remote \<Rightarrow> string list \<Rightarrow> Pr list" where
  "listed_prs r ids = concat (map (\<lambda>i. case (if fails r (GetPr i) then None else prs r i) of
       None \<Rightarrow> []
     | Some p \<Rightarrow> (case pr_of_listing i p of Inl _ \<Rightarrow> [] | Inr pr \<Rightarrow> [pr])) ids)"

text \<open>
  The listed identifiers can all be translated: every pull request with data has a
  first target.
\<close>

definition fetchable :: "remote \<Rightarrow> string list \<Rightarrow> bool" where
  "fetchable r ids \<longleftrightarrow> (\<forall>i \<in> set ids.
     \<forall>p. prs r i = Some p \<longrightarrow> pullRequestTargets p \<noteq> None \<and> pullRequestTargets p \<noteq> Some [])"

text \<open>The listing's entry for the example pull request of \<open>ex_remote\<close>.\<close>

definition ex_listed_pr :: Pr where
  "ex_listed_pr = \<lparr>number = JsInt 1, sourceBranch = Some ''refs/heads/feature'',
     targetBranch = Some ''refs/heads/main'', title = Some ''Update dep'', state = Open,
     sha = None, sourceRepo = None\<rparr>"

section \<open>Lemmas\<close>

lemma fetchable_log_call [simp]: "fetchable (log_call c r) ids = fetchable r ids"
  by (simp add: fetchable_def)

lemma listed_prs_log_call [simp]: "listed_prs (log_call c r) ids = listed_prs r ids"
  by (simp add: listed_prs_def log_call_def cong: if_cong)

lemma fetchable_Cons [simp]:
  "fetchable r (i # ids) \<longleftrightarrow> fetchable r [i] \<and> fetchable r ids"
  by (auto simp: fetchable_def)

lemma pr_of_listing_targets:
  "pullRequestTargets p \<noteq> None \<Longrightarrow> pullRequestTargets p \<noteq> Some [] \<Longrightarrow>
     \<exists>pr. pr_of_listing i p = Inr pr"
  by (auto simp: pr_of_listing_def first_target_def split: option.splits list.splits)

lemma fetch_prs_ok:
  "fetchable r ids \<Longrightarrow>
     fetch_prs ids acc r = (Inr (acc @ listed_prs r ids), r\<lparr>calls := calls r @ map GetPr ids\<rparr>)"
proof (induction ids arbitrary: acc r)
  case Nil
  then show ?case by (simp add: listed_prs_def)
next
  case (Cons i ids)
  then have rest: "fetchable r ids"
    and tg: "\<And>p. prs r i = Some p \<Longrightarrow> pullRequestTargets p \<noteq> None \<and> pullRequestTargets p \<noteq> Some []"
    by (auto simp: fetchable_def)
  let ?d = "if fails r (GetPr i) then None else prs r i"
  have step: "client_getPr i r = (?d, log_call (GetPr i) r)"
    by (simp add: client_getPr_def)
  have IH: "\<And>acc'. fetch_prs ids acc' (log_call (GetPr i) r) =
      (Inr (acc' @ listed_prs r ids), r\<lparr>calls := calls r @ GetPr i # map GetPr ids\<rparr>)"
    using Cons.IH [where r = "log_call (GetPr i) r"] rest by simp
  show ?case
  proof (cases ?d)
    case None
    with step IH show ?thesis by (simp add: listed_prs_def)
  next
    case (Some p)
    then have "prs r i = Some p" by (simp split: if_splits)
    with tg obtain pr where "pr_of_listing i p = Inr pr" using pr_of_listing_targets by blast
    with step IH Some show ?thesis by (simp add: listed_prs_def)
  qed
qed

lemma getPrList_cache_result:
  "getPrList cfg r = (Inr ps, cfg', r') \<Longrightarrow> prList cfg' = None \<or> prList cfg' = Some ps"
  by (auto simp: getPrList_def split: option.splits prod.splits sum.splits)

lemma getPrList_keeps_cache:
  "getPrList cfg r = (res, cfg', r') \<Longrightarrow> prList cfg \<noteq> None \<Longrightarrow> cfg' = cfg \<and> r' = r"
  by (auto simp: getPrList_def)

lemma getPrList_config:
  "getPrList cfg r = (res, cfg', r') \<Longrightarrow> cfg' = cfg \<or> (prList cfg = None \<and> (\<exists>ps. cfg' = cfg\<lparr>prList := Some ps\<rparr>))"
  by (auto simp: getPrList_def split: option.splits prod.splits sum.splits)

lemma filter_prs_eq: "filter_prs b t st items = filter (pr_matches b t st) items"
  by (induction items) (auto simp: filter_prs_def pr_matches_def Let_def)

lemma findPr_result:
  "getPrList cfg r = (res, cfg', r') \<Longrightarrow>
     findPr cfg b t st r = ((case res of Inl _ \<Rightarrow> Inr None | Inr items \<Rightarrow> Inr (find (pr_matches b t st) items)), cfg', r')"
  by (cases res) (simp_all add: findPr_def filter_prs_eq find_filter_hd split: list.splits)

lemma find_pr_matches: "find (pr_matches b t st) items = Some pr \<Longrightarrow> pr_matches b t st pr"
  by (auto simp: find_Some_iff)

lemma set_repo_names: "set (repo_names ns) = {s. Some s \<in> set ns \<and> s \<noteq> []}"
  by (induction ns) (auto simp: repo_names_def nonempty_def split: option.splits)

lemma ex_remote_getPrList:
  "getPrList empty_config ex_remote = (Inr [ex_listed_pr], empty_config\<lparr>prList := Some [ex_listed_pr]\<rparr>,
     ex_remote\<lparr>calls := [ListPullRequests None None, GetPr ''1'']\<rparr>)"
  by (simp add: getPrList_def empty_config_def client_defs ex_remote_def ex_pull_request_def
      ex_target_def pr_of_listing_def listed_state_def ex_listed_pr_def)

section \<open>Properties\<close>

text \<open>
  A populated cache is returned as it is, without any request to the service: the
  remote, and with it the request log, is left untouched.
\<close>

theorem getPrList_cached:
  "prList cfg = Some ps \<Longrightarrow> getPrList cfg r = (Inr ps, cfg, r)"
  by (simp add: getPrList_def)

text \<open>
  C3. Cache stability: once a listing has filled the cache, every later listing in the
  session returns the same sequence, whatever the service holds by then, and issues no
  request.
\<close>

theorem getPrList_snapshot:
  assumes "getPrList cfg r = (Inr ps, cfg', r')" and "prList cfg' \<noteq> None"
  shows "getPrList cfg' r'' = (Inr ps, cfg', r'')"
proof -
  from getPrList_cache_result [OF assms(1)] assms(2) have "prList cfg' = Some ps" by auto
  then show ?thesis by (simp add: getPrList_def)
qed

text \<open>
  C4. A listing response without \<^verbatim>\<open>pullRequestIds\<close> yields the empty sequence and is
  not cached: the session is unchanged, so the next listing asks the service again.
\<close>

theorem getPrList_unlisted_not_cached:
  assumes "prList cfg = None" and "\<not> fails r (ListPullRequests (repository cfg) (userArn cfg))"
    and "pr_ids r = None"
  shows "getPrList cfg r = (Inr [], cfg, log_call (ListPullRequests (repository cfg) (userArn cfg)) r)"
  using assms by (simp add: getPrList_def client_listPullRequests_def)

text \<open>
  C5. An uncached listing whose pull requests can all be fetched requests the listing and
  then each identifier once, in order; it returns the translations of the identifiers
  that have data, in listing order, and caches exactly that sequence.
\<close>

theorem getPrList_lists:
  assumes "prList cfg = None" and "\<not> fails r (ListPullRequests (repository cfg) (userArn cfg))"
    and "pr_ids r = Some ids" and "fetchable r ids"
  shows "getPrList cfg r = (Inr (listed_prs r ids), cfg\<lparr>prList := Some (listed_prs r ids)\<rparr>,
           r\<lparr>calls := calls r @ ListPullRequests (repository cfg) (userArn cfg) # map GetPr ids\<rparr>)"
  using assms fetch_prs_ok [of "log_call (ListPullRequests (repository cfg) (userArn cfg)) r" ids "[]"]
  by (simp add: getPrList_def client_listPullRequests_def)

text \<open>
  C6. \<^verbatim>\<open>findPr\<close> returns the first pull request of the directory, in directory order,
  whose source branch is the canonical ref of the branch, whose title is the requested
  one when a title is given, and that passes the state filter; absent when there is none.
\<close>

theorem findPr_first_match:
  "getPrList cfg r = (Inr items, cfg', r') \<Longrightarrow>
     findPr cfg b t st r = (Inr (find (pr_matches b t st) items), cfg', r')"
  by (simp add: findPr_def filter_prs_eq find_filter_hd split: list.splits)

text \<open>
  A failure of the listing is not propagated: \<^verbatim>\<open>findPr\<close> resolves to absent, with
  the session and the service as the failed listing left them.
\<close>

theorem findPr_listing_error:
  "getPrList cfg r = (Inl e, cfg', r') \<Longrightarrow> findPr cfg b t st r = (Inr None, cfg', r')"
  using findPr_result [of cfg r "Inl e" cfg' r' b t st] by simp

text \<open>
  C7. For any requested state other than \<open>All\<close> and \<open>NotOpen\<close>, \<^verbatim>\<open>findPr\<close> only
  returns open pull requests: a request for \<open>Closed\<close> or \<open>Merged\<close> pull requests is
  answered with an open one, through the \<^verbatim>\<open>default\<close> branch of the \<^verbatim>\<open>switch\<close>.
\<close>

theorem findPr_default_state_open:
  assumes "st \<noteq> All" and "st \<noteq> NotOpen" and "findPr cfg b t st r = (Inr (Some pr), cfg', r')"
  shows "state pr = Open"
proof -
  obtain res c1 r1 where gl: "getPrList cfg r = (res, c1, r1)" by (metis prod.exhaust)
  with assms(3) findPr_result [OF gl, of b t st] obtain items where
    "find (pr_matches b t st) items = Some pr"
    by (auto split: sum.splits)
  then have "state_filter st pr" by (auto dest: find_pr_matches simp: pr_matches_def)
  with assms(1,2) show ?thesis by (cases st) (simp_all add: state_filter_def)
qed

text \<open>
  C8. \<^verbatim>\<open>getBranchPr\<close> answers with a fresh fetch of the pull request the (possibly
  stale) directory found open for the branch: its result is the single-fetch translation
  of what the service holds now, not the cached entry.
\<close>

theorem getBranchPr_refetches:
  assumes "findPr cfg b None Open r = (Inr (Some pr), cfg', r1)"
    and "\<not> fails r1 (GetPr (js_str (number pr)))" and "prs r1 (js_str (number pr)) = Some p"
  shows "getBranchPr cfg b r =
           ((case pr_of_fetch (number pr) p of Inl e \<Rightarrow> Inl e | Inr pr' \<Rightarrow> Inr (Some pr')),
            cfg', log_call (GetPr (js_str (number pr))) r1)"
  using assms by (simp add: getBranchPr_def getPr_def client_getPr_def split: sum.splits)

text \<open>
  Repository discovery is best effort: it always resolves, with the empty list when
  the listing request fails, and otherwise with the non-empty repository names.
\<close>

theorem getRepos_best_effort:
  "\<exists>names. getRepos r = (Inr names, log_call ListRepositories r)
     \<and> (fails r ListRepositories \<longrightarrow> names = [])
     \<and> (\<not> fails r ListRepositories \<longrightarrow> set names = {s. Some s \<in> set (repos r) \<and> s \<noteq> []})"
  by (cases "fails r ListRepositories")
    (simp_all add: getRepos_def client_listRepositories_def set_repo_names)

section \<open>Witnesses\<close>

theorem getPrList_cached_witness:
  "getPrList (empty_config\<lparr>prList := Some []\<rparr>) ex_remote = (Inr [], empty_config\<lparr>prList := Some []\<rparr>, ex_remote)"
  using getPrList_cached [of "empty_config\<lparr>prList := Some []\<rparr>" "[]" ex_remote] by simp

theorem getPrList_snapshot_witness:
  "getPrList empty_config ex_remote = (Inr [ex_listed_pr], empty_config\<lparr>prList := Some [ex_listed_pr]\<rparr>,
       ex_remote\<lparr>calls := [ListPullRequests None None, GetPr ''1'']\<rparr>)
   \<and> getPrList (empty_config\<lparr>prList := Some [ex_listed_pr]\<rparr>) (ex_remote\<lparr>pr_ids := Some []\<rparr>)
     = (Inr [ex_listed_pr], empty_config\<lparr>prList := Some [ex_listed_pr]\<rparr>, ex_remote\<lparr>pr_ids := Some []\<rparr>)"
  using ex_remote_getPrList
    getPrList_snapshot [OF ex_remote_getPrList, of "ex_remote\<lparr>pr_ids := Some []\<rparr>"] by simp

theorem getPrList_unlisted_not_cached_witness:
  "getPrList empty_config (ex_remote\<lparr>pr_ids := None\<rparr>)
     = (Inr [], empty_config, log_call (ListPullRequests None None) (ex_remote\<lparr>pr_ids := None\<rparr>))"
  using getPrList_unlisted_not_cached [of empty_config "ex_remote\<lparr>pr_ids := None\<rparr>"]
  by (simp add: empty_config_def ex_remote_def)

theorem getPrList_lists_witness:
  "getPrList empty_config ex_remote = (Inr [ex_listed_pr], empty_config\<lparr>prList := Some [ex_listed_pr]\<rparr>,
     ex_remote\<lparr>calls := [ListPullRequests None None, GetPr ''1'']\<rparr>)"
proof -
  have f: "fetchable ex_remote [''1'']"
    by (simp add: fetchable_def ex_remote_def ex_pull_request_def)
  have l: "listed_prs ex_remote [''1''] = [ex_listed_pr]"
    by (simp add: listed_prs_def ex_remote_def ex_pull_request_def ex_target_def pr_of_listing_def
        listed_state_def ex_listed_pr_def)
  show ?thesis
    using getPrList_lists [of empty_config ex_remote "[''1'']", OF _ _ _ f] l
    by (simp add: empty_config_def ex_remote_def)
qed

theorem findPr_first_match_witness:
  "findPr empty_config ''feature'' None Open ex_remote
     = (Inr (Some ex_listed_pr), empty_config\<lparr>prList := Some [ex_listed_pr]\<rparr>,
        ex_remote\<lparr>calls := [ListPullRequests None None, GetPr ''1'']\<rparr>)"
  using findPr_first_match [OF ex_remote_getPrList, of "''feature''" None Open]
  by (simp add: pr_matches_def getNewBranchName_def ex_listed_pr_def state_filter_def)

theorem findPr_listing_error_witness:
  "findPr empty_config ''feature'' None Open (ex_remote\<lparr>fails := (\<lambda>c. c = ListPullRequests None None)\<rparr>)
     = (Inr None, empty_config,
        log_call (ListPullRequests None None) (ex_remote\<lparr>fails := (\<lambda>c. c = ListPullRequests None None)\<rparr>))"
proof -
  have "getPrList empty_config (ex_remote\<lparr>fails := (\<lambda>c. c = ListPullRequests None None)\<rparr>)
      = (Inl RemoteError, empty_config,
         log_call (ListPullRequests None None) (ex_remote\<lparr>fails := (\<lambda>c. c = ListPullRequests None None)\<rparr>))"
    by (simp add: getPrList_def empty_config_def client_listPullRequests_def)
  from findPr_listing_error [OF this] show ?thesis .
qed

theorem findPr_default_state_open_witness:
  "findPr empty_config ''feature'' None Closed ex_remote
     = (Inr (Some ex_listed_pr), empty_config\<lparr>prList := Some [ex_listed_pr]\<rparr>,
        ex_remote\<lparr>calls := [ListPullRequests None None, GetPr ''1'']\<rparr>)
   \<and> state ex_listed_pr = Open"
proof -
  have f: "findPr empty_config ''feature'' None Closed ex_remote
     = (Inr (Some ex_listed_pr), empty_config\<lparr>prList := Some [ex_listed_pr]\<rparr>,
        ex_remote\<lparr>calls := [ListPullRequests None None, GetPr ''1'']\<rparr>)"
    using findPr_result [OF ex_remote_getPrList, of "''feature''" None Closed]
    by (simp add: pr_matches_def getNewBranchName_def ex_listed_pr_def state_filter_def)
  with findPr_default_state_open [OF _ _ f] show ?thesis by simp
qed

theorem getBranchPr_refetches_witness:
  "getBranchPr (empty_config\<lparr>prList := Some [ex_listed_pr]\<rparr>) ''feature''
      (ex_remote\<lparr>prs := [''1'' \<mapsto> ex_pull_request\<lparr>pullRequestStatus := Some ''CLOSED'',
          pullRequestTargets := Some [ex_target\<lparr>mergeMetadata := Some \<lparr>isMerged = Some True\<rparr>\<rparr>]\<rparr>]\<rparr>)
   = (Inr (Some \<lparr>number = JsInt 1, sourceBranch = Some ''refs/heads/feature'',
         targetBranch = Some ''refs/heads/main'', title = Some ''Update dep'', state = Merged,
         sha = Some ''rev1'', sourceRepo = None\<rparr>),
      empty_config\<lparr>prList := Some [ex_listed_pr]\<rparr>,
      log_call (GetPr ''1'') (ex_remote\<lparr>prs := [''1'' \<mapsto> ex_pull_request\<lparr>pullRequestStatus := Some ''CLOSED'',
          pullRequestTargets := Some [ex_target\<lparr>mergeMetadata := Some \<lparr>isMerged = Some True\<rparr>\<rparr>]\<rparr>]\<rparr>))"
proof -
  let ?p = "ex_pull_request\<lparr>pullRequestStatus := Some ''CLOSED'',
          pullRequestTargets := Some [ex_target\<lparr>mergeMetadata := Some \<lparr>isMerged = Some True\<rparr>\<rparr>]\<rparr>"
  let ?r = "ex_remote\<lparr>prs := [''1'' \<mapsto> ?p]\<rparr>"
  let ?c = "empty_config\<lparr>prList := Some [ex_listed_pr]\<rparr>"
  have f: "findPr ?c ''feature'' None Open ?r = (Inr (Some ex_listed_pr), ?c, ?r)"
    by (simp add: findPr_def getPrList_def filter_prs_eq pr_matches_def getNewBranchName_def
        ex_listed_pr_def state_filter_def)
  have ok: "\<not> fails ?r (GetPr (js_str (number ex_listed_pr)))"
    by (simp add: ex_remote_def ex_listed_pr_def)
  have p: "prs ?r (js_str (number ex_listed_pr)) = Some ?p"
    by (simp add: ex_listed_pr_def)
  show ?thesis
    using getBranchPr_refetches [OF f ok p]
    by (simp add: ex_listed_pr_def pr_of_fetch_def ex_pull_request_def ex_target_def
        derived_state_def merged_flag_def)
qed

theorem getRepos_best_effort_witness:
  "\<exists>names. getRepos ex_remote = (Inr names, log_call ListRepositories ex_remote) \<and> set names = {''repo''}"
  using getRepos_best_effort [of ex_remote] by (auto simp: ex_remote_def)

end
