(* ===== verification/Comment_Reconciler.thy ===== *)
theory Comment_Reconciler
  imports CC_Client
begin

text \<open>
  The comment reconciler of \<^verbatim>\<open>index.ts\<close>: \<^verbatim>\<open>ensureComment\<close> (lines 577--663) keeps one
  comment thread per pull request and topic, creating it, updating its root comment
  in place, or leaving it alone; \<^verbatim>\<open>ensureCommentRemoval\<close> (665--715) deletes the
  first comment that carries a topic header or a given content. The sanitiser
  \<^verbatim>\<open>sanitize\<close> (\<^verbatim>\<open>util/sanitize\<close>, not among the sources) is a parameter: every
  result holds for any sanitiser.
\<close>

section \<open>Definitions\<close>

definition topic_header :: "string \<Rightarrow> string" where
  "topic_header t = ''### '' @ t @ nl @ nl"

text \<open>\<^verbatim>\<open>const header = topic ? `### ${topic}\n\n` : ''\<close>\<close>

definition comment_header :: "string option \<Rightarrow> string" where
  "comment_header topic = (case nonempty topic of None \<Rightarrow> [] | Some t \<Rightarrow> topic_header t)"

text \<open>
  The condition of line 610: with a topic, the root's content starts with the header;
  without one, it is the whole body.
\<close>

definition root_matches :: "string option \<Rightarrow> string \<Rightarrow> string \<Rightarrow> string option \<Rightarrow> bool" where
  "root_matches topic header body first =
     (if js_truthy topic then (case first of None \<Rightarrow> False | Some c \<Rightarrow> starts_with c header)
      else first = Some body)"

text \<open>
  The scan of lines 604--618: threads without a \<^verbatim>\<open>comments\<close> array are skipped; the
  root \<^verbatim>\<open>comments[0]\<close> of an empty array is \<^verbatim>\<open>undefined\<close>, and reading its content
  throws; the first matching root gives the comment id and whether its content differs
  from the body.
\<close>

fun find_thread ::
  "string option \<Rightarrow> string \<Rightarrow> string \<Rightarrow> CommentsForPullRequest list \<Rightarrow> error + (string option \<times> bool) option" where
  "find_thread topic header body [] = Inr None"
| "find_thread topic header body (th # ths) = (case th of
       None \<Rightarrow> find_thread topic header body ths
     | Some [] \<Rightarrow> Inl TypeError
     | Some (c # _) \<Rightarrow>
         (if root_matches topic header body (content c)
          then Inr (Some (commentId c, content c \<noteq> Some body))
          else find_thread topic header body ths))"

text \<open>
  Creating a thread (lines 620--647): the commit anchors are those of the first event
  the service lists; an empty event list makes \<^verbatim>\<open>pullRequestEvents[0]\<close> \<^verbatim>\<open>undefined\<close>,
  and reading its metadata throws.
\<close>

definition create_comment :: "Config \<Rightarrow> js_number \<Rightarrow> string \<Rightarrow> remote \<Rightarrow> (error + bool) \<times> remote" where
  "create_comment cfg num body r = (case client_getPrEvents (js_str num) r of
       (Inl e, r1) \<Rightarrow> (Inl e, r1)
     | (Inr None, r1) \<Rightarrow> (Inr False, r1)
     | (Inr (Some []), r1) \<Rightarrow> (Inl TypeError, r1)
     | (Inr (Some (ev # _)), r1) \<Rightarrow> (case ev of
          None \<Rightarrow> (Inr False, r1)
        | Some m \<Rightarrow> (case (nonempty (beforeCommitId m), nonempty (afterCommitId m)) of
             (Some before, Some after) \<Rightarrow>
               (case client_createPrComment (js_str num) (repository cfg) body before after r1 of
                  (Inl e, r2) \<Rightarrow> (Inl e, r2)
                | (Inr _, r2) \<Rightarrow> (Inr True, r2))
           | _ \<Rightarrow> (Inr False, r1))))"

definition ensureComment ::
  "Config \<Rightarrow> (string \<Rightarrow> string) \<Rightarrow> js_number \<Rightarrow> string option \<Rightarrow> string \<Rightarrow> remote \<Rightarrow> (error + bool) \<times> remote" where
  "ensureComment cfg sanitize num topic contentStr r =
     (let header = comment_header topic;
          body = header @ sanitize contentStr
      in case client_getPrComments (repository cfg) (js_str num) r of
           (Inl e, r1) \<Rightarrow> (Inr False, r1)
         | (Inr None, r1) \<Rightarrow> (Inr False, r1)
         | (Inr (Some ths), r1) \<Rightarrow> (case find_thread topic header body ths of
              Inl e \<Rightarrow> (Inl e, r1)
            | Inr None \<Rightarrow> create_comment cfg num body r1
            | Inr (Some (cid, needsUpdating)) \<Rightarrow> (case nonempty cid of
                 None \<Rightarrow> create_comment cfg num body r1
               | Some i \<Rightarrow>
                   (if needsUpdating
                    then (case client_updateComment i body r1 of
                            (Inl e, r2) \<Rightarrow> (Inl e, r2)
                          | (Inr _, r2) \<Rightarrow> (Inr True, r2))
                    else (Inr True, r1)))))"

text \<open>The removal key of \<^verbatim>\<open>EnsureCommentRemovalConfig\<close>.\<close>

datatype RemovalKey = ByTopic string | ByContent string

definition removal_matches :: "RemovalKey \<Rightarrow> string option \<Rightarrow> bool" where
  "removal_matches k c = (case c of
       None \<Rightarrow> False
     | Some s \<Rightarrow> (case k of ByTopic t \<Rightarrow> starts_with s (topic_header t) | ByContent x \<Rightarrow> x = js_trim s))"

text \<open>
  The scan of lines 692--714: in each thread with comments, the first matching comment;
  its id, when truthy, is the one to delete and ends the scan; otherwise the scan goes on
  with the next thread.
\<close>

fun removal_target :: "RemovalKey \<Rightarrow> CommentsForPullRequest list \<Rightarrow> string option" where
  "removal_target k [] = None"
| "removal_target k (th # ths) = (case th of
       None \<Rightarrow> removal_target k ths
     | Some cs \<Rightarrow> (case find (\<lambda>c. removal_matches k (content c)) cs of
          None \<Rightarrow> removal_target k ths
        | Some c \<Rightarrow> (case nonempty (commentId c) of
             None \<Rightarrow> removal_target k ths
           | Some i \<Rightarrow> Some i)))"

definition ensureCommentRemoval :: "Config \<Rightarrow> js_number \<Rightarrow> RemovalKey \<Rightarrow> remote \<Rightarrow> (error + unit) \<times> remote" where
  "ensureCommentRemoval cfg num k r = (case client_getPrComments (repository cfg) (js_str num) r of
       (Inl e, r1) \<Rightarrow> (Inr (), r1)
     | (Inr None, r1) \<Rightarrow> (Inr (), r1)
     | (Inr (Some ths), r1) \<Rightarrow> (case removal_target k ths of
          None \<Rightarrow> (Inr (), r1)
        | Some i \<Rightarrow> (case client_deleteComment i r1 of
             (Inl e, r2) \<Rightarrow> (Inl e, r2)
           | (Inr _, r2) \<Rightarrow> (Inr (), r2))))"

text \<open>
  Well-formedness of a pull request's comments on the service: every comment has a
  non-empty id, as CodeCommit assigns one to each comment.
\<close>

definition comment_ids_ok :: "CommentsForPullRequest list \<Rightarrow> bool" where
  "comment_ids_ok ths \<longleftrightarrow> (\<forall>th \<in> set ths. case th of None \<Rightarrow> True | Some cs \<Rightarrow> (\<forall>c \<in> set cs. js_truthy (commentId c)))"

definition threads_ok :: "remote \<Rightarrow> string \<Rightarrow> bool" where
  "threads_ok r p \<longleftrightarrow> (case threads r p of None \<Rightarrow> True | Some ths \<Rightarrow> comment_ids_ok ths)"

text \<open>A thread the scan passes over: one without a \<^verbatim>\<open>comments\<close> array, or one whose
  root does not match.\<close>

definition thread_passed :: "string option \<Rightarrow> string \<Rightarrow> string \<Rightarrow> CommentsForPullRequest \<Rightarrow> bool" where
  "thread_passed topic header body th = (case th of
       None \<Rightarrow> True
     | Some [] \<Rightarrow> False
     | Some (c # _) \<Rightarrow> \<not> root_matches topic header body (content c))"

text \<open>
  Example data for the witnesses: a thread whose root (id \<^verbatim>\<open>c7\<close>) carries the header of
  topic \<^verbatim>\<open>status\<close>, and a source-reference-updated event with both commit ids.
\<close>

definition ex_status_thread :: CommentsForPullRequest where
  "ex_status_thread = Some [\<lparr>commentId = Some ''c7'', content = Some (topic_header ''status'' @ ''old'')\<rparr>]"

definition ex_events :: "PullRequestEvent list" where
  "ex_events = [Some \<lparr>beforeCommitId = Some ''b1'', afterCommitId = Some ''a1''\<rparr>]"

text \<open>
  Pull request 1 without comments and with one event; pull requests 1 and 7 with the
  \<^verbatim>\<open>status\<close> thread.
\<close>

definition ex_fresh_remote :: remote where
  "ex_fresh_remote = ex_remote\<lparr>threads := [''1'' \<mapsto> []], events := [''1'' \<mapsto> ex_events]\<rparr>"

definition ex_status_remote :: remote where
  "ex_status_remote = ex_remote\<lparr>threads := [''1'' \<mapsto> [ex_status_thread], ''7'' \<mapsto> [ex_status_thread]]\<rparr>"

section \<open>Lemmas\<close>

lemma find_thread_append:
  "find_thread t h b xs = Inr None \<Longrightarrow> find_thread t h b (xs @ ys) = find_thread t h b ys"
  by (induction xs) (auto split: option.splits list.splits if_splits)

lemma find_thread_passed:
  "list_all (thread_passed t h b) pre \<Longrightarrow> root_matches t h b (content root) \<Longrightarrow>
     find_thread t h b (pre @ Some (root # cs) # post) = Inr (Some (commentId root, content root \<noteq> Some b))"
  by (induction pre) (auto simp: thread_passed_def split: option.splits list.splits)

lemma root_matches_body:
  "root_matches topic (comment_header topic) (comment_header topic @ s) (Some (comment_header topic @ s))"
  by (simp add: root_matches_def)

lemma find_thread_update:
  "find_thread t h b ths = Inr (Some (Some i, u)) \<Longrightarrow> root_matches t h b (Some b) \<Longrightarrow>
     find_thread t h b (map (map_option (map (set_content i (Some b)))) ths) = Inr (Some (Some i, False))"
proof (induction ths)
  case Nil
  then show ?case by simp
next
  case (Cons th ths)
  show ?case
  proof (cases th)
    case None
    with Cons show ?thesis by simp
  next
    case (Some cs)
    show ?thesis
    proof (cases cs)
      case Nil
      with Cons.prems Some show ?thesis by simp
    next
      case (Cons c cs')
      show ?thesis
      proof (cases "root_matches t h b (content c)")
        case True
        with Cons.prems \<open>th = Some cs\<close> \<open>cs = c # cs'\<close> have "commentId c = Some i" by simp
        with Cons.prems \<open>th = Some cs\<close> \<open>cs = c # cs'\<close> show ?thesis by (simp add: set_content_def)
      next
        case False
        with Cons.prems \<open>th = Some cs\<close> \<open>cs = c # cs'\<close>
        have "find_thread t h b ths = Inr (Some (Some i, u))" by simp
        with Cons.IH Cons.prems(2) \<open>th = Some cs\<close> \<open>cs = c # cs'\<close> False show ?thesis
          by (simp add: set_content_def)
      qed
    qed
  qed
qed

lemma find_thread_ids:
  "find_thread t h b ths = Inr (Some (cid, u)) \<Longrightarrow> comment_ids_ok ths \<Longrightarrow> js_truthy cid"
  by (induction ths) (auto simp: comment_ids_ok_def split: option.splits list.splits if_splits)

lemma create_comment_True:
  "create_comment cfg num body r = (Inr True, r1) \<Longrightarrow>
     threads r1 = (threads r)(js_str num := Some ((case threads r (js_str num) of None \<Rightarrow> [] | Some ts \<Rightarrow> ts)
        @ [Some [\<lparr>commentId = Some (fresh_comment_id r), content = Some body\<rparr>]]))"
  by (auto simp: create_comment_def client_defs request_def
      split: prod.splits sum.splits option.splits list.splits if_splits)

lemma ensureComment_settled:
  assumes "threads r (js_str num) = Some ths" and "i \<noteq> []"
    and "find_thread topic (comment_header topic) (comment_header topic @ san c) ths = Inr (Some (Some i, False))"
    and "\<not> fails r (GetPrComments (repository cfg) (js_str num))"
  shows "ensureComment cfg san num topic c r = (Inr True, log_call (GetPrComments (repository cfg) (js_str num)) r)"
  using assms by (simp add: ensureComment_def client_getPrComments_def)

lemma ensureComment_True_settles:
  assumes first: "ensureComment cfg san num topic c r = (Inr True, r1)"
    and ok: "threads_ok r (js_str num)"
  shows "\<exists>ths i. threads r1 (js_str num) = Some ths \<and> i \<noteq> [] \<and>
           find_thread topic (comment_header topic) (comment_header topic @ san c) ths = Inr (Some (Some i, False))"
proof -
  let ?p = "js_str num" and ?h = "comment_header topic" and ?b = "comment_header topic @ san c"
  let ?gc = "GetPrComments (repository cfg) (js_str num)"
  have nf: "\<not> fails r ?gc"
  proof
    assume "fails r ?gc"
    with first show False by (simp add: ensureComment_def client_getPrComments_def Let_def)
  qed
  obtain ths where ths: "threads r ?p = Some ths"
  proof (cases "threads r ?p")
    case None
    with first nf show ?thesis by (simp add: ensureComment_def client_getPrComments_def Let_def)
  qed
  from ok ths have ids: "comment_ids_ok ths" by (simp add: threads_ok_def)
  have call: "ensureComment cfg san num topic c r = (case find_thread topic ?h ?b ths of
        Inl e \<Rightarrow> (Inl e, log_call ?gc r)
      | Inr None \<Rightarrow> create_comment cfg num ?b (log_call ?gc r)
      | Inr (Some (cid, u)) \<Rightarrow> (case nonempty cid of
           None \<Rightarrow> create_comment cfg num ?b (log_call ?gc r)
         | Some i \<Rightarrow> (if u then (case client_updateComment i ?b (log_call ?gc r) of
                 (Inl e, r2) \<Rightarrow> (Inl e, r2) | (Inr _, r2) \<Rightarrow> (Inr True, r2))
              else (Inr True, log_call ?gc r))))"
    using nf ths by (simp add: ensureComment_def client_getPrComments_def Let_def)
  show ?thesis
  proof (cases "find_thread topic ?h ?b ths")
    case (Inl e)
    with first call show ?thesis by simp
  next
    case (Inr res)
    show ?thesis
    proof (cases res)
      case None
      with first call Inr have "create_comment cfg num ?b (log_call ?gc r) = (Inr True, r1)" by simp
      then have "threads r1 ?p = Some (ths @ [Some [\<lparr>commentId = Some (fresh_comment_id r), content = Some ?b\<rparr>]])"
        using ths by (simp add: create_comment_True)
      moreover have "find_thread topic ?h ?b (ths @ [Some [\<lparr>commentId = Some (fresh_comment_id r), content = Some ?b\<rparr>]])
          = Inr (Some (Some (fresh_comment_id r), False))"
        using Inr None root_matches_body [of topic "san c"] by (simp add: find_thread_append)
      ultimately show ?thesis by auto
    next
      case (Some f)
      then obtain cid u where f: "res = Some (cid, u)" by (cases f) auto
      with Inr ids have "js_truthy cid" by (blast intro: find_thread_ids)
      then obtain i where cid: "cid = Some i" and i: "i \<noteq> []" by (cases cid) auto
      show ?thesis
      proof (cases u)
        case True
        from first call Inr f cid i True have nfu: "\<not> fails r (UpdateComment i ?b)"
          by (auto simp: client_updateComment_def request_def)
        with first call Inr f cid i True
        have "r1 = map_comments (set_content i (Some ?b)) (log_call (UpdateComment i ?b) (log_call ?gc r))"
          by (simp add: client_updateComment_def)
        then have "threads r1 ?p = Some (map (map_option (map (set_content i (Some ?b)))) ths)"
          using ths by simp
        moreover have "find_thread topic ?h ?b (map (map_option (map (set_content i (Some ?b)))) ths)
            = Inr (Some (Some i, False))"
          using find_thread_update [of topic ?h ?b ths i u] Inr f cid root_matches_body [of topic "san c"]
          by simp
        ultimately show ?thesis using i by auto
      next
        case False
        with first call Inr f cid i have "r1 = log_call ?gc r" by simp
        with ths Inr f cid i False show ?thesis by auto
      qed
    qed
  qed
qed

lemma threads_ok_log_call [simp]: "threads_ok (log_call c r) p = threads_ok r p"
  by (simp add: threads_ok_def)

lemma commentId_set_content [simp]: "commentId (set_content i v c) = commentId c"
  by (simp add: set_content_def)

lemma comment_ids_ok_map:
  "(\<And>c. commentId (f c) = commentId c) \<Longrightarrow> comment_ids_ok (map (map_option (map f)) ths) = comment_ids_ok ths"
  by (induction ths) (auto simp: comment_ids_ok_def split: option.splits)

lemma threads_ok_set_content [simp]:
  "threads_ok (map_comments (set_content i v) r) p = threads_ok r p"
  by (simp add: threads_ok_def comment_ids_ok_map split: option.splits)

lemma threads_ok_add_thread:
  "threads_ok r p \<Longrightarrow> threads_ok (add_thread q b r) p"
  by (auto simp: threads_ok_def comment_ids_ok_def fresh_comment_id_def split: option.splits)

lemma create_comment_threads_ok:
  "create_comment cfg num body r = (res, r') \<Longrightarrow> threads_ok r p \<Longrightarrow> threads_ok r' p"
  by (auto simp: create_comment_def client_defs request_def intro: threads_ok_add_thread
      split: prod.splits sum.splits option.splits list.splits if_splits)

lemma create_comment_snd_threads_ok:
  "threads_ok r p \<Longrightarrow> threads_ok (snd (create_comment cfg num body r)) p"
  using create_comment_threads_ok [of cfg num body r _ "snd (create_comment cfg num body r)" p]
  by (metis prod.collapse)

lemma removal_target_Some:
  "removal_target k ths = Some i \<Longrightarrow>
     i \<noteq> [] \<and> (\<exists>cs c. Some cs \<in> set ths \<and> c \<in> set cs \<and> commentId c = Some i \<and> removal_matches k (content c))"
proof (induction ths)
  case Nil
  then show ?case by simp
next
  case (Cons th ths)
  show ?case
  proof (cases th)
    case None
    with Cons show ?thesis by auto
  next
    case (Some cs)
    show ?thesis
    proof (cases "find (\<lambda>c. removal_matches k (content c)) cs")
      case None
      with Cons \<open>th = Some cs\<close> show ?thesis by auto
    next
      case (Some c)
      show ?thesis
      proof (cases "nonempty (commentId c)")
        case None
        with Cons \<open>th = Some cs\<close> Some show ?thesis by auto
      next
        case (Some j)
        with Cons.prems \<open>th = Some cs\<close> \<open>find _ cs = Some c\<close> have "j = i" by simp
        moreover from \<open>find _ cs = Some c\<close> have "c \<in> set cs \<and> removal_matches k (content c)"
          by (rule find_SomeD)
        ultimately show ?thesis using Some \<open>th = Some cs\<close> by auto
      qed
    qed
  qed
qed

section \<open>Properties\<close>

text \<open>
  C9. Comment idempotence: after a successful \<^verbatim>\<open>ensureComment\<close>, the same call again
  (same pull request, topic and content) issues exactly one request, the comment
  listing, and neither creates nor updates a comment; it succeeds. This holds on a
  service where every comment has an id.
\<close>

theorem ensureComment_idempotent:
  assumes "ensureComment cfg san num topic c r = (Inr True, r1)"
    and "threads_ok r (js_str num)"
    and "\<not> fails r1 (GetPrComments (repository cfg) (js_str num))"
  shows "ensureComment cfg san num topic c r1 = (Inr True, log_call (GetPrComments (repository cfg) (js_str num)) r1)"
proof -
  from ensureComment_True_settles [OF assms(1,2)] obtain ths i where
    t: "threads r1 (js_str num) = Some ths" and i: "i \<noteq> []" and
    f: "find_thread topic (comment_header topic) (comment_header topic @ san c) ths = Inr (Some (Some i, False))"
    by blast
  show ?thesis by (rule ensureComment_settled [where san = san and c = c and topic = topic, OF t i f assms(3)])
qed

text \<open>
  C10. Update path: when the threads before the first matching one are passed over and
  the matching root has a non-empty id and a content other than the composed body,
  \<^verbatim>\<open>ensureComment\<close> requests the comment listing and one update of that root to the
  body, creates nothing, and succeeds.
\<close>

theorem ensureComment_updates:
  assumes "threads r (js_str num) = Some (pre @ Some (root # cs) # post)"
    and "list_all (thread_passed topic (comment_header topic) (comment_header topic @ san c)) pre"
    and "root_matches topic (comment_header topic) (comment_header topic @ san c) (content root)"
    and "commentId root = Some i" and "i \<noteq> []"
    and "content root \<noteq> Some (comment_header topic @ san c)"
    and "\<not> fails r (GetPrComments (repository cfg) (js_str num))"
    and "\<not> fails r (UpdateComment i (comment_header topic @ san c))"
  shows "ensureComment cfg san num topic c r =
           (Inr True, map_comments (set_content i (Some (comment_header topic @ san c)))
              (log_call (UpdateComment i (comment_header topic @ san c))
                (log_call (GetPrComments (repository cfg) (js_str num)) r)))"
proof -
  have "find_thread topic (comment_header topic) (comment_header topic @ san c) (pre @ Some (root # cs) # post)
      = Inr (Some (Some i, True))"
    using find_thread_passed [OF assms(2,3)] assms(4,6) by simp
  with assms(1,5,7,8) show ?thesis
    by (simp add: ensureComment_def client_getPrComments_def client_updateComment_def Let_def)
qed

text \<open>
  C11. Create path: when no thread matches, \<^verbatim>\<open>ensureComment\<close> reads the pull request's
  events and, when the first carries both commit ids, creates one thread anchored at
  them whose root is the composed body, and succeeds.
\<close>

theorem ensureComment_creates:
  assumes "threads r (js_str num) = Some ths"
    and "find_thread topic (comment_header topic) (comment_header topic @ san c) ths = Inr None"
    and "events r (js_str num) = Some (Some m # evs)"
    and "beforeCommitId m = Some bef" and "bef \<noteq> []" and "afterCommitId m = Some aft" and "aft \<noteq> []"
    and "\<not> fails r (GetPrComments (repository cfg) (js_str num))" and "\<not> fails r (GetPrEvents (js_str num))"
    and "\<not> fails r (CreatePrComment (js_str num) (repository cfg) (comment_header topic @ san c) bef aft)"
  shows "ensureComment cfg san num topic c r =
           (Inr True, add_thread (js_str num) (comment_header topic @ san c)
              (log_call (CreatePrComment (js_str num) (repository cfg) (comment_header topic @ san c) bef aft)
                (log_call (GetPrEvents (js_str num)) (log_call (GetPrComments (repository cfg) (js_str num)) r))))"
  using assms by (simp add: ensureComment_def create_comment_def client_defs Let_def)

text \<open>
  A failure to read the comments is not propagated: \<^verbatim>\<open>ensureComment\<close> resolves to
  \<open>false\<close> after that one request, without retrying or writing.
\<close>

theorem ensureComment_listing_fails:
  "fails r (GetPrComments (repository cfg) (js_str num)) \<Longrightarrow>
     ensureComment cfg san num topic c r = (Inr False, log_call (GetPrComments (repository cfg) (js_str num)) r)"
  by (simp add: ensureComment_def client_getPrComments_def Let_def)

text \<open>
  C12. Creation on a pull request without any source-reference-updated event does not
  resolve to \<open>false\<close>: \<^verbatim>\<open>pullRequestEvents[0]\<close> is \<^verbatim>\<open>undefined\<close> and the call rejects
  with a \<open>TypeError\<close>, creating nothing.
\<close>

theorem ensureComment_no_events_rejects:
  assumes "threads r (js_str num) = Some ths"
    and "find_thread topic (comment_header topic) (comment_header topic @ san c) ths = Inr None"
    and "events r (js_str num) = Some []"
    and "\<not> fails r (GetPrComments (repository cfg) (js_str num))" and "\<not> fails r (GetPrEvents (js_str num))"
  shows "ensureComment cfg san num topic c r =
           (Inl TypeError, log_call (GetPrEvents (js_str num)) (log_call (GetPrComments (repository cfg) (js_str num)) r))"
  using assms by (simp add: ensureComment_def create_comment_def client_defs Let_def)

text \<open>
  \<^verbatim>\<open>ensureCommentRemoval\<close> deletes at most one comment per call: after the comment
  listing it issues no request, or one deletion of the scan's target.
\<close>

theorem ensureCommentRemoval_at_most_one:
  "\<exists>ds. calls (snd (ensureCommentRemoval cfg num k r)) = calls r @ GetPrComments (repository cfg) (js_str num) # ds
     \<and> (ds = [] \<or> (\<exists>ths i. threads r (js_str num) = Some ths \<and> removal_target k ths = Some i \<and> ds = [DeleteComment i]))"
  by (cases "fails r (GetPrComments (repository cfg) (js_str num))")
    (auto simp: ensureCommentRemoval_def client_defs request_def
      split: option.splits prod.splits sum.splits if_splits)

text \<open>
  When the scan finds a comment to remove, \<^verbatim>\<open>ensureCommentRemoval\<close> deletes exactly
  that comment (its content is cleared on the service) and nothing else; the target is a
  comment of the pull request with a non-empty id whose content carries the topic header
  or, trimmed, equals the content to remove.
\<close>

theorem ensureCommentRemoval_deletes_target:
  assumes "threads r (js_str num) = Some ths" and "removal_target k ths = Some i"
    and "\<not> fails r (GetPrComments (repository cfg) (js_str num))" and "\<not> fails r (DeleteComment i)"
  shows "ensureCommentRemoval cfg num k r =
           (Inr (), map_comments (set_content i None) (log_call (DeleteComment i)
              (log_call (GetPrComments (repository cfg) (js_str num)) r)))
         \<and> i \<noteq> [] \<and> (\<exists>cs c. Some cs \<in> set ths \<and> c \<in> set cs \<and> commentId c = Some i \<and> removal_matches k (content c))"
  using assms removal_target_Some [OF assms(2)]
  by (simp add: ensureCommentRemoval_def client_defs)

text \<open>
  The reconciler keeps the service's comments well formed: if every comment of a pull
  request has a non-empty id, it still does after \<^verbatim>\<open>ensureComment\<close> and after
  \<^verbatim>\<open>ensureCommentRemoval\<close>, whatever they do.
\<close>

theorem reconciler_keeps_comment_ids:
  assumes "threads_ok r p"
  shows "threads_ok (snd (ensureComment cfg san num topic c r)) p
       \<and> threads_ok (snd (ensureCommentRemoval cfg num k r)) p"
proof
  show "threads_ok (snd (ensureComment cfg san num topic c r)) p"
    using assms
    by (auto simp: ensureComment_def client_defs request_def Let_def create_comment_snd_threads_ok
        split: prod.splits sum.splits option.splits if_splits)
  show "threads_ok (snd (ensureCommentRemoval cfg num k r)) p"
    using assms
    by (auto simp: ensureCommentRemoval_def client_defs request_def
        split: prod.splits sum.splits option.splits if_splits)
qed

section \<open>Witnesses\<close>

lemma ex_fresh_remote_simps [simp]:
  "threads ex_fresh_remote ''1'' = Some []" "events ex_fresh_remote ''1'' = Some ex_events"
  "fails ex_fresh_remote = (\<lambda>_. False)"
  by (simp_all add: ex_fresh_remote_def ex_remote_def)

lemma ex_status_remote_simps [simp]:
  "threads ex_status_remote ''1'' = Some [ex_status_thread]"
  "threads ex_status_remote ''7'' = Some [ex_status_thread]"
  "fails ex_status_remote = (\<lambda>_. False)"
  by (simp_all add: ex_status_remote_def ex_remote_def)

theorem ensureComment_idempotent_witness:
  "\<exists>r1. ensureComment empty_config (\<lambda>s. s) (JsInt 1) (Some ''status'') ''new'' ex_fresh_remote = (Inr True, r1)
     \<and> ensureComment empty_config (\<lambda>s. s) (JsInt 1) (Some ''status'') ''new'' r1
         = (Inr True, log_call (GetPrComments None ''1'') r1)"
proof -
  let ?b = "comment_header (Some ''status'') @ ''new''"
  let ?r1 = "add_thread ''1'' ?b (log_call (CreatePrComment ''1'' None ?b ''b1'' ''a1'')
      (log_call (GetPrEvents ''1'') (log_call (GetPrComments None ''1'') ex_fresh_remote)))"
  have first: "ensureComment empty_config (\<lambda>s. s) (JsInt 1) (Some ''status'') ''new'' ex_fresh_remote = (Inr True, ?r1)"
    by (simp add: ensureComment_def create_comment_def client_defs empty_config_def ex_events_def Let_def)
  have ok: "threads_ok ex_fresh_remote (js_str (JsInt 1))"
    by (simp add: threads_ok_def comment_ids_ok_def)
  have nf: "\<not> fails ?r1 (GetPrComments (repository empty_config) (js_str (JsInt 1)))"
    by simp
  from ensureComment_idempotent [OF first ok nf] first show ?thesis
    by (auto simp: empty_config_def)
qed

theorem ensureComment_updates_witness:
  "ensureComment empty_config (\<lambda>s. s) (JsInt 1) (Some ''status'') ''new'' ex_status_remote
     = (Inr True, map_comments (set_content ''c7'' (Some (comment_header (Some ''status'') @ ''new'')))
          (log_call (UpdateComment ''c7'' (comment_header (Some ''status'') @ ''new''))
            (log_call (GetPrComments None ''1'') ex_status_remote)))"
proof -
  let ?root = "\<lparr>commentId = Some ''c7'', content = Some (topic_header ''status'' @ ''old'')\<rparr>"
  have t: "threads ex_status_remote (js_str (JsInt 1)) = Some ([] @ Some (?root # []) # [])"
    by (simp add: ex_status_thread_def)
  have m: "root_matches (Some ''status'') (comment_header (Some ''status''))
      (comment_header (Some ''status'') @ ''new'') (content ?root)"
    by (simp add: root_matches_def comment_header_def)
  have d: "content ?root \<noteq> Some (comment_header (Some ''status'') @ ''new'')"
    by (simp add: comment_header_def topic_header_def)
  show ?thesis
    using ensureComment_updates [where san = "\<lambda>s. s" and c = "''new''" and cfg = empty_config
        and i = "''c7''", OF t _ m _ _ d]
    by (simp add: empty_config_def ex_status_remote_def ex_remote_def)
qed

theorem ensureComment_creates_witness:
  "ensureComment empty_config (\<lambda>s. s) (JsInt 1) (Some ''status'') ''new'' ex_fresh_remote
     = (Inr True, add_thread ''1'' (comment_header (Some ''status'') @ ''new'')
          (log_call (CreatePrComment ''1'' None (comment_header (Some ''status'') @ ''new'') ''b1'' ''a1'')
            (log_call (GetPrEvents ''1'') (log_call (GetPrComments None ''1'') ex_fresh_remote))))"
proof -
  have t: "threads ex_fresh_remote (js_str (JsInt 1)) = Some []" by simp
  have f: "find_thread (Some ''status'') (comment_header (Some ''status'')) (comment_header (Some ''status'') @ ''new'') []
      = Inr None" by simp
  have e: "events ex_fresh_remote (js_str (JsInt 1))
      = Some (Some \<lparr>beforeCommitId = Some ''b1'', afterCommitId = Some ''a1''\<rparr> # [])"
    by (simp add: ex_events_def)
  show ?thesis
    using ensureComment_creates [where san = "\<lambda>s. s" and c = "''new''" and cfg = empty_config, OF t f e]
    by (simp add: empty_config_def)
qed

theorem ensureComment_listing_fails_witness:
  "ensureComment empty_config (\<lambda>s. s) (JsInt 1) (Some ''status'') ''new''
       (ex_remote\<lparr>fails := (\<lambda>c. c = GetPrComments None ''1'')\<rparr>)
     = (Inr False, log_call (GetPrComments None ''1'') (ex_remote\<lparr>fails := (\<lambda>c. c = GetPrComments None ''1'')\<rparr>))"
  using ensureComment_listing_fails [of "ex_remote\<lparr>fails := (\<lambda>c. c = GetPrComments None ''1'')\<rparr>"
      empty_config "JsInt 1" "\<lambda>s. s" "Some ''status''" "''new''"]
  by (simp add: empty_config_def)

theorem ensureComment_no_events_rejects_witness:
  "ensureComment empty_config (\<lambda>s. s) (JsInt 1) (Some ''status'') ''new''
       (ex_remote\<lparr>threads := [''1'' \<mapsto> []], events := [''1'' \<mapsto> []]\<rparr>)
     = (Inl TypeError, log_call (GetPrEvents ''1'') (log_call (GetPrComments None ''1'')
          (ex_remote\<lparr>threads := [''1'' \<mapsto> []], events := [''1'' \<mapsto> []]\<rparr>)))"
proof -
  let ?r = "ex_remote\<lparr>threads := [''1'' \<mapsto> []], events := [''1'' \<mapsto> []]\<rparr>"
  have t: "threads ?r (js_str (JsInt 1)) = Some []" by simp
  have f: "find_thread (Some ''status'') (comment_header (Some ''status'')) (comment_header (Some ''status'') @ ''new'') []
      = Inr None" by simp
  have e: "events ?r (js_str (JsInt 1)) = Some []" by simp
  show ?thesis
    using ensureComment_no_events_rejects [where san = "\<lambda>s. s" and c = "''new''" and cfg = empty_config, OF t f e]
    by (simp add: empty_config_def ex_remote_def)
qed

theorem ensureCommentRemoval_deletes_target_witness:
  "ensureCommentRemoval empty_config (JsInt 7) (ByTopic ''status'') ex_status_remote
     = (Inr (), map_comments (set_content ''c7'' None) (log_call (DeleteComment ''c7'')
          (log_call (GetPrComments None ''7'') ex_status_remote)))"
proof -
  have t: "threads ex_status_remote (js_str (JsInt 7)) = Some [ex_status_thread]" by simp
  have k: "removal_target (ByTopic ''status'') [ex_status_thread] = Some ''c7''"
    by (simp add: ex_status_thread_def removal_matches_def)
  show ?thesis
    using ensureCommentRemoval_deletes_target [where cfg = empty_config, OF t k]
    by (simp add: empty_config_def)
qed

theorem reconciler_keeps_comment_ids_witness:
  "threads_ok (snd (ensureComment empty_config (\<lambda>s. s) (JsInt 1) (Some ''status'') ''new'' ex_status_remote)) ''1''
   \<and> threads_ok (snd (ensureCommentRemoval empty_config (JsInt 1) (ByTopic ''status'') ex_status_remote)) ''1''"
proof -
  have "threads_ok ex_status_remote ''1''"
    by (simp add: threads_ok_def comment_ids_ok_def ex_status_thread_def)
  then show ?thesis by (rule reconciler_keeps_comment_ids)
qed

end
