(* ===== verification/Merge_Dispatcher.thy ===== *)
theory Merge_Dispatcher
  imports CC_Client
begin

text \<open>
  The merge dispatcher \<^verbatim>\<open>mergePr\<close> of \<^verbatim>\<open>index.ts\<close> (lines 408--482): fetch the pull
  request, refuse \<^verbatim>\<open>rebase\<close>, dispatch \<^verbatim>\<open>auto\<close> and \<^verbatim>\<open>squash\<close> to a squash merge and
  \<^verbatim>\<open>fast-forward\<close> to a fast-forward merge, refuse anything else, and after a merge
  close the pull request. Failures inside the two \<^verbatim>\<open>try\<close> blocks resolve to \<open>false\<close>,
  and so does a failed initial fetch, which the client answers with no data.
\<close>

section \<open>Definitions\<close>

text \<open>\<^verbatim>\<open>MergeStrategy\<close> of the platform interface; the configuration field is optional.\<close>

datatype MergeStrategy = Auto | FastForward | MergeCommit | Rebase | Squash

text \<open>
  The first \<^verbatim>\<open>try\<close> block (lines 434--451): \<open>None\<close> is the \<^verbatim>\<open>return false\<close> for an
  unsupported strategy, \<open>Some\<close> the outcome of the merge request. Reading
  \<^verbatim>\<open>targets[0]\<close> of an empty array throws inside the block.
\<close>

definition merge_call ::
  "MergeStrategy option \<Rightarrow> PullRequest \<Rightarrow> PullRequestTarget list \<Rightarrow> remote \<Rightarrow> ((error + unit) \<times> remote) option" where
  "merge_call strategy pReq targets r =
     (if strategy = Some Auto \<or> strategy = Some Squash then
        Some (case targets of
                [] \<Rightarrow> (Inl TypeError, r)
              | t # _ \<Rightarrow> client_squashMerge (repositoryName t) (sourceReference t)
                          (destinationReference t) (pr_title pReq) r)
      else if strategy = Some FastForward then
        Some (case targets of
                [] \<Rightarrow> (Inl TypeError, r)
              | t # _ \<Rightarrow> client_fastForwardMerge (repositoryName t) (sourceReference t)
                          (destinationReference t) r)
      else None)"

text \<open>
  The second \<^verbatim>\<open>try\<close> block (lines 460--481): close the pull request; the status the
  service reports is only logged.
\<close>

definition close_after_merge :: "js_number \<Rightarrow> remote \<Rightarrow> (error + bool) \<times> remote" where
  "close_after_merge prNo r = (case client_updatePrStatus (js_str prNo) ''CLOSED'' r of
       (Inl _, r') \<Rightarrow> (Inr False, r')
     | (Inr _, r') \<Rightarrow> (Inr True, r'))"

definition mergePr :: "string option \<Rightarrow> js_number \<Rightarrow> MergeStrategy option \<Rightarrow> remote \<Rightarrow> (error + bool) \<times> remote" where
  "mergePr branchName prNo strategy r = (case client_getPr (js_str prNo) r of
       (None, r1) \<Rightarrow> (Inr False, r1)
     | (Some pReq, r1) \<Rightarrow> (case pullRequestTargets pReq of
          None \<Rightarrow> (Inr False, r1)
        | Some targets \<Rightarrow>
            (if strategy = Some Rebase then (Inr False, r1)
             else (case merge_call strategy pReq targets r1 of
                     None \<Rightarrow> (Inr False, r1)
                   | Some (Inl _, r2) \<Rightarrow> (Inr False, r2)
                   | Some (Inr _, r2) \<Rightarrow> close_after_merge prNo r2))))"

text \<open>The requests that merge a branch.\<close>

fun is_merge_request :: "call \<Rightarrow> bool" where
  "is_merge_request (SquashMerge _ _ _ _) = True"
| "is_merge_request (FastForwardMerge _ _ _) = True"
| "is_merge_request _ = False"

section \<open>Lemmas\<close>

lemma mergePr_fetched:
  assumes "\<not> fails r (GetPr (js_str n))" and "prs r (js_str n) = Some pReq"
    and "pullRequestTargets pReq = Some targets" and "strategy \<noteq> Some Rebase"
  shows "mergePr b n strategy r = (case merge_call strategy pReq targets (log_call (GetPr (js_str n)) r) of
            None \<Rightarrow> (Inr False, log_call (GetPr (js_str n)) r)
          | Some (Inl _, r2) \<Rightarrow> (Inr False, r2)
          | Some (Inr _, r2) \<Rightarrow> close_after_merge n r2)"
  using assms by (simp add: mergePr_def client_getPr_def)

lemma close_after_merge_eq:
  "close_after_merge n r = (Inr (\<not> fails r (UpdatePrStatus (js_str n) ''CLOSED'')),
     if fails r (UpdatePrStatus (js_str n) ''CLOSED'') then log_call (UpdatePrStatus (js_str n) ''CLOSED'') r
     else set_status (js_str n) ''CLOSED'' (log_call (UpdatePrStatus (js_str n) ''CLOSED'') r))"
  by (simp add: close_after_merge_def client_updatePrStatus_def request_def)

section \<open>Properties\<close>

text \<open>
  C13. Unsupported strategies issue no merge request: for \<^verbatim>\<open>rebase\<close>, \<^verbatim>\<open>merge-commit\<close>
  or no strategy, \<^verbatim>\<open>mergePr\<close> fetches the pull request and stops there, resolving to
  \<open>false\<close>, whether the fetch succeeds or not.
\<close>

theorem mergePr_unsupported_no_merge:
  assumes "strategy \<noteq> Some Auto" and "strategy \<noteq> Some Squash" and "strategy \<noteq> Some FastForward"
  shows "mergePr b n strategy r = (Inr False, log_call (GetPr (js_str n)) r)"
  using assms by (auto simp: mergePr_def merge_call_def client_getPr_def split: option.splits)

text \<open>
  C14. Squash path: for \<^verbatim>\<open>auto\<close> or \<^verbatim>\<open>squash\<close> on a pull request with targets, a
  successful squash merge of the first target's source into its destination, titled with
  the pull request's title, is followed by one request to close the pull request; the
  call resolves to \<open>true\<close> exactly when that close request succeeds, whatever status the
  service then reports.
\<close>

theorem mergePr_squash:
  assumes "strategy = Some Auto \<or> strategy = Some Squash"
    and "prs r (js_str n) = Some pReq" and "pullRequestTargets pReq = Some (t # ts)"
    and "\<not> fails r (GetPr (js_str n))"
    and "\<not> fails r (SquashMerge (repositoryName t) (sourceReference t) (destinationReference t) (pr_title pReq))"
  shows "mergePr b n strategy r =
           (Inr (\<not> fails r (UpdatePrStatus (js_str n) ''CLOSED'')),
            (let r' = log_call (UpdatePrStatus (js_str n) ''CLOSED'')
                   (log_call (SquashMerge (repositoryName t) (sourceReference t) (destinationReference t) (pr_title pReq))
                     (log_call (GetPr (js_str n)) r))
             in if fails r (UpdatePrStatus (js_str n) ''CLOSED'') then r' else set_status (js_str n) ''CLOSED'' r'))"
proof -
  have "strategy \<noteq> Some Rebase" using assms(1) by auto
  with assms show ?thesis
    by (auto simp: mergePr_fetched merge_call_def client_squashMerge_def close_after_merge_def
        client_updatePrStatus_def Let_def)
qed

text \<open>
  Fast-forward path: for \<^verbatim>\<open>fast-forward\<close>, a successful fast-forward merge of the
  first target is followed by one close request, and the call resolves to \<open>true\<close>
  exactly when that request succeeds.
\<close>

theorem mergePr_fast_forward:
  assumes "prs r (js_str n) = Some pReq" and "pullRequestTargets pReq = Some (t # ts)"
    and "\<not> fails r (GetPr (js_str n))"
    and "\<not> fails r (FastForwardMerge (repositoryName t) (sourceReference t) (destinationReference t))"
  shows "mergePr b n (Some FastForward) r =
           (Inr (\<not> fails r (UpdatePrStatus (js_str n) ''CLOSED'')),
            (let r' = log_call (UpdatePrStatus (js_str n) ''CLOSED'')
                   (log_call (FastForwardMerge (repositoryName t) (sourceReference t) (destinationReference t))
                     (log_call (GetPr (js_str n)) r))
             in if fails r (UpdatePrStatus (js_str n) ''CLOSED'') then r' else set_status (js_str n) ''CLOSED'' r'))"
  using assms
  by (simp add: mergePr_fetched merge_call_def client_fastForwardMerge_def close_after_merge_eq Let_def)

text \<open>
  A failed merge request is caught: the call resolves to \<open>false\<close> and the pull
  request is not closed (no status request follows).
\<close>

theorem mergePr_merge_failure:
  assumes "strategy = Some Auto \<or> strategy = Some Squash"
    and "prs r (js_str n) = Some pReq" and "pullRequestTargets pReq = Some (t # ts)"
    and "\<not> fails r (GetPr (js_str n))"
    and "fails r (SquashMerge (repositoryName t) (sourceReference t) (destinationReference t) (pr_title pReq))"
  shows "mergePr b n strategy r =
           (Inr False, log_call (SquashMerge (repositoryName t) (sourceReference t) (destinationReference t) (pr_title pReq))
                         (log_call (GetPr (js_str n)) r))"
proof -
  have "strategy \<noteq> Some Rebase" using assms(1) by auto
  with assms show ?thesis
    by (auto simp: mergePr_fetched merge_call_def client_squashMerge_def)
qed

text \<open>
  C15. Request order: a merge attempt issues the fetch of the pull request, then at most
  one merge request, then at most one close request, and the close request only after a
  merge request the service accepted.
\<close>

theorem mergePr_request_order:
  "\<exists>cs. calls (snd (mergePr b n s r)) = calls r @ GetPr (js_str n) # cs
     \<and> (cs = [] \<or> (\<exists>m. is_merge_request m
           \<and> (cs = [m] \<or> (cs = [m, UpdatePrStatus (js_str n) ''CLOSED''] \<and> \<not> fails r m))))"
  by (auto simp: mergePr_def merge_call_def client_defs request_def close_after_merge_eq
      split: option.splits list.splits if_splits)

section \<open>Witnesses\<close>

lemma ex_remote_pr1: "prs ex_remote ''1'' = Some ex_pull_request" "fails ex_remote = (\<lambda>_. False)"
  by (simp_all add: ex_remote_def)

theorem mergePr_unsupported_no_merge_witness:
  "mergePr None (JsInt 1) (Some Rebase) ex_remote = (Inr False, log_call (GetPr ''1'') ex_remote)"
  using mergePr_unsupported_no_merge [of "Some Rebase" None "JsInt 1" ex_remote]
  by (simp add: ex_remote_pr1)

theorem mergePr_squash_witness:
  "mergePr None (JsInt 1) (Some Squash) ex_remote =
     (Inr True, set_status ''1'' ''CLOSED'' (log_call (UpdatePrStatus ''1'' ''CLOSED'')
        (log_call (SquashMerge (Some ''repo'') (Some ''refs/heads/feature'') (Some ''refs/heads/main'') (Some ''Update dep''))
          (log_call (GetPr ''1'') ex_remote))))"
proof -
  have p: "prs ex_remote (js_str (JsInt 1)) = Some ex_pull_request" by (simp add: ex_remote_pr1)
  have t: "pullRequestTargets ex_pull_request = Some [ex_target]" by (simp add: ex_pull_request_def)
  show ?thesis
    using mergePr_squash [where b = None, OF _ p t] ex_remote_pr1
    by (simp add: ex_target_def ex_pull_request_def)
qed

theorem mergePr_fast_forward_witness:
  "mergePr None (JsInt 1) (Some FastForward) ex_remote =
     (Inr True, set_status ''1'' ''CLOSED'' (log_call (UpdatePrStatus ''1'' ''CLOSED'')
        (log_call (FastForwardMerge (Some ''repo'') (Some ''refs/heads/feature'') (Some ''refs/heads/main''))
          (log_call (GetPr ''1'') ex_remote))))"
proof -
  have p: "prs ex_remote (js_str (JsInt 1)) = Some ex_pull_request" by (simp add: ex_remote_pr1)
  have t: "pullRequestTargets ex_pull_request = Some [ex_target]" by (simp add: ex_pull_request_def)
  show ?thesis
    using mergePr_fast_forward [where b = None, OF p t] ex_remote_pr1
    by (simp add: ex_target_def)
qed

theorem mergePr_merge_failure_witness:
  "mergePr None (JsInt 1) (Some Auto) (ex_remote\<lparr>fails := is_merge_request\<rparr>) =
     (Inr False, log_call (SquashMerge (Some ''repo'') (Some ''refs/heads/feature'') (Some ''refs/heads/main'') (Some ''Update dep''))
        (log_call (GetPr ''1'') (ex_remote\<lparr>fails := is_merge_request\<rparr>)))"
proof -
  have p: "prs (ex_remote\<lparr>fails := is_merge_request\<rparr>) (js_str (JsInt 1)) = Some ex_pull_request"
    by (simp add: ex_remote_pr1)
  have t: "pullRequestTargets ex_pull_request = Some [ex_target]" by (simp add: ex_pull_request_def)
  show ?thesis
    using mergePr_merge_failure [where b = None, OF _ p t]
    by (simp add: ex_target_def ex_pull_request_def)
qed

end
