(* ===== verification/Js_Json.thy ===== *)
theory Js_Json
  imports CC_Prelude
begin

text \<open>
  \<^verbatim>\<open>JSON.stringify\<close> on an array of strings, as \<^verbatim>\<open>addReviewers\<close> (\<^verbatim>\<open>index.ts\<close>
  484--501) uses it to list the approval pool: each string is quoted with the escapes of
  ECMAScript's QuoteJSONString (the two-character escapes for backspace, tab, line feed,
  form feed, carriage return, quote and backslash; \<^verbatim>\<open>\u00xx\<close> with lower-case hex digits
  for the other control characters), the items are joined by commas without spaces and
  bracketed. Characters are bytes, so there are no surrogates to escape. A reference
  decoder \<open>json_parse_list\<close> reads a JSON array of strings back; the lemmas prove the
  round trip.
\<close>

section \<open>Definitions\<close>

definition bslash :: char where
  "bslash = CHR 0x5C"

definition dquote :: char where
  "dquote = CHR 0x22"

definition hex_char :: "nat \<Rightarrow> char" where
  "hex_char d = (if d < 10 then char_of (48 + d) else char_of (87 + d))"

definition json_escape :: "char \<Rightarrow> string" where
  "json_escape c = (let n = (of_char c :: nat) in
     if n = 8 then [bslash, CHR ''b'']
     else if n = 9 then [bslash, CHR ''t'']
     else if n = 10 then [bslash, CHR ''n'']
     else if n = 12 then [bslash, CHR ''f'']
     else if n = 13 then [bslash, CHR ''r'']
     else if n = 34 then [bslash, dquote]
     else if n = 92 then [bslash, bslash]
     else if n < 32 then [bslash, CHR ''u'', CHR ''0'', CHR ''0'', hex_char (n div 16), hex_char (n mod 16)]
     else [c])"

definition json_quote :: "string \<Rightarrow> string" where
  "json_quote s = dquote # concat (map json_escape s) @ [dquote]"

fun json_join :: "string list \<Rightarrow> string" where
  "json_join [] = []"
| "json_join [x] = json_quote x"
| "json_join (x # y # ys) = json_quote x @ CHR '','' # json_join (y # ys)"

definition json_stringify_list :: "string list \<Rightarrow> string" where
  "json_stringify_list xs = CHR ''['' # json_join xs @ [CHR '']'']"

subsection \<open>The reference decoder\<close>

definition hex_val :: "char \<Rightarrow> nat option" where
  "hex_val c = (let n = (of_char c :: nat) in
     if 48 \<le> n \<and> n \<le> 57 then Some (n - 48)
     else if 97 \<le> n \<and> n \<le> 102 then Some (n - 87)
     else if 65 \<le> n \<and> n \<le> 70 then Some (n - 55)
     else None)"

definition unescape :: "char \<Rightarrow> char option" where
  "unescape e = (if e = dquote then Some dquote else if e = bslash then Some bslash
     else if e = CHR ''/'' then Some (CHR ''/'') else if e = CHR ''b'' then Some (char_of (8::nat))
     else if e = CHR ''f'' then Some (char_of (12::nat)) else if e = CHR ''n'' then Some (char_of (10::nat))
     else if e = CHR ''r'' then Some (char_of (13::nat)) else if e = CHR ''t'' then Some (char_of (9::nat))
     else None)"

definition cons_fst :: "char \<Rightarrow> (string \<times> string) option \<Rightarrow> (string \<times> string) option" where
  "cons_fst c = map_option (\<lambda>(s, r). (c # s, r))"

text \<open>The body of a string literal up to its closing quote: the decoded text and the
  rest of the input.\<close>

fun parse_chars :: "string \<Rightarrow> (string \<times> string) option" where
  "parse_chars [] = None"
| "parse_chars (c # cs) =
     (if c = dquote then Some ([], cs)
      else if c = bslash then
        (case cs of
           [] \<Rightarrow> None
         | e # cs' \<Rightarrow>
             (if e = CHR ''u'' then
                (case cs' of
                   h1 # h2 # h3 # h4 # rest \<Rightarrow>
                     (case (hex_val h1, hex_val h2, hex_val h3, hex_val h4) of
                        (Some a, Some b, Some c3, Some d) \<Rightarrow>
                          (let n = ((a * 16 + b) * 16 + c3) * 16 + d in
                           if n < 256 then cons_fst (char_of n) (parse_chars rest) else None)
                      | _ \<Rightarrow> None)
                 | _ \<Rightarrow> None)
              else (case unescape e of
                      None \<Rightarrow> None
                    | Some ch \<Rightarrow> cons_fst ch (parse_chars cs'))))
      else if (of_char c :: nat) < 32 then None
      else cons_fst c (parse_chars cs))"

text \<open>The items of the array after its opening bracket, up to and including the closing
  bracket; the fuel bounds the number of items, and the length of the input is enough.\<close>

fun parse_items :: "nat \<Rightarrow> string \<Rightarrow> (string list \<times> string) option" where
  "parse_items 0 s = None"
| "parse_items (Suc k) s = (case s of
       [] \<Rightarrow> None
     | c # cs \<Rightarrow>
         (if c \<noteq> dquote then None
          else (case parse_chars cs of
                  None \<Rightarrow> None
                | Some (x, []) \<Rightarrow> None
                | Some (x, d # r') \<Rightarrow>
                    (if d = CHR '','' then map_option (\<lambda>(xs, r''). (x # xs, r'')) (parse_items k r')
                     else if d = CHR '']'' then Some ([x], r') else None))))"

definition json_parse_list :: "string \<Rightarrow> string list option" where
  "json_parse_list s = (case s of
       [] \<Rightarrow> None
     | c # cs \<Rightarrow>
         (if c \<noteq> CHR ''['' then None
          else if cs = [CHR '']''] then Some []
          else (case parse_items (length cs) cs of Some (xs, []) \<Rightarrow> Some xs | _ \<Rightarrow> None)))"

section \<open>Lemmas: the round trip\<close>

lemma of_char_dquote [simp]: "(of_char dquote :: nat) = 34"
  by (simp add: dquote_def)

lemma of_char_bslash [simp]: "(of_char bslash :: nat) = 92"
  by (simp add: bslash_def)

lemma char_of_34: "char_of (34::nat) = CHR 0x22"
  by code_simp

lemma char_of_92: "char_of (92::nat) = CHR 0x5C"
  by code_simp

lemma hex_val_hex_char [simp]: "d < 16 \<Longrightarrow> hex_val (hex_char d) = Some d"
  by (auto simp: hex_val_def hex_char_def Let_def)

lemma hex_val_0 [simp]: "hex_val (CHR ''0'') = Some 0"
  by (simp add: hex_val_def)

lemma parse_chars_escape: "parse_chars (json_escape c @ more) = cons_fst c (parse_chars more)"
proof -
  define n where "n = (of_char c :: nat)"
  have c: "c = char_of n" by (simp add: n_def)
  have n256: "n < 256" by (simp add: n_def nat_of_char_less_256)
  have ne: "\<And>d. (of_char d :: nat) \<noteq> n \<Longrightarrow> c \<noteq> d" by (auto simp: n_def)
  consider "n = 8" | "n = 9" | "n = 10" | "n = 12" | "n = 13" | "n = 34" | "n = 92"
    | "n < 32" "n \<notin> {8, 9, 10, 12, 13}" | "32 \<le> n" "n \<noteq> 34" "n \<noteq> 92"
    by (cases "n < 32") auto
  then show ?thesis
  proof cases
    case 1
    then show ?thesis by (simp add: c json_escape_def bslash_def unescape_def dquote_def)
  next
    case 2
    then show ?thesis by (simp add: c json_escape_def bslash_def unescape_def dquote_def)
  next
    case 3
    then show ?thesis by (simp add: c json_escape_def bslash_def unescape_def dquote_def)
  next
    case 4
    then show ?thesis by (simp add: c json_escape_def bslash_def unescape_def dquote_def)
  next
    case 5
    then show ?thesis by (simp add: c json_escape_def bslash_def unescape_def dquote_def)
  next
    case 6
    then show ?thesis by (simp add: c json_escape_def bslash_def unescape_def dquote_def char_of_34)
  next
    case 7
    then show ?thesis by (simp add: c json_escape_def bslash_def unescape_def dquote_def char_of_92)
  next
    case ctrl: 8
    have "n div 16 < 16" "n mod 16 < 16" using ctrl by auto
    moreover have "(n div 16) * 16 + n mod 16 = n" by simp
    ultimately show ?thesis using ctrl n256
      by (simp add: c json_escape_def bslash_def dquote_def Let_def)
  next
    case plain: 9
    have "c \<noteq> dquote" "c \<noteq> bslash" using plain by (auto intro!: ne)
    moreover have "\<not> (of_char c :: nat) < 32" using plain by (simp add: n_def)
    moreover have "json_escape c = [c]" using plain by (simp add: json_escape_def n_def [symmetric])
    ultimately show ?thesis by simp
  qed
qed

lemma parse_chars_quoted:
  "parse_chars (concat (map json_escape s) @ dquote # rest) = Some (s, rest)"
  by (induction s) (simp_all add: parse_chars_escape cons_fst_def)

lemma json_quote_Cons: "\<exists>t. json_quote x = dquote # t"
  by (simp add: json_quote_def)

lemma length_json_join: "xs \<noteq> [] \<Longrightarrow> length xs \<le> length (json_join xs)"
  by (induction xs rule: json_join.induct) (auto simp: json_quote_def)

lemma parse_items_join:
  "xs \<noteq> [] \<Longrightarrow> length xs \<le> k \<Longrightarrow> parse_items k (json_join xs @ CHR '']'' # rest) = Some (xs, rest)"
proof (induction xs arbitrary: k rule: json_join.induct)
  case (2 x)
  then obtain k' where "k = Suc k'" by (cases k) auto
  then show ?case by (simp add: json_quote_def parse_chars_quoted)
next
  case (3 x y ys)
  then obtain k' where k: "k = Suc k'" by (cases k) auto
  with "3.prems" have "parse_items k' (json_join (y # ys) @ CHR '']'' # rest) = Some (y # ys, rest)"
    by (intro "3.IH") auto
  with k show ?case by (simp add: json_quote_def parse_chars_quoted)
qed simp

lemma json_parse_stringify: "json_parse_list (json_stringify_list xs) = Some xs"
proof (cases "xs = []")
  case True
  then show ?thesis by (simp add: json_stringify_list_def json_parse_list_def)
next
  case False
  then obtain t where j: "json_join xs = dquote # t"
    by (cases xs rule: json_join.cases) (auto simp: json_quote_def)
  have "length xs \<le> length (json_join xs @ [CHR '']''])"
    using length_json_join [OF False] by simp
  with parse_items_join [OF False, of "length (json_join xs @ [CHR '']''])" "[]"] j False
  show ?thesis by (simp add: json_stringify_list_def json_parse_list_def)
qed

end
