(* ===== verification/PR_Mutations.thy ===== *)
theory PR_Mutations
  imports CC_Client Js_Json
begin

text \<open>
  The pull-request mutations of \<^verbatim>\<open>index.ts\<close> other than the merge: \<^verbatim>\<open>createPr\<close>
  (lines 342--374) and \<^verbatim>\<open>updatePr\<close> (376--404), and \<^verbatim>\<open>addReviewers\<close> (484--501). None of them touches the session
  \<^verbatim>\<open>config\<close>, so neither invalidates the pull-request cache. The body of a pull
  request is sanitised and cut to \<^verbatim>\<open>10239\<close> characters by \<^verbatim>\<open>smartTruncate\<close> of
  \<^verbatim>\<open>platform/utils/pr-body\<close>, which is not among the sources; its plain-cut path is
  modelled, the path that shortens release notes inside the body is not. The sanitiser
  \<^verbatim>\<open>util/sanitize\<close> is a parameter. \<^verbatim>\<open>addReviewers\<close> asks for one approval rule
  whose JSON text is a template literal around the number of reviewers and
  \<^verbatim>\<open>JSON.stringify(reviewers)\<close>; the reference reader \<open>read_rule\<close> reads such a text
  back.
\<close>

section \<open>Definitions\<close>

definition pr_body_limit :: nat where
  "pr_body_limit = 10239"

definition smartTruncate :: "string \<Rightarrow> nat \<Rightarrow> string" where
  "smartTruncate input len = (if length input < len then input else take len input)"

text \<open>
  \<^verbatim>\<open>createPr\<close>: one \<^verbatim>\<open>createPullRequest\<close> request; its rejection propagates. A
  response without a title or an id is turned into a thrown \<^verbatim>\<open>Error\<close>.
\<close>

definition createPr ::
  "Config \<Rightarrow> (string \<Rightarrow> string) \<Rightarrow> string \<Rightarrow> string \<Rightarrow> string \<Rightarrow> string \<Rightarrow> remote \<Rightarrow> (error + Pr) \<times> remote" where
  "createPr cfg sanitize srcBranch tgtBranch prTitle prBody r =
     (let description = smartTruncate (sanitize prBody) pr_body_limit
      in case client_createPr prTitle (sanitize description) srcBranch tgtBranch (repository cfg) r of
           (Inl e, r1) \<Rightarrow> (Inl e, r1)
         | (Inr res, r1) \<Rightarrow> (case res of
              None \<Rightarrow> (Inl (PlatformError ''Could not create pr, missing PR info''), r1)
            | Some p \<Rightarrow> (case (nonempty (pr_title p), nonempty (pullRequestId p)) of
                 (Some t, Some i) \<Rightarrow> (Inr \<lparr>number = parseInt i, sourceBranch = Some srcBranch,
                     targetBranch = Some tgtBranch, title = Some t, state = Open, sha = None,
                     sourceRepo = repository cfg\<rparr>, r1)
               | _ \<Rightarrow> (Inl (PlatformError ''Could not create pr, missing PR info''), r1))))"

text \<open>The status \<^verbatim>\<open>updatePr\<close> requests: \<^verbatim>\<open>CLOSED\<close> for the state \<open>Closed\<close>, \<^verbatim>\<open>OPEN\<close>
  for every other state and for none.\<close>

definition status_input :: "PrState option \<Rightarrow> string" where
  "status_input st = (if st = Some Closed then ''CLOSED'' else ''OPEN'')"

definition update_description ::
  "(string \<Rightarrow> string) \<Rightarrow> js_number \<Rightarrow> string option \<Rightarrow> remote \<Rightarrow> (error + unit) \<times> remote" where
  "update_description sanitize prNo prBody r = (case nonempty prBody of
       None \<Rightarrow> (Inr (), r)
     | Some b \<Rightarrow> client_updatePrDescription (js_str prNo) (smartTruncate (sanitize b) pr_body_limit) r)"

definition update_title :: "js_number \<Rightarrow> string \<Rightarrow> remote \<Rightarrow> (error + unit) \<times> remote" where
  "update_title prNo prTitle r =
     (if prTitle = [] then (Inr (), r) else client_updatePrTitle (js_str prNo) prTitle r)"

text \<open>
  \<^verbatim>\<open>updatePr\<close>: the description and the title requests are awaited outside any
  \<^verbatim>\<open>try\<close>, so their rejection propagates; the status request is in a \<^verbatim>\<open>try\<close> whose
  \<^verbatim>\<open>catch\<close> does nothing.
\<close>

definition updatePr ::
  "(string \<Rightarrow> string) \<Rightarrow> js_number \<Rightarrow> string \<Rightarrow> string option \<Rightarrow> PrState option \<Rightarrow> remote \<Rightarrow> (error + unit) \<times> remote" where
  "updatePr sanitize prNo prTitle prBody st r = (case update_description sanitize prNo prBody r of
       (Inl e, r1) \<Rightarrow> (Inl e, r1)
     | (Inr _, r1) \<Rightarrow> (case update_title prNo prTitle r1 of
          (Inl e, r2) \<Rightarrow> (Inl e, r2)
        | (Inr _, r2) \<Rightarrow> (Inr (), snd (client_updatePrStatus (js_str prNo) (status_input st) r2))))"

text \<open>The requests of \<^verbatim>\<open>updatePr\<close> whose rejection propagates, in order.\<close>

definition update_requests :: "(string \<Rightarrow> string) \<Rightarrow> js_number \<Rightarrow> string \<Rightarrow> string option \<Rightarrow> call list" where
  "update_requests san prNo prTitle prBody =
     (case nonempty prBody of None \<Rightarrow> []
      | Some b \<Rightarrow> [UpdatePrDescription (js_str prNo) (smartTruncate (san b) pr_body_limit)])
     @ (if prTitle = [] then [] else [UpdatePrTitle (js_str prNo) prTitle])"

text \<open>
  \<^verbatim>\<open>addReviewers\<close>: the three literal pieces of the template, the rule text, and the
  single request, whose rejection propagates.
\<close>

definition rule_prefix :: string where
  \<open>rule_prefix = ''{"Version":"2018-11-08","Statements": [{"Type": "Approvers","NumberOfApprovalsNeeded":''\<close>

definition rule_middle :: string where
  \<open>rule_middle = '',"ApprovalPoolMembers": ''\<close>

definition rule_suffix :: string where
  \<open>rule_suffix = ''}]}''\<close>

definition approval_rule_contents :: "string list \<Rightarrow> string" where
  "approval_rule_contents reviewers =
     (let numberOfApprovers = length reviewers
      in rule_prefix @ js_str (JsInt (int numberOfApprovers)) @ rule_middle
           @ json_stringify_list reviewers @ rule_suffix)"

definition addReviewers :: "js_number \<Rightarrow> string list \<Rightarrow> remote \<Rightarrow> (error + unit) \<times> remote" where
  "addReviewers prNo reviewers r =
     (case client_createPrApprovalRule (js_str prNo) (approval_rule_contents reviewers) r of
        (Inl e, r1) \<Rightarrow> (Inl e, r1)
      | (Inr _, r1) \<Rightarrow> (Inr (), r1))"

text \<open>The reference reader of an approval rule: the number of approvals and the pool.\<close>

definition read_rule :: "string \<Rightarrow> (nat \<times> string list) option" where
  "read_rule s = (if \<not> starts_with s rule_prefix then None else
     (let s1 = drop (length rule_prefix) s;
          ds = takeWhile (is_radix_digit 10) s1;
          s2 = dropWhile (is_radix_digit 10) s1
      in if ds = [] \<or> \<not> starts_with s2 rule_middle \<or> \<not> starts_with (rev s2) (rev rule_suffix)
            \<or> length s2 < length rule_middle + length rule_suffix then None
         else map_option (\<lambda>xs. (digits_value 10 (map (\<lambda>c. the (radix_digit 10 c)) ds), xs))
                (json_parse_list (take (length s2 - length rule_middle - length rule_suffix)
                   (drop (length rule_middle) s2)))))"

section \<open>Lemmas\<close>

lemma smartTruncate_length: "length (smartTruncate s n) \<le> n"
  by (simp add: smartTruncate_def)

lemma fresh_pr_id_nonempty [simp]: "nonempty (Some (fresh_pr_id r)) = Some (fresh_pr_id r)"
  by (simp add: fresh_pr_id_def)

lemma parseInt_fresh_pr_id [simp]: "parseInt (fresh_pr_id r) = JsInt (int (next_id r))"
  by (simp add: fresh_pr_id_def parseInt_nat_to_str)

lemma client_updatePrStatus_snd:
  "snd (client_updatePrStatus i st r) =
     (if fails r (UpdatePrStatus i st) then log_call (UpdatePrStatus i st) r
      else set_status i st (log_call (UpdatePrStatus i st) r))"
  by (simp add: client_defs request_def)

lemma rule_middle_Cons: "rule_middle = CHR '','' # tl rule_middle"
  by (simp add: rule_middle_def)

lemma not_digit_comma: "\<not> is_radix_digit 10 (CHR '','')"
  by code_simp

lemma takeWhile_nat_to_str_middle:
  "takeWhile (is_radix_digit 10) (nat_to_str n @ rule_middle @ t) = nat_to_str n"
  "dropWhile (is_radix_digit 10) (nat_to_str n @ rule_middle @ t) = rule_middle @ t"
proof -
  have d: "\<forall>c\<in>set (nat_to_str n). is_radix_digit 10 c"
    by (auto simp: is_radix_digit_def dest!: nat_to_str_digits)
  have m: "\<not> is_radix_digit 10 (hd (rule_middle @ t))"
    by (subst rule_middle_Cons) (simp add: not_digit_comma)
  have ne: "rule_middle @ t \<noteq> []" by (simp add: rule_middle_def)
  show "takeWhile (is_radix_digit 10) (nat_to_str n @ rule_middle @ t) = nat_to_str n"
    using d m ne by (simp add: takeWhile_append2 takeWhile_eq_Nil_iff)
  show "dropWhile (is_radix_digit 10) (nat_to_str n @ rule_middle @ t) = rule_middle @ t"
    using d m ne by (simp add: dropWhile_append2 dropWhile_eq_self_iff)
qed

lemma read_rule_contents: "read_rule (approval_rule_contents xs) = Some (length xs, xs)"
  by (simp add: read_rule_def approval_rule_contents_def takeWhile_nat_to_str_middle
      nat_to_str_value json_parse_stringify)

lemma createPr_Inr:
  "createPr cfg san src dst t b r = (Inr pr, r1) \<Longrightarrow>
     number pr = JsInt (int (next_id r)) \<and> js_str (number pr) = fresh_pr_id r
     \<and> pr_ids r1 = Some ((case pr_ids r of None \<Rightarrow> [] | Some ids \<Rightarrow> ids) @ [fresh_pr_id r])
     \<and> prs r1 (fresh_pr_id r) \<noteq> None"
  by (auto simp: createPr_def client_createPr_def request_def Let_def add_pr_def created_pr_def
      fresh_pr_id_def parseInt_nat_to_str split: if_splits)

section \<open>Properties\<close>

text \<open>
  C18. A created pull request: when the creation request is accepted and the title is
  non-empty, \<^verbatim>\<open>createPr\<close> issues exactly that one request, resolves to an open pull
  request whose number is the identifier the service assigned (parsed by
  \<^verbatim>\<open>Number.parseInt\<close>), and that number, rendered back, addresses the created pull
  request on the service.
\<close>

theorem createPr_creates:
  assumes "\<not> fails r (CreatePr prTitle (san (smartTruncate (san prBody) pr_body_limit)) src dst (repository cfg))"
    and "prTitle \<noteq> []"
  shows "fst (createPr cfg san src dst prTitle prBody r) = Inr \<lparr>number = JsInt (int (next_id r)),
           sourceBranch = Some src, targetBranch = Some dst, title = Some prTitle, state = Open,
           sha = None, sourceRepo = repository cfg\<rparr>
       \<and> prs (snd (createPr cfg san src dst prTitle prBody r)) (js_str (JsInt (int (next_id r))))
           = Some (created_pr prTitle (san (smartTruncate (san prBody) pr_body_limit)) src dst (repository cfg) r)
       \<and> calls (snd (createPr cfg san src dst prTitle prBody r))
           = calls r @ [CreatePr prTitle (san (smartTruncate (san prBody) pr_body_limit)) src dst (repository cfg)]"
  using assms by (simp add: createPr_def client_createPr_def created_pr_def Let_def fresh_pr_id_def
      parseInt_nat_to_str)

text \<open>
  A rejected creation request rejects \<^verbatim>\<open>createPr\<close> with that error after that
  single request, and nothing is created.
\<close>

theorem createPr_request_fails:
  "fails r (CreatePr prTitle (san (smartTruncate (san prBody) pr_body_limit)) src dst (repository cfg)) \<Longrightarrow>
   createPr cfg san src dst prTitle prBody r
     = (Inl RemoteError, log_call (CreatePr prTitle (san (smartTruncate (san prBody) pr_body_limit)) src dst (repository cfg)) r)"
  by (simp add: createPr_def client_createPr_def Let_def)

text \<open>
  C19. When the sanitiser never lengthens a text, the description \<^verbatim>\<open>createPr\<close> sends
  has at most 10239 characters, whatever the body: the body is sanitised, cut by
  \<^verbatim>\<open>smartTruncate\<close>, and sanitised again.
\<close>

theorem createPr_description_bounded:
  assumes "\<And>s. length (san s) \<le> length s" and "createPr cfg san src dst prTitle prBody r = (res, r')"
  shows "\<exists>d. calls r' = calls r @ [CreatePr prTitle d src dst (repository cfg)] \<and> length d \<le> pr_body_limit"
proof -
  let ?d = "san (smartTruncate (san prBody) pr_body_limit)"
  have "length ?d \<le> pr_body_limit"
    using assms(1) [of "smartTruncate (san prBody) pr_body_limit"] smartTruncate_length by (rule order_trans)
  moreover have "calls r' = calls r @ [CreatePr prTitle ?d src dst (repository cfg)]"
    using assms(2) by (auto simp: createPr_def client_createPr_def Let_def request_def
        split: if_splits prod.splits sum.splits option.splits)
  ultimately show ?thesis by blast
qed

text \<open>
  C20. When neither the description nor the title request is rejected,
  \<^verbatim>\<open>updatePr\<close> resolves and issues, in order, the description update (only for a
  non-empty body, cut to 10239 characters), the title update (only for a non-empty title)
  and the status update, \<^verbatim>\<open>CLOSED\<close> for the state \<open>Closed\<close> and \<^verbatim>\<open>OPEN\<close>
  otherwise; a rejected status update is swallowed.
\<close>

theorem updatePr_requests:
  assumes "\<forall>c\<in>set (update_requests san prNo prTitle prBody). \<not> fails r c"
  shows "fst (updatePr san prNo prTitle prBody st r) = Inr ()
       \<and> calls (snd (updatePr san prNo prTitle prBody st r))
           = calls r @ update_requests san prNo prTitle prBody @ [UpdatePrStatus (js_str prNo) (status_input st)]"
  using assms
  by (cases "nonempty prBody"; cases "prTitle = []")
     (simp_all add: updatePr_def update_description_def update_title_def client_defs
       calls_request update_requests_def)

text \<open>
  C21. An \<^verbatim>\<open>updatePr\<close> without a state reopens the pull request: its status on the
  service is \<^verbatim>\<open>OPEN\<close> afterwards, even when it was closed, with the new description and
  title.
\<close>

theorem updatePr_reopens:
  assumes "fails r = (\<lambda>_. False)" and "prs r (js_str prNo) = Some p"
  shows "prs (snd (updatePr san prNo prTitle prBody None r)) (js_str prNo)
           = Some ((case nonempty prBody of None \<Rightarrow> p
                    | Some b \<Rightarrow> p\<lparr>pr_description := Some (smartTruncate (san b) pr_body_limit)\<rparr>)
                   \<lparr>pr_title := (if prTitle = [] then pr_title p else Some prTitle),
                    pullRequestStatus := Some ''OPEN''\<rparr>)"
  using assms
  by (cases "nonempty prBody"; cases "prTitle = []")
     (simp_all add: updatePr_def update_description_def update_title_def client_defs
       client_updatePrStatus_snd status_input_def set_status_def)

text \<open>
  A rejected description update rejects \<^verbatim>\<open>updatePr\<close> with that error: neither
  the title nor the status is requested.
\<close>

theorem updatePr_description_rejects:
  assumes "nonempty prBody = Some b"
    and "fails r (UpdatePrDescription (js_str prNo) (smartTruncate (san b) pr_body_limit))"
  shows "updatePr san prNo prTitle prBody st r
           = (Inl RemoteError, log_call (UpdatePrDescription (js_str prNo) (smartTruncate (san b) pr_body_limit)) r)"
  using assms by (simp add: updatePr_def update_description_def client_defs)

text \<open>
  C22. An accepted \<^verbatim>\<open>addReviewers\<close> adds exactly one approval rule to the pull request,
  with that single request, and the rule's text reads back as the number of reviewers and
  the reviewers themselves, in order, whatever characters their names contain: the
  template and \<^verbatim>\<open>JSON.stringify\<close> lose nothing.
\<close>

theorem addReviewers_rule:
  assumes "\<not> fails r (CreatePrApprovalRule (js_str prNo) (approval_rule_contents reviewers))"
  shows "fst (addReviewers prNo reviewers r) = Inr ()
       \<and> (\<exists>rc. approval_rules (snd (addReviewers prNo reviewers r)) (js_str prNo)
                = approval_rules r (js_str prNo) @ [rc]
             \<and> calls (snd (addReviewers prNo reviewers r)) = calls r @ [CreatePrApprovalRule (js_str prNo) rc]
             \<and> read_rule rc = Some (length reviewers, reviewers))"
  using assms by (simp add: addReviewers_def client_defs read_rule_contents)

section \<open>Witnesses\<close>

theorem createPr_creates_witness:
  "fst (createPr empty_config id ''feature'' ''main'' ''T'' ''b'' ex_remote) = Inr \<lparr>number = JsInt 2,
       sourceBranch = Some ''feature'', targetBranch = Some ''main'', title = Some ''T'', state = Open,
       sha = None, sourceRepo = None\<rparr>
   \<and> prs (snd (createPr empty_config id ''feature'' ''main'' ''T'' ''b'' ex_remote)) (js_str (JsInt 2))
       = Some (created_pr ''T'' ''b'' ''feature'' ''main'' None ex_remote)"
  using createPr_creates [of ex_remote "''T''" id "''b''" "''feature''" "''main''" empty_config]
  by (simp add: ex_remote_def empty_config_def smartTruncate_def pr_body_limit_def)

theorem createPr_request_fails_witness:
  "createPr empty_config id ''feature'' ''main'' ''T'' ''b'' (ex_remote\<lparr>fails := \<lambda>_. True\<rparr>)
     = (Inl RemoteError, log_call (CreatePr ''T'' ''b'' ''feature'' ''main'' None) (ex_remote\<lparr>fails := \<lambda>_. True\<rparr>))"
  using createPr_request_fails [of "ex_remote\<lparr>fails := \<lambda>_. True\<rparr>" "''T''" id "''b''" "''feature''" "''main''" empty_config]
  by (simp add: empty_config_def smartTruncate_def pr_body_limit_def)

theorem createPr_description_bounded_witness:
  "\<exists>d. calls (snd (createPr empty_config id ''feature'' ''main'' ''T'' ''b'' ex_remote))
      = [CreatePr ''T'' d ''feature'' ''main'' None] \<and> length d \<le> pr_body_limit"
  using createPr_description_bounded [of id empty_config "''feature''" "''main''" "''T''" "''b''" ex_remote
      "fst (createPr empty_config id ''feature'' ''main'' ''T'' ''b'' ex_remote)"
      "snd (createPr empty_config id ''feature'' ''main'' ''T'' ''b'' ex_remote)"]
  by (simp add: ex_remote_def empty_config_def)

theorem updatePr_requests_witness:
  "fst (updatePr id (JsInt 1) ''New'' (Some ''b'') None (ex_remote\<lparr>fails := \<lambda>c. c = UpdatePrStatus ''1'' ''OPEN''\<rparr>)) = Inr ()
   \<and> calls (snd (updatePr id (JsInt 1) ''New'' (Some ''b'') None (ex_remote\<lparr>fails := \<lambda>c. c = UpdatePrStatus ''1'' ''OPEN''\<rparr>)))
       = [UpdatePrDescription ''1'' ''b'', UpdatePrTitle ''1'' ''New'', UpdatePrStatus ''1'' ''OPEN'']"
  using updatePr_requests [of id "JsInt 1" "''New''" "Some ''b''" "ex_remote\<lparr>fails := \<lambda>c. c = UpdatePrStatus ''1'' ''OPEN''\<rparr>" None]
  by (simp add: update_requests_def status_input_def smartTruncate_def pr_body_limit_def ex_remote_def)

theorem updatePr_reopens_witness:
  "prs (snd (updatePr id (JsInt 1) [] None None
      (ex_remote\<lparr>prs := [''1'' \<mapsto> ex_pull_request\<lparr>pullRequestStatus := Some ''CLOSED''\<rparr>]\<rparr>))) ''1''
     = Some (ex_pull_request\<lparr>pullRequestStatus := Some ''OPEN''\<rparr>)"
  using updatePr_reopens [of "ex_remote\<lparr>prs := [''1'' \<mapsto> ex_pull_request\<lparr>pullRequestStatus := Some ''CLOSED''\<rparr>]\<rparr>"
      "JsInt 1" "ex_pull_request\<lparr>pullRequestStatus := Some ''CLOSED''\<rparr>" id "[]" None]
  by (simp add: ex_remote_def)

theorem updatePr_description_rejects_witness:
  "updatePr id (JsInt 1) ''New'' (Some ''b'') None (ex_remote\<lparr>fails := \<lambda>_. True\<rparr>)
     = (Inl RemoteError, log_call (UpdatePrDescription ''1'' ''b'') (ex_remote\<lparr>fails := \<lambda>_. True\<rparr>))"
  using updatePr_description_rejects [of "Some ''b''" "''b''" "ex_remote\<lparr>fails := \<lambda>_. True\<rparr>" "JsInt 1" id "''New''" None]
  by (simp add: smartTruncate_def pr_body_limit_def)

theorem addReviewers_rule_witness:
  \<open>fst (addReviewers (JsInt 1) [''arn:aws:iam::1:user/a'', ''b"c''] ex_remote) = Inr ()
   \<and> (\<exists>rc. approval_rules (snd (addReviewers (JsInt 1) [''arn:aws:iam::1:user/a'', ''b"c''] ex_remote)) ''1'' = [rc]
         \<and> calls (snd (addReviewers (JsInt 1) [''arn:aws:iam::1:user/a'', ''b"c''] ex_remote)) = [CreatePrApprovalRule ''1'' rc]
         \<and> read_rule rc = Some (2, [''arn:aws:iam::1:user/a'', ''b"c'']))\<close>
  using addReviewers_rule [of ex_remote "JsInt 1" \<open>[''arn:aws:iam::1:user/a'', ''b"c'']\<close>]
  by (simp add: ex_remote_def numeral_2_eq_2)

end
