(* ===== verification/Stubs.thy ===== *)
theory Stubs
  imports CC_Types
begin

text \<open>
  The capabilities CodeCommit does not offer (\<^verbatim>\<open>index.ts\<close> 337--340 and 502--575):
  issues, labels, assignees, vulnerability alerts, branch statuses and the forced rebase
  each resolve at once to a constant, without a request and without touching the session.
  The platform types they answer with (\<^verbatim>\<open>Issue\<close>, \<^verbatim>\<open>EnsureIssueResult\<close>,
  \<^verbatim>\<open>VulnerabilityAlert\<close>, \<^verbatim>\<open>BranchStatus\<close>) are not among the sources and are
  modelled from their use. \<open>stub_op\<close> names the calls and \<open>stub_answer\<close> gives each its
  resolved value, the form in which \<open>Adapter_Session\<close> runs them.
\<close>

section \<open>Definitions\<close>

datatype BranchStatus = Green | Yellow | Red

datatype EnsureIssueResult = IssueUpdated | IssueCreated

record Issue =
  issue_number :: "js_number option"
  issue_body :: "string option"
  issue_title :: "string option"
  issue_state :: "string option"

record VulnerabilityAlert =
  alert_package :: "string option"
  alert_range :: "string option"

definition getRepoForceRebase :: bool where
  "getRepoForceRebase = False"

definition addAssignees :: "js_number \<Rightarrow> string list \<Rightarrow> unit" where
  "addAssignees iid assignees = ()"

definition findIssue :: "string \<Rightarrow> Issue option" where
  "findIssue t = None"

definition ensureIssue :: "string \<Rightarrow> EnsureIssueResult option" where
  "ensureIssue t = None"

definition getIssueList :: "Issue list" where
  "getIssueList = []"

definition ensureIssueClosing :: "string \<Rightarrow> unit" where
  "ensureIssueClosing t = ()"

definition deleteLabel :: "js_number \<Rightarrow> string \<Rightarrow> unit" where
  "deleteLabel prNumber label = ()"

definition getVulnerabilityAlerts :: "VulnerabilityAlert list" where
  "getVulnerabilityAlerts = []"

definition getBranchStatus :: "string \<Rightarrow> BranchStatus" where
  "getBranchStatus b = Yellow"

definition getBranchStatusCheck :: "string \<Rightarrow> string \<Rightarrow> BranchStatus option" where
  "getBranchStatusCheck b context = None"

definition setBranchStatus :: "string \<Rightarrow> string \<Rightarrow> string \<Rightarrow> BranchStatus \<Rightarrow> string option \<Rightarrow> unit" where
  "setBranchStatus b context description st targetUrl = ()"

datatype stub_op =
    OpGetRepoForceRebase
  | OpAddAssignees js_number "string list"
  | OpFindIssue string
  | OpEnsureIssue string
  | OpGetIssueList
  | OpEnsureIssueClosing string
  | OpDeleteLabel js_number string
  | OpGetVulnerabilityAlerts
  | OpGetBranchStatus string
  | OpGetBranchStatusCheck string string
  | OpSetBranchStatus string string string BranchStatus "string option"

datatype stub_value =
    VBool bool | VUnit | VIssue "Issue option" | VIssueResult "EnsureIssueResult option"
  | VIssues "Issue list" | VAlerts "VulnerabilityAlert list" | VStatus BranchStatus
  | VStatusCheck "BranchStatus option"

fun stub_answer :: "stub_op \<Rightarrow> stub_value" where
  "stub_answer OpGetRepoForceRebase = VBool getRepoForceRebase"
| "stub_answer (OpAddAssignees n xs) = (case addAssignees n xs of () \<Rightarrow> VUnit)"
| "stub_answer (OpFindIssue t) = VIssue (findIssue t)"
| "stub_answer (OpEnsureIssue t) = VIssueResult (ensureIssue t)"
| "stub_answer OpGetIssueList = VIssues getIssueList"
| "stub_answer (OpEnsureIssueClosing t) = (case ensureIssueClosing t of () \<Rightarrow> VUnit)"
| "stub_answer (OpDeleteLabel n l) = (case deleteLabel n l of () \<Rightarrow> VUnit)"
| "stub_answer OpGetVulnerabilityAlerts = VAlerts getVulnerabilityAlerts"
| "stub_answer (OpGetBranchStatus b) = VStatus (getBranchStatus b)"
| "stub_answer (OpGetBranchStatusCheck b c) = VStatusCheck (getBranchStatusCheck b c)"
| "stub_answer (OpSetBranchStatus b c d s u) = (case setBranchStatus b c d s u of () \<Rightarrow> VUnit)"

end
