(* ===== verification/Adapter_Session.thy ===== *)
theory Adapter_Session
  imports PR_Directory Comment_Reconciler Merge_Dispatcher PR_Mutations Stubs
begin

text \<open>
  The session as the orchestrator drives it: a single-threaded sequence of calls to the
  adapter's operations (spec, concurrency section), each awaited before the next, with the
  CodeCommit service changed by other actors in between. The state is the module-level
  \<^verbatim>\<open>config\<close> of \<^verbatim>\<open>index.ts\<close> together with the remote; \<open>adapter_op\<close> names the
  operations of the platform contract modelled so far, \<open>run_op\<close> runs one of them to the
  end, and \<open>session_step\<close>/\<open>reach\<close> close them under interleaving with arbitrary remote
  changes. The lemmas show how a single operation and then any session changes the config:
  only the directory operations write, and only the empty cache slot.
\<close>

section \<open>Definitions\<close>

datatype adapter_op =
    OpGetPrList
  | OpFindPr string "string option" PrState
  | OpGetBranchPr string
  | OpGetPr js_number
  | OpGetRepos
  | OpEnsureComment js_number "string option" string
  | OpEnsureCommentRemoval js_number RemovalKey
  | OpMergePr "string option" js_number "MergeStrategy option"
  | OpCreatePr string string string string
  | OpUpdatePr js_number string "string option" "PrState option"
  | OpAddReviewers js_number "string list"
  | OpStub stub_op

type_synonym session = "Config \<times> remote"

text \<open>
  One awaited call of the platform contract; its resolved or rejected value is dropped, the
  session and the remote it leaves behind are kept. A stub resolves to
  \<open>stub_answer\<close> of its call and leaves both as they were. The sanitiser of
  \<^verbatim>\<open>ensureComment\<close>, \<^verbatim>\<open>createPr\<close> and \<^verbatim>\<open>updatePr\<close> is a parameter of the
  session.
\<close>

fun run_op :: "(string \<Rightarrow> string) \<Rightarrow> adapter_op \<Rightarrow> Config \<Rightarrow> remote \<Rightarrow> session" where
  "run_op san OpGetPrList cfg r = snd (getPrList cfg r)"
| "run_op san (OpFindPr b t st) cfg r = snd (findPr cfg b t st r)"
| "run_op san (OpGetBranchPr b) cfg r = snd (getBranchPr cfg b r)"
| "run_op san (OpGetPr n) cfg r = (cfg, snd (getPr n r))"
| "run_op san OpGetRepos cfg r = (cfg, snd (getRepos r))"
| "run_op san (OpEnsureComment n t c) cfg r = (cfg, snd (ensureComment cfg san n t c r))"
| "run_op san (OpEnsureCommentRemoval n k) cfg r = (cfg, snd (ensureCommentRemoval cfg n k r))"
| "run_op san (OpMergePr b n s) cfg r = (cfg, snd (mergePr b n s r))"
| "run_op san (OpCreatePr src dst t b) cfg r = (cfg, snd (createPr cfg san src dst t b r))"
| "run_op san (OpUpdatePr n t b st) cfg r = (cfg, snd (updatePr san n t b st r))"
| "run_op san (OpAddReviewers n rs) cfg r = (cfg, snd (addReviewers n rs r))"
| "run_op san (OpStub s) cfg r = (cfg, r)"

text \<open>
  A step is either one adapter call or a change of the service by another actor: any new
  remote data, any new failure behaviour, with the adapter's own request log untouched.
\<close>

inductive session_step :: "(string \<Rightarrow> string) \<Rightarrow> session \<Rightarrow> session \<Rightarrow> bool" for san where
  call: "session_step san (cfg, r) (run_op san op cfg r)"
| remote_change: "calls r' = calls r \<Longrightarrow> session_step san (cfg, r) (cfg, r')"

inductive reach :: "(string \<Rightarrow> string) \<Rightarrow> session \<Rightarrow> session \<Rightarrow> bool" for san where
  refl: "reach san s s"
| step: "reach san s s' \<Longrightarrow> session_step san s' s'' \<Longrightarrow> reach san s s''"

text \<open>How an operation may change the session: not at all, or by filling the empty
  cache slot.\<close>

definition config_grows :: "Config \<Rightarrow> Config \<Rightarrow> bool" where
  "config_grows cfg cfg' \<longleftrightarrow> cfg' = cfg \<or> (prList cfg = None \<and> (\<exists>ps. cfg' = cfg\<lparr>prList := Some ps\<rparr>))"

inductive_cases session_stepE: "session_step san s s'"

text \<open>The operations of the contract that only read: the directory, the single fetch,
  the repository discovery and the stubs.\<close>

fun read_op :: "adapter_op \<Rightarrow> bool" where
  "read_op OpGetPrList = True"
| "read_op (OpFindPr _ _ _) = True"
| "read_op (OpGetBranchPr _) = True"
| "read_op (OpGetPr _) = True"
| "read_op OpGetRepos = True"
| "read_op (OpStub _) = True"
| "read_op _ = False"

text \<open>Two states of the service that differ at most in the request log.\<close>

definition same_data :: "remote \<Rightarrow> remote \<Rightarrow> bool" where
  "same_data r r' \<longleftrightarrow> r'\<lparr>calls := calls r\<rparr> = r"

section \<open>Lemmas\<close>

lemma config_grows_refl [simp, intro]: "config_grows cfg cfg"
  by (simp add: config_grows_def)

lemma config_grows_trans:
  "config_grows c1 c2 \<Longrightarrow> config_grows c2 c3 \<Longrightarrow> config_grows c1 c3"
  by (auto simp: config_grows_def)

lemma config_grows_cached: "config_grows cfg cfg' \<Longrightarrow> prList cfg \<noteq> None \<Longrightarrow> cfg' = cfg"
  by (simp add: config_grows_def)

lemma getPrList_grows: "config_grows cfg (fst (snd (getPrList cfg r)))"
  using getPrList_config [of cfg r "fst (getPrList cfg r)" "fst (snd (getPrList cfg r))" "snd (snd (getPrList cfg r))"]
  by (auto simp: config_grows_def)

lemma findPr_snd: "fst (snd (findPr cfg b t st r)) = fst (snd (getPrList cfg r))"
  by (simp add: findPr_def split: prod.splits sum.splits)

lemma getBranchPr_snd: "fst (snd (getBranchPr cfg b r)) = fst (snd (findPr cfg b None Open r))"
  by (simp add: getBranchPr_def split: prod.splits sum.splits option.splits)

lemma run_op_grows: "config_grows cfg (fst (run_op san op cfg r))"
  by (cases op) (simp_all add: getPrList_grows findPr_snd getBranchPr_snd)

lemma session_step_grows: "session_step san s s' \<Longrightarrow> config_grows (fst s) (fst s')"
  by (erule session_stepE) (simp_all add: run_op_grows)

lemma reach_cached_config: "reach san s s' \<Longrightarrow> prList (fst s) \<noteq> None \<Longrightarrow> fst s' = fst s"
  by (induction rule: reach.induct) (simp, metis config_grows_cached session_step_grows)

lemma reach_call:
  "reach san s (cfg, r) \<Longrightarrow> reach san s (run_op san op cfg r)"
  by (blast intro: reach.step session_step.call)

lemma reach_remote_change:
  "reach san s (cfg, r) \<Longrightarrow> calls r' = calls r \<Longrightarrow> reach san s (cfg, r')"
  by (blast intro: reach.step session_step.remote_change)

lemma same_data_refl [simp]: "same_data r r"
  by (simp add: same_data_def)

lemma same_data_log_call [simp]: "same_data r (log_call c r') = same_data r r'"
  by (simp add: same_data_def)

lemma same_data_trans: "same_data r r1 \<Longrightarrow> same_data r1 r2 \<Longrightarrow> same_data r r2"
  unfolding same_data_def by (metis remote.update_convs(10) remote.surjective remote.ext_inject)

lemma same_data_log_call_left [simp]: "same_data (log_call c r) r' = same_data r r'"
  by (simp add: same_data_def log_call_def) (metis remote.update_convs(10) remote.surjective remote.ext_inject)

lemma fetch_prs_same_data: "same_data r (snd (fetch_prs ids acc r))"
proof (induction ids arbitrary: acc r)
  case (Cons i ids)
  have "\<And>acc'. same_data r (snd (fetch_prs ids acc' (log_call (GetPr i) r)))"
    using Cons.IH [where r = "log_call (GetPr i) r"] by simp
  then show ?case
    by (auto simp: client_getPr_def split: option.split sum.split)
qed simp

lemma fetch_prs_same_data_eq: "fetch_prs ids acc r = (res, r') \<Longrightarrow> same_data r r'"
  using fetch_prs_same_data [of r ids acc] by simp

lemma getPrList_same_data: "same_data r (snd (snd (getPrList cfg r)))"
  by (auto simp: getPrList_def client_listPullRequests_def request_def
      dest!: fetch_prs_same_data_eq split: option.split prod.split sum.split)

lemma getPr_same_data: "same_data r (snd (getPr n r))"
  by (simp add: getPr_def client_getPr_def split: option.split sum.split)

lemma findPr_remote: "snd (snd (findPr cfg b t st r)) = snd (snd (getPrList cfg r))"
  by (simp add: findPr_def split: prod.split sum.split)

lemma findPr_same_data: "same_data r (snd (snd (findPr cfg b t st r)))"
  by (simp add: findPr_remote getPrList_same_data)

lemma getBranchPr_same_data: "same_data r (snd (snd (getBranchPr cfg b r)))"
  using findPr_same_data [of r cfg b None Open]
  by (auto simp: getBranchPr_def split: prod.split sum.split option.split)
     (metis getPr_same_data same_data_trans snd_conv)

lemma getRepos_same_data: "same_data r (snd (getRepos r))"
  by (simp add: getRepos_def client_listRepositories_def request_def split: sum.split)

lemma getPrList_cached_Some: "prList cfg = Some ps \<Longrightarrow> getPrList cfg r = (Inr ps, cfg, r)"
  by (simp add: getPrList_def)

lemma getPrList_Inr_cached:
  "getPrList cfg r = (Inr ps, cfg', r') \<Longrightarrow> prList cfg' \<noteq> None \<Longrightarrow> prList cfg' = Some ps"
  by (auto simp: getPrList_def split: option.splits prod.splits sum.splits)

end
