(* ===== verification/Session_Setup.thy ===== *)
theory Session_Setup
  imports CC_Client
begin

text \<open>
  Session set-up: \<^verbatim>\<open>initPlatform\<close> (\<^verbatim>\<open>index.ts\<close> 51--100), which resolves the access
  key, the secret and the region from the parameters or the environment and asks IAM for
  the user's ARN through \<^verbatim>\<open>iam-client.ts\<close>; and \<^verbatim>\<open>initRepo\<close> (102--150), which
  records the repository, reads its metadata and clones it. The IAM client of
  \<^verbatim>\<open>iam-client.ts\<close> is a module-level singleton: \<open>initIamClient\<close> creates it only once.
  The IAM service is a function from the client (region and credentials) to its answer;
  the clone of \<^verbatim>\<open>git.initRepo\<close> is a parameter saying which URLs clone. The two regular
  expressions are modelled by their backtracking order: for the region pattern
  \<^verbatim>\<open>/.*codecommit\.(?<region>.+)\.amazonaws\.com/\<close> the first line that matches, the
  longest \<^verbatim>\<open>.*\<close> and then the longest group; for \<^verbatim>\<open>/User:\s*(?<arn>[^ ]+).*/\<close> the
  leftmost \<^verbatim>\<open>User:\<close> that is followed by a non-space after the longest whitespace
  that leaves one.
\<close>

section \<open>Definitions\<close>

record PlatformParams =
  pp_endpoint :: "string option"
  pp_username :: "string option"
  pp_password :: "string option"

record Env =
  AWS_ACCESS_KEY_ID :: "string option"
  AWS_SECRET_ACCESS_KEY :: "string option"
  AWS_REGION :: "string option"
  AWS_SESSION_TOKEN :: "string option"

type_synonym iam_client = "string \<times> Credentials"

text \<open>The answer of IAM's \<^verbatim>\<open>GetUser\<close>: the user's ARN, when the answer carries one, or a
  rejection with its message.\<close>

datatype IamAnswer = IamUser "string option" | IamRejected string

subsection \<open>The two regular expressions\<close>

fun split_lines :: "string \<Rightarrow> string list" where
  "split_lines [] = [[]]"
| "split_lines (c # cs) = (if line_term c then [] # split_lines cs
     else (case split_lines cs of l # ls \<Rightarrow> (c # l) # ls | [] \<Rightarrow> [[c]]))"

definition occurs_at :: "string \<Rightarrow> string \<Rightarrow> nat \<Rightarrow> bool" where
  "occurs_at w s i \<longleftrightarrow> starts_with (drop i s) w"

text \<open>On one line: the candidates \<open>(i, j)\<close> for the end of \<^verbatim>\<open>.*\<close> and the end of the
  group, in the order backtracking tries them.\<close>

definition line_region :: "string \<Rightarrow> string option" where
  "line_region l = (case [(i, j). i \<leftarrow> rev [0..<length l], j \<leftarrow> rev [0..<length l],
         occurs_at ''codecommit.'' l i \<and> i + 11 < j \<and> occurs_at ''.amazonaws.com'' l j] of
       [] \<Rightarrow> None
     | (i, j) # _ \<Rightarrow> Some (take (j - (i + 11)) (drop (i + 11) l)))"

definition endpoint_region :: "string \<Rightarrow> string option" where
  "endpoint_region endpoint =
     (case filter (\<lambda>x. x \<noteq> None) (map line_region (split_lines endpoint)) of
        [] \<Rightarrow> None
      | g # _ \<Rightarrow> g)"

text \<open>\<^verbatim>\<open>User:\s*(?<arn>[^ ]+)\<close> after the \<^verbatim>\<open>User:\<close> at the start of \<open>s\<close>: the
  whitespace prefixes from the longest down, the first that leaves a non-space.\<close>

definition arn_after :: "string \<Rightarrow> string option" where
  "arn_after s = (case [k. k \<leftarrow> rev [0..<Suc (length (takeWhile js_ws s))],
                          takeWhile (\<lambda>c. c \<noteq> CHR '' '') (drop k s) \<noteq> []] of
       [] \<Rightarrow> None
     | k # _ \<Rightarrow> Some (takeWhile (\<lambda>c. c \<noteq> CHR '' '') (drop k s)))"

definition user_re :: "string \<Rightarrow> string option" where
  "user_re msg = (case [a. i \<leftarrow> [0..<length msg], occurs_at ''User:'' msg i,
                          a \<leftarrow> (case arn_after (drop (i + 5) msg) of None \<Rightarrow> [] | Some a \<Rightarrow> [a])] of
       [] \<Rightarrow> None
     | a # _ \<Rightarrow> Some a)"

subsection \<open>\<^verbatim>\<open>iam-client.ts\<close>\<close>

definition initIamClient :: "string \<Rightarrow> Credentials \<Rightarrow> iam_client option \<Rightarrow> iam_client" where
  "initIamClient reg creds iam = (case iam of None \<Rightarrow> (reg, creds) | Some c \<Rightarrow> c)"

text \<open>\<^verbatim>\<open>getUserArn\<close>: the ARN of the answer, the empty string when the answer has none;
  on a rejection, the ARN named in its message, or the rejection itself.\<close>

definition getUserArn :: "IamAnswer \<Rightarrow> error + string" where
  "getUserArn ans = (case ans of
       IamUser arn \<Rightarrow> Inr (case arn of None \<Rightarrow> [] | Some a \<Rightarrow> a)
     | IamRejected msg \<Rightarrow> (case user_re msg of
          Some a \<Rightarrow> (if a = [] then Inl (PlatformError msg) else Inr a)
        | None \<Rightarrow> Inl (PlatformError msg)))"

subsection \<open>\<^verbatim>\<open>initPlatform\<close>\<close>

definition init_error :: string where
  "init_error = ''Init: You must configure a AWS user(accessKeyId), password(secretAccessKey) and endpoint/AWS_REGION''"

definition resolved_region :: "PlatformParams \<Rightarrow> Env \<Rightarrow> string option" where
  "resolved_region p e = (case nonempty (pp_endpoint p) of
       Some ep \<Rightarrow> endpoint_region ep
     | None \<Rightarrow> AWS_REGION e)"

definition initPlatform ::
  "(iam_client \<Rightarrow> IamAnswer) \<Rightarrow> Env \<Rightarrow> PlatformParams \<Rightarrow> Config \<Rightarrow> iam_client option
     \<Rightarrow> (error + string) \<times> Config \<times> iam_client option" where
  "initPlatform iam_service e p cfg iam =
     (let accessKeyId = (if js_truthy (pp_username p) then pp_username p else AWS_ACCESS_KEY_ID e);
          secretAccessKey = (if js_truthy (pp_password p) then pp_password p else AWS_SECRET_ACCESS_KEY e);
          region = resolved_region p e
      in case (nonempty accessKeyId, nonempty secretAccessKey, nonempty region) of
           (Some k, Some s, Some reg) \<Rightarrow>
             (let creds = \<lparr>accessKeyId = k, secretAccessKey = s, sessionToken = AWS_SESSION_TOKEN e\<rparr>;
                  cfg1 = cfg\<lparr>region := Some reg, credentials := Some creds\<rparr>;
                  iam1 = initIamClient reg creds iam
              in case getUserArn (iam_service iam1) of
                   Inl err \<Rightarrow> (Inl err, cfg1, Some iam1)
                 | Inr arn \<Rightarrow>
                     (Inr (case pp_endpoint p of
                             Some ep \<Rightarrow> ep
                           | None \<Rightarrow> ''https://git-codecommit.'' @ reg @ ''.amazonaws.com/''),
                      cfg1\<lparr>userArn := Some arn\<rparr>, Some iam1))
         | _ \<Rightarrow> (Inl (PlatformError init_error), cfg, iam))"

subsection \<open>\<^verbatim>\<open>initRepo\<close>\<close>

definition REPOSITORY_NOT_FOUND :: string where "REPOSITORY_NOT_FOUND = ''repository-not-found''"
definition PLATFORM_BAD_CREDENTIALS :: string where "PLATFORM_BAD_CREDENTIALS = ''bad-credentials''"
definition REPOSITORY_EMPTY :: string where "REPOSITORY_EMPTY = ''empty''"

text \<open>\<^verbatim>\<open>getCodeCommitUrl\<close> of \<^verbatim>\<open>codecommit-client.ts\<close> and \<^verbatim>\<open>repoFingerprint\<close> of
  \<^verbatim>\<open>platform/util\<close> are not among the sources: the URL names the region and the
  repository (the embedded credentials are not modelled), the fingerprint is the joined
  text that the source hashes.\<close>

definition getCodeCommitUrl :: "string option \<Rightarrow> string \<Rightarrow> Credentials option \<Rightarrow> string" where
  "getCodeCommitUrl reg repo creds = ''https://git-codecommit.''
     @ (case reg of None \<Rightarrow> ''undefined'' | Some r \<Rightarrow> r) @ ''.amazonaws.com/v1/repos/'' @ repo"

definition repoFingerprint :: "string \<Rightarrow> string option \<Rightarrow> string" where
  "repoFingerprint repoId endpoint = repoId @ ''::'' @ (case endpoint of None \<Rightarrow> [] | Some e \<Rightarrow> e)"

record RepoResult =
  rr_repoFingerprint :: string
  rr_defaultBranch :: string
  isFork :: bool

definition initRepo ::
  "(string \<Rightarrow> bool) \<Rightarrow> string \<Rightarrow> string option \<Rightarrow> Config \<Rightarrow> remote \<Rightarrow> (error + RepoResult) \<times> Config \<times> remote" where
  "initRepo git_clones repo endpoint cfg r =
     (let cfg1 = cfg\<lparr>repository := Some repo\<rparr>
      in case client_getRepositoryInfo repo r of
           (Inl _, r1) \<Rightarrow> (Inl (PlatformError REPOSITORY_NOT_FOUND), cfg1, r1)
         | (Inr info, r1) \<Rightarrow>
             (if \<not> git_clones (getCodeCommitUrl (region cfg1) repo (credentials cfg1))
              then (Inl (PlatformError PLATFORM_BAD_CREDENTIALS), cfg1, r1)
              else (case info of
                      None \<Rightarrow> (Inl (PlatformError REPOSITORY_NOT_FOUND), cfg1, r1)
                    | Some md \<Rightarrow> (case (nonempty (rm_defaultBranch md), nonempty (repositoryId md)) of
                         (Some db, Some rid) \<Rightarrow>
                           (Inr \<lparr>rr_repoFingerprint = repoFingerprint rid endpoint, rr_defaultBranch = db,
                                 isFork = False\<rparr>, cfg1\<lparr>defaultBranch := Some db\<rparr>, r1)
                       | _ \<Rightarrow> (Inl (PlatformError REPOSITORY_EMPTY), cfg1, r1)))))"

section \<open>Lemmas\<close>

text \<open>The IAM client is created once: a later \<^verbatim>\<open>initPlatform\<close>, whatever its
  credentials, asks IAM through the first client.\<close>

lemma initPlatform_iam_singleton:
  "snd (snd (initPlatform svc e p cfg (Some c0))) = Some c0
   \<and> initPlatform svc e p cfg (Some c0) = initPlatform (\<lambda>_. svc c0) e p cfg (Some c0)"
  by (simp add: initPlatform_def initIamClient_def Let_def split: option.splits sum.splits)

lemma user_re_prefix:
  assumes "a \<noteq> []" and "CHR '' '' \<notin> set a" and "\<not> js_ws (hd a)"
    and "rest = [] \<or> hd rest = CHR '' ''"
  shows "user_re (''User: '' @ a @ rest) = Some a"
proof -
  have b: "\<forall>x\<in>set a. x \<noteq> CHR '' ''" using assms(2) by auto
  have tw: "takeWhile (\<lambda>c. c \<noteq> CHR '' '') (a @ rest) = a"
    using b assms(4) by (cases rest) (simp_all add: takeWhile_append2)
  have sp: "js_ws (CHR '' '')" by (simp add: js_ws_def)
  have t0: "takeWhile js_ws (a @ rest) = []" using assms(1,3) by (cases a) simp_all
  have arn: "arn_after (CHR '' '' # a @ rest) = Some a"
    using assms(1) by (simp add: arn_after_def sp t0 tw)
  have u: "[0..<length (''User: '' @ a @ rest)] = 0 # [1..<length (''User: '' @ a @ rest)]"
    by (simp add: upt_conv_Cons del: upt_Suc)
  show ?thesis
    unfolding user_re_def u by (simp add: occurs_at_def arn)
qed

section \<open>Properties\<close>

text \<open>
  C24. Configuration error: when the access key, the secret or the region cannot be
  resolved from the parameters or the environment, \<^verbatim>\<open>initPlatform\<close> throws its
  configuration error before any request, and the session and the IAM client are left
  as they were.
\<close>

theorem initPlatform_config_error:
  assumes "nonempty (if js_truthy (pp_username p) then pp_username p else AWS_ACCESS_KEY_ID e) = None
         \<or> nonempty (if js_truthy (pp_password p) then pp_password p else AWS_SECRET_ACCESS_KEY e) = None
         \<or> nonempty (resolved_region p e) = None"
  shows "initPlatform svc e p cfg iam = (Inl (PlatformError init_error), cfg, iam)"
  using assms by (auto simp: initPlatform_def Let_def split: option.splits)

text \<open>
  C25. \<^verbatim>\<open>getUserArn\<close> recovers the ARN from a rejection whose message names the user,
  as IAM's access-denied message does: the ARN is the word after \<^verbatim>\<open>User:\<close> and the
  following whitespace, up to the next space.
\<close>

theorem getUserArn_from_rejection:
  assumes "a \<noteq> []" and "CHR '' '' \<notin> set a" and "\<not> js_ws (hd a)"
    and "rest = [] \<or> hd rest = CHR '' ''"
  shows "getUserArn (IamRejected (''User: '' @ a @ rest)) = Inr a"
  using user_re_prefix [OF assms] assms(1) by (simp add: getUserArn_def)

section \<open>Witnesses\<close>

theorem initPlatform_config_error_witness:
  "initPlatform (\<lambda>_. IamUser None) \<lparr>AWS_ACCESS_KEY_ID = None, AWS_SECRET_ACCESS_KEY = Some ''s'',
       AWS_REGION = Some ''eu-west-1'', AWS_SESSION_TOKEN = None\<rparr>
     \<lparr>pp_endpoint = None, pp_username = Some [], pp_password = None\<rparr> empty_config None
   = (Inl (PlatformError init_error), empty_config, None)"
  using initPlatform_config_error [of "\<lparr>pp_endpoint = None, pp_username = Some [], pp_password = None\<rparr>"
      "\<lparr>AWS_ACCESS_KEY_ID = None, AWS_SECRET_ACCESS_KEY = Some ''s'', AWS_REGION = Some ''eu-west-1'', AWS_SESSION_TOKEN = None\<rparr>"]
  by simp

theorem getUserArn_from_rejection_witness:
  "getUserArn (IamRejected ''User: arn:aws:iam::123456789012:user/renovate is not authorized to perform: iam:GetUser'')
     = Inr ''arn:aws:iam::123456789012:user/renovate''"
  using getUserArn_from_rejection [of "''arn:aws:iam::123456789012:user/renovate''"
      "'' is not authorized to perform: iam:GetUser''"]
  by (simp add: js_ws_def)

end
