(* ===== verification/Js_String.thy ===== *)
theory Js_String
  imports CC_Prelude
begin

text \<open>
  \<^verbatim>\<open>String.prototype.replace\<close> and \<^verbatim>\<open>split\<close>/\<^verbatim>\<open>join\<close> as the adapter and the
  datasource utilities use them. A pattern is a \<open>matcher\<close>: given the rest of the
  input at a position, the length of the match that starts there, if any; every regular
  expression of the sources is a matcher of this kind (none has a look-behind). A
  replacement is a function of the matched text, which covers \<^verbatim>\<open>$1\<close> and
  \<^verbatim>\<open>$<name>\<close>. Without the \<^verbatim>\<open>g\<close> flag, and for a string pattern, the leftmost
  match is replaced (\<open>replace_first\<close>). With the \<^verbatim>\<open>g\<close> flag, the specification's loop
  repeats the search from \<^verbatim>\<open>lastIndex\<close>, stepping one character past an empty match;
  \<open>replace_global\<close> is that loop as a partial function, \<open>None\<close> when it does not
  return. The lemmas show it returns for every matcher that never claims more than the
  input, and that for a literal pattern it agrees with the structural
  \<open>replace_all_lit\<close>.
\<close>

section \<open>Definitions\<close>

type_synonym matcher = "string \<Rightarrow> nat option"

definition lit_matcher :: "string \<Rightarrow> matcher" where
  "lit_matcher p s = (if starts_with s p then Some (length p) else None)"

fun replace_first :: "matcher \<Rightarrow> (string \<Rightarrow> string) \<Rightarrow> string \<Rightarrow> string" where
  "replace_first m rep [] = (case m [] of Some _ \<Rightarrow> rep [] | None \<Rightarrow> [])"
| "replace_first m rep (c # cs) = (case m (c # cs) of
       Some k \<Rightarrow> rep (take k (c # cs)) @ drop k (c # cs)
     | None \<Rightarrow> c # replace_first m rep cs)"

text \<open>\<^verbatim>\<open>s.replace(p, r)\<close> with a string pattern and a replacement without \<^verbatim>\<open>$\<close>.\<close>

definition js_replace :: "string \<Rightarrow> string \<Rightarrow> string \<Rightarrow> string" where
  "js_replace s p r = replace_first (lit_matcher p) (\<lambda>_. r) s"

text \<open>\<^verbatim>\<open>s.replace(/^.../, r)\<close>: a pattern anchored at the start (without the
  \<^verbatim>\<open>m\<close> flag) is only tried at position 0.\<close>

definition replace_anchored :: "matcher \<Rightarrow> (string \<Rightarrow> string) \<Rightarrow> string \<Rightarrow> string" where
  "replace_anchored m rep s = (case m s of Some k \<Rightarrow> rep (take k s) @ drop k s | None \<Rightarrow> s)"

partial_function (option) replace_global :: "matcher \<Rightarrow> (string \<Rightarrow> string) \<Rightarrow> string \<Rightarrow> string option" where
  "replace_global m rep s = (case m s of
       Some k \<Rightarrow>
         (if k = 0 then
            (case s of
               [] \<Rightarrow> Some (rep [])
             | c # cs \<Rightarrow> Option.bind (replace_global m rep cs) (\<lambda>t. Some (rep [] @ c # t)))
          else Option.bind (replace_global m rep (drop k s)) (\<lambda>t. Some (rep (take k s) @ t)))
     | None \<Rightarrow>
         (case s of
            [] \<Rightarrow> Some []
          | c # cs \<Rightarrow> Option.bind (replace_global m rep cs) (\<lambda>t. Some (c # t))))"

declare replace_global.simps [code]

text \<open>The reference: every non-overlapping occurrence of a literal, left to right.\<close>

fun replace_all_lit :: "string \<Rightarrow> string \<Rightarrow> string \<Rightarrow> string" where
  "replace_all_lit p r [] = []"
| "replace_all_lit p r (c # cs) =
     (if p \<noteq> [] \<and> starts_with (c # cs) p then r @ replace_all_lit p r (drop (length p - 1) cs)
      else c # replace_all_lit p r cs)"

fun occurs_in :: "string \<Rightarrow> string \<Rightarrow> bool" where
  "occurs_in w [] = (w = [])"
| "occurs_in w (c # cs) = (starts_with (c # cs) w \<or> occurs_in w cs)"

text \<open>\<^verbatim>\<open>s.split(c)\<close> for a one-character separator, and \<^verbatim>\<open>xs.join(c)\<close>.\<close>

fun js_split :: "char \<Rightarrow> string \<Rightarrow> string list" where
  "js_split d [] = [[]]"
| "js_split d (c # cs) = (if c = d then [] # js_split d cs
     else (case js_split d cs of l # ls \<Rightarrow> (c # l) # ls | [] \<Rightarrow> [[c]]))"

fun js_join :: "char \<Rightarrow> string list \<Rightarrow> string" where
  "js_join d [] = []"
| "js_join d [x] = x"
| "js_join d (x # y # ys) = x @ d # js_join d (y # ys)"

section \<open>Lemmas\<close>

lemma starts_with_length: "starts_with t w \<Longrightarrow> length w \<le> length t"
  by (auto simp: starts_with_iff)

lemma lit_matcher_le: "lit_matcher p t = Some k \<Longrightarrow> k \<le> length t"
  by (auto simp: lit_matcher_def starts_with_iff split: if_splits)

lemma occurs_in_starts: "starts_with t w \<Longrightarrow> occurs_in w t"
  by (cases t) (auto simp: starts_with_iff)

lemma no_match_Cons:
  assumes "\<And>t. m t \<noteq> None \<Longrightarrow> \<exists>w\<in>set ws. starts_with t w"
    and "\<forall>w\<in>set ws. \<not> occurs_in w s"
  shows "m s = None"
  using assms by (meson occurs_in_starts)

lemma replace_first_no_match:
  assumes "\<And>t. m t \<noteq> None \<Longrightarrow> \<exists>w\<in>set ws. starts_with t w"
  shows "\<forall>w\<in>set ws. \<not> occurs_in w s \<Longrightarrow> replace_first m rep s = s"
proof (induction s)
  case Nil
  have "m [] = None" by (rule no_match_Cons [OF assms Nil.prems])
  then show ?case by simp
next
  case (Cons c cs)
  have "m (c # cs) = None" by (rule no_match_Cons [OF assms Cons.prems])
  with Cons show ?case by simp
qed

lemma replace_global_no_match:
  assumes "\<And>t. m t \<noteq> None \<Longrightarrow> \<exists>w\<in>set ws. starts_with t w"
  shows "\<forall>w\<in>set ws. \<not> occurs_in w s \<Longrightarrow> replace_global m rep s = Some s"
proof (induction s)
  case Nil
  have "m [] = None" by (rule no_match_Cons [OF assms Nil.prems])
  then show ?case by (subst replace_global.simps) simp
next
  case (Cons c cs)
  have "m (c # cs) = None" by (rule no_match_Cons [OF assms Cons.prems])
  with Cons show ?case by (subst replace_global.simps) simp
qed

lemma js_split_ne [simp]: "js_split d s \<noteq> []"
  by (induction d s rule: js_split.induct) (auto split: list.splits)

lemma js_join_Cons_Cons [simp]: "js_join d ((c # x) # xs) = c # js_join d (x # xs)"
  by (cases xs) simp_all

lemma js_join_split: "js_join d (js_split d s) = s"
proof (induction d s rule: js_split.induct)
  case (2 d c cs)
  then show ?case
    by (cases "js_split d cs") auto
qed simp

lemma js_split_sep: "x \<in> set (js_split d s) \<Longrightarrow> d \<notin> set x"
  by (induction d s arbitrary: x rule: js_split.induct) (auto split: list.splits if_splits)

lemma js_join_count:
  "\<forall>x\<in>set xs. d \<notin> set x \<Longrightarrow> length (filter ((=) d) (js_join d xs)) = length xs - 1"
  by (induction d xs rule: js_join.induct) (auto simp: filter_empty_conv)

lemma js_join_take_prefix: "\<exists>r. s = js_join d (take n (js_split d s)) @ r"
proof (induction d s arbitrary: n rule: js_split.induct)
  case (1 d)
  then show ?case by (cases n) auto
next
  case (2 d c cs)
  show ?case
  proof (cases n)
    case 0
    then show ?thesis by simp
  next
    case (Suc k)
    show ?thesis
    proof (cases "c = d")
      case True
      from "2.IH"(1) [OF True, of k] obtain r where r: "cs = js_join d (take k (js_split d cs)) @ r" ..
      show ?thesis
      proof (cases "take k (js_split d cs)")
        case Nil
        with True Suc show ?thesis by auto
      next
        case (Cons y ys)
        with r True Suc show ?thesis by auto
      qed
    next
      case False
      obtain l ls where sp: "js_split d cs = l # ls" by (cases "js_split d cs") auto
      from "2.IH"(2) [OF False, of "Suc k"] obtain r where
        r: "cs = js_join d (take (Suc k) (js_split d cs)) @ r" ..
      with False Suc sp show ?thesis by (cases "take k ls") auto
    qed
  qed
qed

lemma replace_global_terminates:
  assumes "\<And>t k. m t = Some k \<Longrightarrow> k \<le> length t"
  shows "\<exists>t. replace_global m rep s = Some t"
proof (induction s rule: length_induct)
  case (1 s)
  show ?case
  proof (cases "m s")
    case None
    show ?thesis
    proof (cases s)
      case (Cons c cs)
      with 1 obtain t where "replace_global m rep cs = Some t" by auto
      with None Cons show ?thesis by (subst replace_global.simps) simp
    qed (use None in \<open>subst replace_global.simps, simp\<close>)
  next
    case (Some k)
    show ?thesis
    proof (cases "k = 0")
      case True
      show ?thesis
      proof (cases s)
        case (Cons c cs)
        with 1 obtain t where "replace_global m rep cs = Some t" by auto
        with Some True Cons show ?thesis by (subst replace_global.simps) simp
      qed (use Some True in \<open>subst replace_global.simps, simp\<close>)
    next
      case False
      with assms [OF Some] have "length (drop k s) < length s" by simp
      with 1 have "\<exists>t. replace_global m rep (drop k s) = Some t" by blast
      then obtain t where "replace_global m rep (drop k s) = Some t" ..
      with Some False show ?thesis by (subst replace_global.simps) simp
    qed
  qed
qed

section \<open>Properties\<close>

text \<open>
  For a non-empty literal pattern, the global replace is the structural replacement of
  every non-overlapping occurrence from left to right.
\<close>

theorem replace_global_lit:
  "p \<noteq> [] \<Longrightarrow> replace_global (lit_matcher p) (\<lambda>_. r) s = Some (replace_all_lit p r s)"
proof (induction p r s rule: replace_all_lit.induct)
  case (1 p r)
  then show ?case by (subst replace_global.simps) (simp add: lit_matcher_def starts_with_iff)
next
  case (2 p r c cs)
  show ?case
  proof (cases "starts_with (c # cs) p")
    case True
    then obtain q where q: "c # cs = p @ q" by (auto simp: starts_with_iff)
    with "2.prems" have d: "drop (length p) (c # cs) = drop (length p - 1) cs"
      by (cases p) simp_all
    have m: "lit_matcher p (c # cs) = Some (length p)" using True by (simp add: lit_matcher_def)
    from True "2.prems" "2.IH"(1) show ?thesis
      by (subst replace_global.simps) (simp add: m d)
  next
    case False
    have m: "lit_matcher p (c # cs) = None" using False by (simp add: lit_matcher_def)
    with False "2.prems" "2.IH"(2) show ?thesis
      by (subst replace_global.simps) simp
  qed
qed

section \<open>Witnesses\<close>

theorem replace_global_lit_witness:
  "replace_global (lit_matcher ''ab'') (\<lambda>_. ''X'') ''aabab'' = Some ''aXX''"
proof -
  have "replace_all_lit ''ab'' ''X'' ''aabab'' = ''aXX''" by code_simp
  with replace_global_lit [of "''ab''" "''X''" "''aabab''"] show ?thesis by simp
qed

end
