(* ===== verification/Markdown.thy ===== *)
theory Markdown
  imports Js_String
begin

text \<open>
  \<^verbatim>\<open>massageMarkdown\<close> (\<^verbatim>\<open>index.ts\<close> 298--313): the chain of six replacements that
  turns the pull-request body Renovate writes for GitHub into CodeCommit markdown. Each
  regular expression is a matcher in its backtracking order: \<^verbatim>\<open><\/?summary>\<close> and
  \<^verbatim>\<open><\/?details>\<close> try the closing tag first; the rebase-check pattern is built from a
  template string whose \<^verbatim>\<open>\n\<close> are line feeds, and its lazy \<^verbatim>\<open>.*?\<close> cannot leave the
  line, so it matches the separator, the rest of the line if it holds the marker, and the
  line feed ending it; the debug-comment pattern takes the shortest text up to
  \<^verbatim>\<open>-->\<close> on the same line. The three global replacements run in the option monad
  of \<open>replace_global\<close>.
\<close>

section \<open>Definitions\<close>

definition summary_matcher :: matcher where
  "summary_matcher s = (if starts_with s ''</summary>'' then Some 10
     else if starts_with s ''<summary>'' then Some 9 else None)"

definition details_matcher :: matcher where
  "details_matcher s = (if starts_with s ''</details>'' then Some 10
     else if starts_with s ''<details>'' then Some 9 else None)"

definition rebase_separator :: string where
  "rebase_separator = nl @ ''---'' @ nl @ nl"

definition rebase_marker :: string where
  "rebase_marker = ''<!-- rebase-check -->''"

definition rebase_check_matcher :: matcher where
  "rebase_check_matcher s = (if \<not> starts_with s rebase_separator then None else
     (let t = drop (length rebase_separator) s;
          l = takeWhile (\<lambda>c. \<not> line_term c) t;
          after = drop (length l) t
      in if occurs_in rebase_marker l \<and> after \<noteq> [] \<and> hd after = CHR 0x0A
         then Some (length rebase_separator + length l + 1) else None))"

definition debug_prefix :: string where
  "debug_prefix = ''<!--renovate-debug:''"

definition debug_matcher :: matcher where
  "debug_matcher s = (if \<not> starts_with s debug_prefix then None else
     (let t = drop (length debug_prefix) s
      in case [a. a \<leftarrow> [0..<Suc (length t)], starts_with (drop a t) ''-->'',
                  \<not> list_ex line_term (take a t)] of
           [] \<Rightarrow> None
         | a # _ \<Rightarrow> Some (length debug_prefix + a + 3)))"

definition rebase_hint :: string where
  \<open>rebase_hint = ''rename PR to start with "rebase!"''\<close>

definition massageMarkdown :: "string \<Rightarrow> string option" where
  "massageMarkdown input =
     Option.bind (replace_global summary_matcher (\<lambda>_. ''**'')
         (js_replace input ''you tick the rebase/retry checkbox'' rebase_hint))
       (\<lambda>s2. Option.bind (replace_global details_matcher (\<lambda>_. []) s2)
       (\<lambda>s3. Option.bind (replace_global (lit_matcher ''](../pull/'') (\<lambda>_. ''](../../pull-requests/'')
                 (replace_first rebase_check_matcher (\<lambda>_. []) s3))
       (\<lambda>s5. Some (replace_first debug_matcher (\<lambda>m. ''[//]: # ('' @ m @ '')'') s5))))"

text \<open>The texts whose presence lets a step of \<^verbatim>\<open>massageMarkdown\<close> change its input.\<close>

definition markdown_triggers :: "string list" where
  "markdown_triggers = [''you tick the rebase/retry checkbox'', ''<summary>'', ''</summary>'',
     ''<details>'', ''</details>'', rebase_separator, ''](../pull/'', debug_prefix]"

section \<open>Lemmas\<close>

lemma summary_matcher_le: "summary_matcher t = Some k \<Longrightarrow> k \<le> length t"
  by (auto simp: summary_matcher_def dest!: starts_with_length split: if_splits)

lemma details_matcher_le: "details_matcher t = Some k \<Longrightarrow> k \<le> length t"
  by (auto simp: details_matcher_def dest!: starts_with_length split: if_splits)

lemma rebase_check_matcher_le: "rebase_check_matcher t = Some k \<Longrightarrow> k \<le> length t"
proof -
  assume m: "rebase_check_matcher t = Some k"
  let ?t = "drop (length rebase_separator) t"
  let ?l = "takeWhile (\<lambda>c. \<not> line_term c) ?t"
  from m have ne: "drop (length ?l) ?t \<noteq> []" and p: "starts_with t rebase_separator"
    and k: "k = length rebase_separator + length ?l + 1"
    by (auto simp: rebase_check_matcher_def Let_def split: if_splits)
  from ne have "length ?l < length ?t" by simp
  moreover from p have "length rebase_separator \<le> length t" by (rule starts_with_length)
  ultimately show ?thesis using k by simp
qed

lemma debug_matcher_le: "debug_matcher t = Some k \<Longrightarrow> k \<le> length t"
proof -
  assume m: "debug_matcher t = Some k"
  let ?t = "drop (length debug_prefix) t"
  from m obtain a as where
    l: "[a. a \<leftarrow> [0..<Suc (length ?t)], starts_with (drop a ?t) ''-->'', \<not> list_ex line_term (take a ?t)] = a # as"
    and k: "k = length debug_prefix + a + 3" and p: "starts_with t debug_prefix"
    by (auto simp: debug_matcher_def Let_def split: if_splits list.splits)
  have "a \<in> set [a. a \<leftarrow> [0..<Suc (length ?t)], starts_with (drop a ?t) ''-->'', \<not> list_ex line_term (take a ?t)]"
    by (simp only: l) simp
  then have "starts_with (drop a ?t) ''-->''" by (auto split: if_splits)
  then have "3 \<le> length (drop a ?t)" by (auto dest: starts_with_length)
  with p k show ?thesis by (auto dest: starts_with_length)
qed

lemma markdown_matchers_le:
  "summary_matcher t = Some k \<Longrightarrow> k \<le> length t"
  "details_matcher t = Some k \<Longrightarrow> k \<le> length t"
  "lit_matcher p t = Some k \<Longrightarrow> k \<le> length t"
  by (simp_all add: summary_matcher_le details_matcher_le lit_matcher_le)

lemma markdown_triggers_match:
  "summary_matcher t \<noteq> None \<Longrightarrow> \<exists>w\<in>set markdown_triggers. starts_with t w"
  "details_matcher t \<noteq> None \<Longrightarrow> \<exists>w\<in>set markdown_triggers. starts_with t w"
  "rebase_check_matcher t \<noteq> None \<Longrightarrow> \<exists>w\<in>set markdown_triggers. starts_with t w"
  "debug_matcher t \<noteq> None \<Longrightarrow> \<exists>w\<in>set markdown_triggers. starts_with t w"
  "lit_matcher ''you tick the rebase/retry checkbox'' t \<noteq> None \<Longrightarrow> \<exists>w\<in>set markdown_triggers. starts_with t w"
  "lit_matcher ''](../pull/'' t \<noteq> None \<Longrightarrow> \<exists>w\<in>set markdown_triggers. starts_with t w"
  by (auto simp: markdown_triggers_def summary_matcher_def details_matcher_def rebase_check_matcher_def
      debug_matcher_def lit_matcher_def Let_def split: if_splits)

text \<open>The removal of the HTML tags is a single pass: a tag split by another is put
  together by the removal and survives.\<close>

lemma markdown_nested_details: "massageMarkdown ''<det<details>ails>'' = Some ''<details>''"
  by code_simp

section \<open>Properties\<close>

text \<open>
  \<^verbatim>\<open>massageMarkdown\<close> returns on every input: each of its three global
  replacements stops, because none of its patterns claims more than the rest of the text.
\<close>

theorem massageMarkdown_returns: "\<exists>t. massageMarkdown s = Some t"
proof -
  obtain s2 where 2: "replace_global summary_matcher (\<lambda>_. ''**'')
      (js_replace s ''you tick the rebase/retry checkbox'' rebase_hint) = Some s2"
    using replace_global_terminates [OF summary_matcher_le] by blast
  obtain s3 where 3: "replace_global details_matcher (\<lambda>_. []) s2 = Some s3"
    using replace_global_terminates [OF details_matcher_le] by blast
  obtain s5 where 5: "replace_global (lit_matcher ''](../pull/'') (\<lambda>_. ''](../../pull-requests/'')
      (replace_first rebase_check_matcher (\<lambda>_. []) s3) = Some s5"
    using replace_global_terminates [of "lit_matcher ''](../pull/''"] lit_matcher_le by blast
  show ?thesis by (simp add: massageMarkdown_def 2 3 5)
qed

text \<open>
  C26. A body that contains none of the texts the six replacements look for (the
  rebase-checkbox sentence, the four tags, the rebase-check separator, the link to
  \<^verbatim>\<open>../pull/\<close> and the debug-comment opening) is returned unchanged.
\<close>

theorem massageMarkdown_plain:
  assumes "\<forall>w\<in>set markdown_triggers. \<not> occurs_in w s"
  shows "massageMarkdown s = Some s"
proof -
  note nm = replace_first_no_match [OF _ assms] replace_global_no_match [OF _ assms]
  have 1: "js_replace s ''you tick the rebase/retry checkbox'' rebase_hint = s"
    unfolding js_replace_def by (rule nm(1)) (rule markdown_triggers_match(5))
  have 2: "replace_global summary_matcher (\<lambda>_. ''**'') s = Some s"
    by (rule nm(2)) (rule markdown_triggers_match(1))
  have 3: "replace_global details_matcher (\<lambda>_. []) s = Some s"
    by (rule nm(2)) (rule markdown_triggers_match(2))
  have 4: "replace_first rebase_check_matcher (\<lambda>_. []) s = s"
    by (rule nm(1)) (rule markdown_triggers_match(3))
  have 5: "replace_global (lit_matcher ''](../pull/'') (\<lambda>_. ''](../../pull-requests/'') s = Some s"
    by (rule nm(2)) (rule markdown_triggers_match(6))
  have 6: "replace_first debug_matcher (\<lambda>m. ''[//]: # ('' @ m @ '')'') s = s"
    by (rule replace_first_no_match [OF markdown_triggers_match(4) assms])
  show ?thesis by (simp only: massageMarkdown_def 1 2 3 4 5 6 Option.bind_lunit)
qed

section \<open>Witnesses\<close>

theorem massageMarkdown_plain_witness:
  "massageMarkdown ''Update dependency foo to v2'' = Some ''Update dependency foo to v2''"
proof -
  have "\<forall>w\<in>set markdown_triggers. \<not> occurs_in w ''Update dependency foo to v2''"
    by code_simp
  then show ?thesis by (rule massageMarkdown_plain)
qed

end
