(* ===== verification/Repo_Stats.thy ===== *)
theory Repo_Stats
  imports CC_Types "HOL-Library.Multiset"
begin

text \<open>
  The repository statistics of the worker (\<^verbatim>\<open>src/unnamed/part_000\<close> and
  \<^verbatim>\<open>part_001\<close>, two versions of one module). Both functions only log what they compute,
  so each is modelled as the function returning the logged value:
  \<open>runRenovateRepoStats\<close> counts the pull requests that are not the onboarding one by
  state; \<open>runBranchSummary\<close> lists the base branches of the scan, the branches with a
  SHA as metadata and those without one as inactive, and the dependency-dashboard extract
  of every cached branch. The extract is written twice: \<open>part_000\<close> copies each branch
  and deletes fields (\<open>filterDependencyDashboardData_000\<close>), \<open>part_001\<close> picks fields
  (\<open>filterDependencyDashboardData\<close>). The cache records of
  \<^verbatim>\<open>util/cache/repository/types\<close> are not among the sources: they carry the fields the
  two versions name, prefixed (\<open>bc_\<close> for a cached branch, \<open>uc_\<close> for a cached upgrade,
  \<open>pb_\<close> for a partial branch, \<open>bm_\<close> for branch metadata).
\<close>

section \<open>Definitions\<close>

subsection \<open>\<^verbatim>\<open>runRenovateRepoStats\<close>\<close>

record PrStats =
  stats_total :: nat
  stats_open :: nat
  stats_closed :: nat
  stats_merged :: nat

definition empty_stats :: PrStats where
  "empty_stats = \<lparr>stats_total = 0, stats_open = 0, stats_closed = 0, stats_merged = 0\<rparr>"

text \<open>\<^verbatim>\<open>pr.title === 'Configure Renovate' || pr.title === config.onboardingPrTitle\<close>:
  with both titles absent the comparison holds.\<close>

definition onboarding_pr :: "string option \<Rightarrow> Pr \<Rightarrow> bool" where
  "onboarding_pr onboardingPrTitle pr \<longleftrightarrow>
     title pr = Some ''Configure Renovate'' \<or> title pr = onboardingPrTitle"

definition count_pr :: "PrStats \<Rightarrow> Pr \<Rightarrow> PrStats" where
  "count_pr st pr = (let st1 = st\<lparr>stats_total := Suc (stats_total st)\<rparr> in
     case state pr of
       Merged \<Rightarrow> st1\<lparr>stats_merged := Suc (stats_merged st1)\<rparr>
     | Closed \<Rightarrow> st1\<lparr>stats_closed := Suc (stats_closed st1)\<rparr>
     | Open \<Rightarrow> st1\<lparr>stats_open := Suc (stats_open st1)\<rparr>
     | _ \<Rightarrow> st1)"

fun stats_loop :: "string option \<Rightarrow> PrStats \<Rightarrow> Pr list \<Rightarrow> PrStats" where
  "stats_loop onb st [] = st"
| "stats_loop onb st (pr # items) =
     stats_loop onb (if onboarding_pr onb pr then st else count_pr st pr) items"

definition runRenovateRepoStats :: "string option \<Rightarrow> Pr list \<Rightarrow> PrStats" where
  "runRenovateRepoStats onboardingPrTitle pr_list = stats_loop onboardingPrTitle empty_stats pr_list"

text \<open>The number of pull requests that are not the onboarding one and whose state satisfies
  \<open>P\<close>.\<close>

abbreviation counted :: "string option \<Rightarrow> (PrState \<Rightarrow> bool) \<Rightarrow> Pr list \<Rightarrow> nat" where
  "counted onb P ps \<equiv> length (filter (\<lambda>p. \<not> onboarding_pr onb p \<and> P (state p)) ps)"

subsection \<open>The branch cache\<close>

text \<open>The cache objects carry more properties than the two versions name (digests,
  fingerprints, ...): \<open>uc_other\<close>, \<open>bc_other\<close> and \<open>pb_other\<close> hold those other own
  properties, by name (distinct from the named fields) with their JSON text, so that a
  spread \<^verbatim>\<open>{ ...x }\<close> can keep them and a pick can drop them.\<close>

record BranchUpgradeCache =
  uc_datasource :: "string option"
  uc_depName :: "string option"
  uc_displayPending :: "string option"
  uc_fixedVersion :: "string option"
  uc_currentVersion :: "string option"
  uc_currentValue :: "string option"
  uc_newValue :: "string option"
  uc_newVersion :: "string option"
  uc_packageFile :: "string option"
  uc_updateType :: "string option"
  uc_packageName :: "string option"
  uc_sourceUrl :: "string option"
  uc_depType :: "string option"
  uc_other :: "(string \<times> string) list"

record BranchCache =
  bc_automerge :: bool
  bc_baseBranch :: "string option"
  bc_baseBranchSha :: "string option"
  bc_branchFingerprint :: "string option"
  bc_branchName :: string
  bc_isBehindBase :: "bool option"
  bc_isConflicted :: "bool option"
  bc_isModified :: "bool option"
  bc_pristine :: bool
  bc_prBlockedBy :: "string option"
  bc_prCache :: "string option"
  bc_prNo :: "nat option"
  bc_prTitle :: "string option"
  bc_result :: "string option"
  bc_sha :: "string option"
  bc_upgrades :: "BranchUpgradeCache list option"
  bc_other :: "(string \<times> string) list"

text \<open>\<^verbatim>\<open>Partial<BranchCache>\<close>: every field optional; an upgrade's fields already are.\<close>

record PartialBranchCache =
  pb_automerge :: "bool option"
  pb_baseBranch :: "string option"
  pb_baseBranchSha :: "string option"
  pb_branchFingerprint :: "string option"
  pb_branchName :: "string option"
  pb_isBehindBase :: "bool option"
  pb_isConflicted :: "bool option"
  pb_isModified :: "bool option"
  pb_pristine :: "bool option"
  pb_prBlockedBy :: "string option"
  pb_prCache :: "string option"
  pb_prNo :: "nat option"
  pb_prTitle :: "string option"
  pb_result :: "string option"
  pb_sha :: "string option"
  pb_upgrades :: "BranchUpgradeCache list option"
  pb_other :: "(string \<times> string) list"

text \<open>\<^verbatim>\<open>{ ...branch }\<close>.\<close>

definition to_partial :: "BranchCache \<Rightarrow> PartialBranchCache" where
  "to_partial b = \<lparr>pb_automerge = Some (bc_automerge b), pb_baseBranch = bc_baseBranch b,
     pb_baseBranchSha = bc_baseBranchSha b, pb_branchFingerprint = bc_branchFingerprint b,
     pb_branchName = Some (bc_branchName b), pb_isBehindBase = bc_isBehindBase b,
     pb_isConflicted = bc_isConflicted b, pb_isModified = bc_isModified b,
     pb_pristine = Some (bc_pristine b), pb_prBlockedBy = bc_prBlockedBy b, pb_prCache = bc_prCache b,
     pb_prNo = bc_prNo b, pb_prTitle = bc_prTitle b, pb_result = bc_result b, pb_sha = bc_sha b,
     pb_upgrades = bc_upgrades b, pb_other = bc_other b\<rparr>"

subsection \<open>The dependency-dashboard extract, two versions\<close>

text \<open>\<^verbatim>\<open>part_000\<close>: copy, then \<^verbatim>\<open>delete\<close> ten fields of the branch and two of each
  upgrade; \<^verbatim>\<open>b.upgrades?.map\<close> leaves absent upgrades absent.\<close>

definition dashboard_branch_000 :: "BranchCache \<Rightarrow> PartialBranchCache" where
  "dashboard_branch_000 branch = (to_partial branch)\<lparr>pb_isModified := None, pb_automerge := None,
     pb_isBehindBase := None, pb_isConflicted := None, pb_baseBranch := None,
     pb_baseBranchSha := None, pb_branchFingerprint := None, pb_pristine := None,
     pb_prCache := None, pb_sha := None,
     pb_upgrades := map_option (map (\<lambda>u. u\<lparr>uc_sourceUrl := None, uc_depType := None\<rparr>)) (bc_upgrades branch)\<rparr>"

definition filterDependencyDashboardData_000 :: "BranchCache list \<Rightarrow> PartialBranchCache list" where
  "filterDependencyDashboardData_000 branches = map dashboard_branch_000 branches"

text \<open>\<^verbatim>\<open>part_001\<close>: pick six fields of the branch and eleven of each upgrade;
  \<^verbatim>\<open>coerceArray\<close> of \<^verbatim>\<open>util/array\<close> (not among the sources) turns absent upgrades into
  the empty list.\<close>

definition coerceArray :: "'a list option \<Rightarrow> 'a list" where
  "coerceArray xs = (case xs of None \<Rightarrow> [] | Some ys \<Rightarrow> ys)"

definition filtered_upgrade :: "BranchUpgradeCache \<Rightarrow> BranchUpgradeCache" where
  "filtered_upgrade u = \<lparr>uc_datasource = uc_datasource u, uc_depName = uc_depName u,
     uc_displayPending = uc_displayPending u, uc_fixedVersion = uc_fixedVersion u,
     uc_currentVersion = uc_currentVersion u, uc_currentValue = uc_currentValue u,
     uc_newValue = uc_newValue u, uc_newVersion = uc_newVersion u, uc_packageFile = uc_packageFile u,
     uc_updateType = uc_updateType u, uc_packageName = uc_packageName u,
     uc_sourceUrl = None, uc_depType = None, uc_other = []\<rparr>"

definition filtered_branch :: "BranchCache \<Rightarrow> PartialBranchCache" where
  "filtered_branch branch = \<lparr>pb_automerge = None, pb_baseBranch = None, pb_baseBranchSha = None,
     pb_branchFingerprint = None, pb_branchName = Some (bc_branchName branch), pb_isBehindBase = None,
     pb_isConflicted = None, pb_isModified = None, pb_pristine = None,
     pb_prBlockedBy = bc_prBlockedBy branch, pb_prCache = None, pb_prNo = bc_prNo branch,
     pb_prTitle = bc_prTitle branch, pb_result = bc_result branch, pb_sha = None,
     pb_upgrades = Some (map filtered_upgrade (coerceArray (bc_upgrades branch))), pb_other = []\<rparr>"

definition filterDependencyDashboardData :: "BranchCache list \<Rightarrow> PartialBranchCache list" where
  "filterDependencyDashboardData branches = map filtered_branch branches"

subsection \<open>\<^verbatim>\<open>runBranchSummary\<close>\<close>

record BranchMetadata =
  bm_automerge :: bool
  bm_baseBranch :: "string option"
  bm_baseBranchSha :: "string option"
  bm_branchName :: string
  bm_branchSha :: "string option"
  bm_isModified :: "bool option"
  bm_isPristine :: bool

definition branchCacheToMetadata :: "BranchCache \<Rightarrow> BranchMetadata" where
  "branchCacheToMetadata b = \<lparr>bm_automerge = bc_automerge b, bm_baseBranch = bc_baseBranch b,
     bm_baseBranchSha = bc_baseBranchSha b, bm_branchName = bc_branchName b, bm_branchSha = bc_sha b,
     bm_isModified = bc_isModified b, bm_isPristine = bc_pristine b\<rparr>"

text \<open>What \<^verbatim>\<open>getCache()\<close> returns: the scanned base branches with their SHAs, in the
  order \<^verbatim>\<open>Object.entries\<close> lists them, and the cached branches.\<close>

record RepoCache =
  scan :: "(string \<times> string option) list option"
  cached_branches :: "BranchCache list option"

record BranchSummary =
  cacheModified :: "bool option"
  baseBranches :: "(string \<times> string option) list"
  bs_branches :: "BranchMetadata list"
  bs_defaultBranch :: "string option"
  inactiveBranches :: "string list"

fun split_branches :: "BranchCache list \<Rightarrow> BranchMetadata list \<times> string list" where
  "split_branches [] = ([], [])"
| "split_branches (branch # bs) = (let (ms, ns) = split_branches bs in
     if js_truthy (bc_sha branch) then (branchCacheToMetadata branch # ms, ns)
     else (ms, bc_branchName branch # ns))"

definition runBranchSummary ::
  "string option \<Rightarrow> RepoCache \<Rightarrow> bool option \<Rightarrow> BranchSummary \<times> PartialBranchCache list option" where
  "runBranchSummary default_branch cache modified =
     (let baseMetadata = (case scan cache of None \<Rightarrow> [] | Some sc \<Rightarrow> sc);
          branches = coerceArray (cached_branches cache);
          (branchMetadata, inactive) = split_branches branches
      in (\<lparr>cacheModified = modified, baseBranches = baseMetadata, bs_branches = branchMetadata,
           bs_defaultBranch = default_branch, inactiveBranches = inactive\<rparr>,
          if branches \<noteq> [] then Some (filterDependencyDashboardData branches) else None))"

text \<open>\<^verbatim>\<open>part_000\<close>'s \<^verbatim>\<open>runBranchSummary\<close> is the same but for the extract it
  logs, its own version of the filter.\<close>

definition runBranchSummary_000 ::
  "string option \<Rightarrow> RepoCache \<Rightarrow> bool option \<Rightarrow> BranchSummary \<times> PartialBranchCache list option" where
  "runBranchSummary_000 default_branch cache modified =
     (let baseMetadata = (case scan cache of None \<Rightarrow> [] | Some sc \<Rightarrow> sc);
          branches = coerceArray (cached_branches cache);
          (branchMetadata, inactive) = split_branches branches
      in (\<lparr>cacheModified = modified, baseBranches = baseMetadata, bs_branches = branchMetadata,
           bs_defaultBranch = default_branch, inactiveBranches = inactive\<rparr>,
          if branches \<noteq> [] then Some (filterDependencyDashboardData_000 branches) else None))"

section \<open>Lemmas\<close>

lemma count_pr_fields:
  "stats_total (count_pr st pr) = Suc (stats_total st)"
  "stats_open (count_pr st pr) = stats_open st + (if state pr = Open then 1 else 0)"
  "stats_closed (count_pr st pr) = stats_closed st + (if state pr = Closed then 1 else 0)"
  "stats_merged (count_pr st pr) = stats_merged st + (if state pr = Merged then 1 else 0)"
  by (cases "state pr"; simp add: count_pr_def)+

lemma stats_loop_counts:
  "stats_loop onb st ps = \<lparr>stats_total = stats_total st + counted onb (\<lambda>_. True) ps,
     stats_open = stats_open st + counted onb (\<lambda>s. s = Open) ps,
     stats_closed = stats_closed st + counted onb (\<lambda>s. s = Closed) ps,
     stats_merged = stats_merged st + counted onb (\<lambda>s. s = Merged) ps\<rparr>"
  by (induction ps arbitrary: st) (auto simp: count_pr_fields)

text \<open>
  C27. The statistics are counts: the total is the number of pull requests that are not
  the onboarding one (neither titled \<^verbatim>\<open>Configure Renovate\<close> nor titled as the
  configured onboarding title), and each of \<open>open\<close>, \<open>closed\<close>, \<open>merged\<close> the number
  of those in that state.
\<close>

theorem runRenovateRepoStats_counts:
  "runRenovateRepoStats onb ps = \<lparr>stats_total = counted onb (\<lambda>_. True) ps,
     stats_open = counted onb (\<lambda>s. s = Open) ps,
     stats_closed = counted onb (\<lambda>s. s = Closed) ps,
     stats_merged = counted onb (\<lambda>s. s = Merged) ps\<rparr>"
  by (simp add: runRenovateRepoStats_def stats_loop_counts empty_stats_def)

lemma counted_split:
  "counted onb P ps = counted onb (\<lambda>s. P s \<and> Q s) ps + counted onb (\<lambda>s. P s \<and> \<not> Q s) ps"
  by (induction ps) auto

text \<open>
  The state counts and the pull requests of the other states (\<open>NotOpen\<close>,
  \<open>All\<close>, which the \<^verbatim>\<open>switch\<close> passes over) add up to the total.
\<close>

lemma runRenovateRepoStats_total:
  "stats_open (runRenovateRepoStats onb ps) + stats_closed (runRenovateRepoStats onb ps)
     + stats_merged (runRenovateRepoStats onb ps) + counted onb (\<lambda>s. s \<in> {NotOpen, All}) ps
   = stats_total (runRenovateRepoStats onb ps)"
proof -
  have "\<And>P. counted onb P ps = counted onb (\<lambda>s. P s \<and> s = Open) ps + counted onb (\<lambda>s. P s \<and> s = Closed) ps
     + counted onb (\<lambda>s. P s \<and> s = Merged) ps + counted onb (\<lambda>s. P s \<and> s \<in> {NotOpen, All}) ps"
  proof (induction ps)
    case (Cons a ps)
    then show ?case by (cases "state a") auto
  qed simp
  from this [of "\<lambda>_. True"] show ?thesis
    by (simp add: runRenovateRepoStats_def stats_loop_counts empty_stats_def)
qed

lemma split_branches_filter:
  "split_branches bs = (map branchCacheToMetadata (filter (\<lambda>b. js_truthy (bc_sha b)) bs),
                        map bc_branchName (filter (\<lambda>b. \<not> js_truthy (bc_sha b)) bs))"
  by (induction bs) auto

lemma mset_map_filter_partition:
  "mset (map f (filter P xs)) + mset (map f (filter (\<lambda>x. \<not> P x) xs)) = mset (map f xs)"
  by (induction xs) auto

lemma bm_branchName_meta [simp]: "bm_branchName (branchCacheToMetadata b) = bc_branchName b"
  by (simp add: branchCacheToMetadata_def)

text \<open>
  C28. The branch summary partitions the cached branches: as a multiset, the names of the
  branches listed with metadata and the inactive names are the names of the cache.
\<close>

theorem runBranchSummary_partition:
  "mset (map bm_branchName (bs_branches (fst (runBranchSummary d cache m))))
     + mset (inactiveBranches (fst (runBranchSummary d cache m)))
   = mset (map bc_branchName (coerceArray (cached_branches cache)))"
proof -
  obtain summary info where r: "runBranchSummary d cache m = (summary, info)" by fastforce
  let ?bs = "coerceArray (cached_branches cache)"
  from r have "bs_branches summary = map branchCacheToMetadata (filter (\<lambda>b. js_truthy (bc_sha b)) ?bs)"
    and "inactiveBranches summary = map bc_branchName (filter (\<lambda>b. \<not> js_truthy (bc_sha b)) ?bs)"
    by (auto simp: runBranchSummary_def split_branches_filter Let_def)
  then show ?thesis
    using mset_map_filter_partition [of bc_branchName "\<lambda>b. js_truthy (bc_sha b)" ?bs]
    by (simp add: comp_def r)
qed

lemma filtered_upgrade_delete:
  "filtered_upgrade u = u\<lparr>uc_sourceUrl := None, uc_depType := None, uc_other := []\<rparr>"
  by (simp add: filtered_upgrade_def)

text \<open>
  C29. How the two versions of the dashboard extract differ: picking the fields
  (\<^verbatim>\<open>part_001\<close>) gives what deleting fields gives (\<^verbatim>\<open>part_000\<close>) with exactly two
  changes: the properties neither version names, which the spread of
  \<^verbatim>\<open>part_000\<close> keeps on every branch and upgrade, are dropped, and a branch without
  upgrades gets the empty list instead of none.
\<close>

theorem filterDependencyDashboardData_versions:
  "filterDependencyDashboardData bs =
   map (\<lambda>p. p\<lparr>pb_upgrades := Some (map (\<lambda>u. u\<lparr>uc_other := []\<rparr>) (coerceArray (pb_upgrades p))),
                pb_other := []\<rparr>)
     (filterDependencyDashboardData_000 bs)"
  by (simp add: filterDependencyDashboardData_def filterDependencyDashboardData_000_def
      filtered_branch_def dashboard_branch_000_def to_partial_def coerceArray_def
      filtered_upgrade_delete split: option.split)

text \<open>The two versions of \<^verbatim>\<open>runBranchSummary\<close> log the same summary.\<close>

lemma runBranchSummary_versions_summary:
  "fst (runBranchSummary_000 d cache m) = fst (runBranchSummary d cache m)"
  by (simp add: runBranchSummary_000_def runBranchSummary_def Let_def split: prod.split)

end
