(* ===== verification/Source_Url.thy ===== *)
theory Source_Url
  imports Js_String
begin

text \<open>
  The source-URL normalisation of the datasource metadata
  (\<^verbatim>\<open>src/lib/modules/datasource/metadata.ts\<close>, lines 12--53): \<open>massageGithubUrl\<close>
  rewrites the SSH, \<^verbatim>\<open>git:\<close>, \<^verbatim>\<open>http:\<close> and GitHub-pages forms of a repository URL
  to \<^verbatim>\<open>https://github.com/...\<close> and keeps at most five \<^verbatim>\<open>/\<close>-separated pieces;
  \<open>massageGitlabUrl\<close> drops a \<^verbatim>\<open>/tree/...\<close> suffix, a trailing slash and the
  first \<^verbatim>\<open>.git\<close>; \<open>massageUrl\<close> dispatches on the host name. The two regular
  expressions of the module are matchers in the sense of \<open>Js_String\<close>, with their
  backtracking written out; \<^verbatim>\<open>URL.parse\<close> of Node's legacy URL API is not modelled: its
  host name is a parameter of \<open>massageUrl\<close>.
\<close>

section \<open>Definitions\<close>

text \<open>\<^verbatim>\<open>gitPrefix = /^git:\/?\/?/\<close>: \<^verbatim>\<open>git:\<close> and up to two slashes, greedily.\<close>

definition gitPrefix_matcher :: matcher where
  "gitPrefix_matcher t = (if starts_with t ''git:''
     then Some (4 + min 2 (length (takeWhile (\<lambda>c. c = CHR ''/'') (drop 4 t)))) else None)"

text \<open>\<^verbatim>\<open>githubPages = /^https:\/\/([^.]+).github.com\/([^/]+)$/\<close>. The two dots of the
  host are wildcards (any character but a line terminator). After \<^verbatim>\<open>https://\<close> the
  first group takes the longest run of non-dots and gives characters back one at a time
  until the rest matches \<open>.github.com/\<close> followed by at least one character up to the
  end, none of them a slash: \<open>pages_at t j\<close> says that the rest matches after a first
  group of length \<open>j\<close>, \<open>pages_try\<close> tries the lengths from the longest down to 1.\<close>

definition pages_at :: "string \<Rightarrow> nat \<Rightarrow> bool" where
  "pages_at t j = (let r = drop j t in
     12 < length r \<and> \<not> line_term (r ! 0) \<and> take 6 (drop 1 r) = ''github''
     \<and> \<not> line_term (r ! 7) \<and> take 4 (drop 8 r) = ''com/'' \<and> CHR ''/'' \<notin> set (drop 12 r))"

fun pages_try :: "string \<Rightarrow> nat \<Rightarrow> nat option" where
  "pages_try t 0 = None"
| "pages_try t (Suc j) = (if pages_at t (Suc j) then Some (Suc j) else pages_try t j)"

definition githubPages_groups :: "string \<Rightarrow> (string \<times> string) option" where
  "githubPages_groups s = (if starts_with s ''https://'' then
     (let t = drop 8 s in
      map_option (\<lambda>j. (take j t, drop (j + 12) t))
        (pages_try t (length (takeWhile (\<lambda>c. c \<noteq> CHR ''.'') t))))
   else None)"

text \<open>\<^verbatim>\<open>.replace(githubPages, 'https://github.com/$1/$2')\<close>: the pattern is anchored
  at both ends, so a match replaces the whole string.\<close>

definition replace_githubPages :: "string \<Rightarrow> string" where
  "replace_githubPages s = (case githubPages_groups s of
     Some (g1, g2) \<Rightarrow> ''https://github.com/'' @ g1 @ ''/'' @ g2
   | None \<Rightarrow> s)"

definition massageGithubUrl :: "string \<Rightarrow> string" where
  "massageGithubUrl url =
    (let massagedUrl = (if starts_with url ''git@''
                        then js_replace (js_replace url '':'' ''/'') ''git@'' ''https://'' else url);
         s1 = js_replace massagedUrl ''http:'' ''https:'';
         s2 = js_replace s1 ''http+git:'' ''https:'';
         s3 = js_replace s2 ''https+git:'' ''https:'';
         s4 = js_replace s3 ''ssh://git@'' ''https://'';
         s5 = replace_anchored gitPrefix_matcher (\<lambda>_. ''https://'') s4;
         s6 = replace_githubPages s5;
         s7 = js_replace s6 ''www.github.com'' ''github.com''
     in js_join (CHR ''/'') (take 5 (js_split (CHR ''/'') s7)))"

text \<open>The \<^verbatim>\<open>i\<close> flag on the ASCII letters (the patterns have no other letters).\<close>

definition ascii_lower :: "char \<Rightarrow> char" where
  "ascii_lower c = (let n = (of_char c :: nat) in if 65 \<le> n \<and> n \<le> 90 then char_of (n + 32) else c)"

text \<open>\<^verbatim>\<open>/\/tree\/.*$/i\<close>: \<^verbatim>\<open>/tree/\<close> in any case, then the rest of the input, which
  must hold no line terminator for \<^verbatim>\<open>.*\<close> to reach the end.\<close>

definition tree_matcher :: matcher where
  "tree_matcher t = (if map ascii_lower (take 6 t) = ''/tree/'' \<and> list_all (\<lambda>c. \<not> line_term c) (drop 6 t)
     then Some (length t) else None)"

text \<open>\<^verbatim>\<open>/\/$/i\<close>: a slash that ends the input.\<close>

definition trailing_slash_matcher :: matcher where
  "trailing_slash_matcher t = (if t = ''/'' then Some 1 else None)"

definition massageGitlabUrl :: "string \<Rightarrow> string" where
  "massageGitlabUrl url =
    (let s1 = js_replace url ''http:'' ''https:'';
         s2 = replace_anchored gitPrefix_matcher (\<lambda>_. ''https://'') s1;
         s3 = replace_first tree_matcher (\<lambda>_. []) s2;
         s4 = replace_first trailing_slash_matcher (\<lambda>_. []) s3
     in js_replace s4 ''.git'' [])"

text \<open>\<open>hostname\<close> is \<^verbatim>\<open>URL.parse(sourceUrl)?.hostname\<close>.\<close>

definition massageUrl :: "string option \<Rightarrow> string \<Rightarrow> string" where
  "massageUrl hostname sourceUrl = (case hostname of
       None \<Rightarrow> []
     | Some h \<Rightarrow> if h = [] then [] else if occurs_in ''gitlab'' h then massageGitlabUrl sourceUrl
                 else massageGithubUrl sourceUrl)"

section \<open>Lemmas\<close>

lemma count_slash_join_take:
  "length (filter ((=) d) (js_join d (take n (js_split d s)))) \<le> n - 1"
proof -
  have "\<forall>x\<in>set (take n (js_split d s)). d \<notin> set x"
    by (auto dest: in_set_takeD js_split_sep)
  then have "length (filter ((=) d) (js_join d (take n (js_split d s)))) = length (take n (js_split d s)) - 1"
    by (rule js_join_count)
  then show ?thesis by simp
qed

text \<open>
  C30. Whatever the input, \<^verbatim>\<open>massageGithubUrl\<close> returns a URL with at most four
  slashes: the \<^verbatim>\<open>split('/').slice(0, 5).join('/')\<close> at its end keeps at most five
  pieces, none of which holds a slash.
\<close>

theorem massageGithubUrl_slashes:
  "length (filter ((=) (CHR ''/'')) (massageGithubUrl url)) \<le> 4"
  using count_slash_join_take [of "CHR ''/''" 5] by (simp add: massageGithubUrl_def Let_def)

lemma pages_at_org:
  assumes "CHR ''/'' \<notin> set repo" "repo \<noteq> []"
  shows "pages_at (org @ ''.github.com/'' @ repo) (length org)"
  using assms by (simp add: pages_at_def line_term_def)

text \<open>
  C31. A GitHub-pages URL \<^verbatim>\<open>https://org.github.com/repo\<close>, with a non-empty
  organisation without dots and a non-empty repository without slashes, is rewritten by
  the \<^verbatim>\<open>githubPages\<close> replacement to \<^verbatim>\<open>https://github.com/org/repo\<close>: the
  backtracking of the first group stops at the organisation.
\<close>

theorem githubPages_org_repo:
  assumes "org \<noteq> []" "CHR ''.'' \<notin> set org" "repo \<noteq> []" "CHR ''/'' \<notin> set repo"
  shows "replace_githubPages (''https://'' @ org @ ''.github.com/'' @ repo) = ''https://github.com/'' @ org @ ''/'' @ repo"
proof -
  let ?t = "org @ ''.github.com/'' @ repo"
  have tw: "takeWhile (\<lambda>c. c \<noteq> CHR ''.'') ?t = org"
    using assms(2) by (subst takeWhile_append2) auto
  obtain j where j: "length org = Suc j" using assms(1) by (cases org) auto
  have "pages_try ?t (length org) = Some (length org)"
    using pages_at_org [OF assms(4,3), of org] j by simp
  then show ?thesis using tw
    by (simp add: replace_githubPages_def githubPages_groups_def starts_with_iff)
qed

theorem githubPages_org_repo_witness:
  "replace_githubPages (''https://'' @ ''renovatebot'' @ ''.github.com/'' @ ''renovate'')
     = ''https://github.com/renovatebot/renovate''"
  using githubPages_org_repo [of "''renovatebot''" "''renovate''"] by simp

text \<open>The last step of \<^verbatim>\<open>massageGitlabUrl\<close> removes the first \<^verbatim>\<open>.git\<close> wherever it
  is, not a \<^verbatim>\<open>.git\<close> suffix: a repository whose name contains \<^verbatim>\<open>.git\<close> is
  renamed.\<close>

lemma massageGitlabUrl_inner_git:
  "massageGitlabUrl ''https://gitlab.com/group/my.gitops-repo'' = ''https://gitlab.com/group/myops-repo''"
  by code_simp

text \<open>The trailing slash is removed before \<^verbatim>\<open>.git\<close>, so a URL ending in
  \<^verbatim>\<open>/.git\<close> keeps a trailing slash.\<close>

lemma massageGitlabUrl_slash_git:
  "massageGitlabUrl ''https://gitlab.com/group/repo/.git'' = ''https://gitlab.com/group/repo/''"
  by code_simp

lemma massageGithubUrl_ssh:
  "massageGithubUrl ''git@github.com:renovatebot/renovate.git'' = ''https://github.com/renovatebot/renovate.git''"
  by code_simp

end
