(* ===== verification/Release_Schema.thy ===== *)
theory Release_Schema
  imports CC_Prelude "HOL-Library.Monad_Syntax"
begin

text \<open>
  The zod schema of a custom datasource's answer
  (\<^verbatim>\<open>src/lib/modules/datasource/custom/schema.ts\<close>): \<open>parse_ReleaseResult\<close> is
  \<^verbatim>\<open>ReleaseResultZodSchema.safeParse\<close> on a value that \<^verbatim>\<open>JSON.parse\<close> produced
  (\<open>json_value\<close>), \<open>None\<close> for a failed parse. An object is the list of its members
  as the JSON text has them; \<^verbatim>\<open>JSON.parse\<close> keeps the last value of a repeated key
  (\<open>json_get\<close>). A \<^verbatim>\<open>z.object\<close> accepts an object
  and drops the keys it does not name; \<^verbatim>\<open>.optional()\<close> accepts a missing key (a JSON
  value is never \<^verbatim>\<open>undefined\<close>) and nothing else but the inner type; the
  \<^verbatim>\<open>.transform\<close> of a release moves \<^verbatim>\<open>digest\<close> to \<^verbatim>\<open>newDigest\<close>. The lemmas
  characterise the accepted values and prove the round trip from a release written as
  JSON.
\<close>

section \<open>Definitions\<close>

datatype json_value =
    JNull
  | JBool bool
  | JNum int
  | JStr string
  | JArr "json_value list"
  | JObj "(string \<times> json_value) list"

record Release =
  rel_version :: string
  rel_isDeprecated :: "bool option"
  rel_releaseTimestamp :: "string option"
  rel_sourceUrl :: "string option"
  rel_sourceDirectory :: "string option"
  rel_changelogUrl :: "string option"
  rel_digest :: "string option"
  rel_newDigest :: "string option"

record ReleaseResult =
  releases :: "Release list"
  tags :: "(string \<rightharpoonup> string) option"
  rr_sourceUrl :: "string option"
  rr_sourceDirectory :: "string option"
  rr_changelogUrl :: "string option"
  rr_homepage :: "string option"

text \<open>The value of a key of a parsed object: the last member with that key.\<close>

definition json_get :: "(string \<times> json_value) list \<Rightarrow> string \<Rightarrow> json_value option" where
  "json_get kvs k = map_of (rev kvs) k"

text \<open>\<^verbatim>\<open>z.string()\<close>, \<^verbatim>\<open>z.string().optional()\<close> and \<^verbatim>\<open>z.boolean().optional()\<close>
  on the value of a key, absent or present.\<close>

definition zod_string :: "json_value option \<Rightarrow> string option" where
  "zod_string v = (case v of Some (JStr s) \<Rightarrow> Some s | _ \<Rightarrow> None)"

definition zod_opt_string :: "json_value option \<Rightarrow> string option option" where
  "zod_opt_string v = (case v of None \<Rightarrow> Some None | Some (JStr s) \<Rightarrow> Some (Some s) | Some _ \<Rightarrow> None)"

definition zod_opt_boolean :: "json_value option \<Rightarrow> bool option option" where
  "zod_opt_boolean v = (case v of None \<Rightarrow> Some None | Some (JBool b) \<Rightarrow> Some (Some b) | Some _ \<Rightarrow> None)"

text \<open>The release object with its transform.\<close>

fun parse_release :: "json_value \<Rightarrow> Release option" where
  "parse_release (JObj kvs) = do {
     version \<leftarrow> zod_string (json_get kvs ''version'');
     isDeprecated \<leftarrow> zod_opt_boolean (json_get kvs ''isDeprecated'');
     releaseTimestamp \<leftarrow> zod_opt_string (json_get kvs ''releaseTimestamp'');
     sourceUrl \<leftarrow> zod_opt_string (json_get kvs ''sourceUrl'');
     sourceDirectory \<leftarrow> zod_opt_string (json_get kvs ''sourceDirectory'');
     changelogUrl \<leftarrow> zod_opt_string (json_get kvs ''changelogUrl'');
     digest \<leftarrow> zod_opt_string (json_get kvs ''digest'');
     Some \<lparr>rel_version = version, rel_isDeprecated = isDeprecated,
           rel_releaseTimestamp = releaseTimestamp, rel_sourceUrl = sourceUrl,
           rel_sourceDirectory = sourceDirectory, rel_changelogUrl = changelogUrl,
           rel_digest = None, rel_newDigest = digest\<rparr>
   }"
| "parse_release _ = None"

text \<open>\<^verbatim>\<open>z.array(...)\<close>: every item must parse.\<close>

fun parse_array :: "(json_value \<Rightarrow> 'a option) \<Rightarrow> json_value list \<Rightarrow> 'a list option" where
  "parse_array p [] = Some []"
| "parse_array p (x # xs) = do { y \<leftarrow> p x; ys \<leftarrow> parse_array p xs; Some (y # ys) }"

text \<open>\<^verbatim>\<open>z.record(z.string(), z.string()).optional()\<close>: an object whose values are all
  strings, read as a map from its keys.\<close>

definition zod_opt_record :: "json_value option \<Rightarrow> (string \<rightharpoonup> string) option option" where
  "zod_opt_record v = (case v of
       None \<Rightarrow> Some None
     | Some (JObj kvs) \<Rightarrow>
         (if list_all (\<lambda>k. zod_string (json_get kvs k) \<noteq> None) (map fst kvs)
          then Some (Some (\<lambda>k. zod_string (json_get kvs k))) else None)
     | Some _ \<Rightarrow> None)"

fun parse_ReleaseResult :: "json_value \<Rightarrow> ReleaseResult option" where
  "parse_ReleaseResult (JObj kvs) = do {
     rs \<leftarrow> (case json_get kvs ''releases'' of Some (JArr xs) \<Rightarrow> parse_array parse_release xs | _ \<Rightarrow> None);
     tg \<leftarrow> zod_opt_record (json_get kvs ''tags'');
     sourceUrl \<leftarrow> zod_opt_string (json_get kvs ''sourceUrl'');
     sourceDirectory \<leftarrow> zod_opt_string (json_get kvs ''sourceDirectory'');
     changelogUrl \<leftarrow> zod_opt_string (json_get kvs ''changelogUrl'');
     homepage \<leftarrow> zod_opt_string (json_get kvs ''homepage'');
     Some \<lparr>releases = rs, tags = tg, rr_sourceUrl = sourceUrl, rr_sourceDirectory = sourceDirectory,
           rr_changelogUrl = changelogUrl, rr_homepage = homepage\<rparr>
   }"
| "parse_ReleaseResult _ = None"

subsection \<open>The schema as a predicate, and a release written as JSON\<close>

definition opt_has :: "(json_value \<Rightarrow> bool) \<Rightarrow> json_value option \<Rightarrow> bool" where
  "opt_has P v = (case v of None \<Rightarrow> True | Some x \<Rightarrow> P x)"

fun is_JStr :: "json_value \<Rightarrow> bool" where
  "is_JStr (JStr _) = True"
| "is_JStr _ = False"

fun is_JBool :: "json_value \<Rightarrow> bool" where
  "is_JBool (JBool _) = True"
| "is_JBool _ = False"

fun release_shape :: "json_value \<Rightarrow> bool" where
  "release_shape (JObj kvs) = ((case json_get kvs ''version'' of Some v \<Rightarrow> is_JStr v | None \<Rightarrow> False) \<and>
     opt_has is_JBool (json_get kvs ''isDeprecated'') \<and>
     list_all (\<lambda>k. opt_has is_JStr (json_get kvs k))
       [''releaseTimestamp'', ''sourceUrl'', ''sourceDirectory'', ''changelogUrl'', ''digest''])"
| "release_shape _ = False"

fun result_shape :: "json_value \<Rightarrow> bool" where
  "result_shape (JObj kvs) =
     ((case json_get kvs ''releases'' of Some (JArr xs) \<Rightarrow> list_all release_shape xs | _ \<Rightarrow> False) \<and>
      opt_has (\<lambda>v. case v of JObj t \<Rightarrow> list_all (\<lambda>k. opt_has is_JStr (json_get t k)) (map fst t) | _ \<Rightarrow> False)
        (json_get kvs ''tags'') \<and>
      list_all (\<lambda>k. opt_has is_JStr (json_get kvs k))
        [''sourceUrl'', ''sourceDirectory'', ''changelogUrl'', ''homepage''])"
| "result_shape _ = False"

definition opt_field :: "string \<Rightarrow> ('a \<Rightarrow> json_value) \<Rightarrow> 'a option \<Rightarrow> (string \<times> json_value) list" where
  "opt_field k f v = (case v of None \<Rightarrow> [] | Some x \<Rightarrow> [(k, f x)])"

text \<open>A release as \<^verbatim>\<open>JSON.stringify\<close> writes it before the transform: absent fields
  are left out.\<close>

definition release_json :: "Release \<Rightarrow> json_value" where
  "release_json r = JObj ([(''version'', JStr (rel_version r))]
     @ opt_field ''isDeprecated'' JBool (rel_isDeprecated r)
     @ opt_field ''releaseTimestamp'' JStr (rel_releaseTimestamp r)
     @ opt_field ''sourceUrl'' JStr (rel_sourceUrl r)
     @ opt_field ''sourceDirectory'' JStr (rel_sourceDirectory r)
     @ opt_field ''changelogUrl'' JStr (rel_changelogUrl r)
     @ opt_field ''digest'' JStr (rel_digest r))"

section \<open>Lemmas\<close>

lemma zod_string_ok: "(\<exists>r. zod_string v = Some r) \<longleftrightarrow> (case v of Some x \<Rightarrow> is_JStr x | None \<Rightarrow> False)"
  by (auto simp: zod_string_def split: option.split json_value.split)

lemma zod_opt_string_ok: "(\<exists>r. zod_opt_string v = Some r) \<longleftrightarrow> opt_has is_JStr v"
  by (auto simp: zod_opt_string_def opt_has_def split: option.split json_value.split)

lemma zod_opt_boolean_ok: "(\<exists>r. zod_opt_boolean v = Some r) \<longleftrightarrow> opt_has is_JBool v"
  by (auto simp: zod_opt_boolean_def opt_has_def split: option.split json_value.split)

lemma parse_array_ok: "(\<exists>r. parse_array p xs = Some r) \<longleftrightarrow> list_all (\<lambda>x. p x \<noteq> None) xs"
  by (induction xs) (simp_all add: bind_ex_Some)

lemma json_get_key: "k \<in> set (map fst kvs) \<Longrightarrow> json_get kvs k \<noteq> None"
  by (simp add: json_get_def map_of_eq_None_iff image_iff)

lemma zod_string_key:
  "k \<in> set (map fst kvs) \<Longrightarrow> zod_string (json_get kvs k) \<noteq> None \<longleftrightarrow> opt_has is_JStr (json_get kvs k)"
  using json_get_key [of k kvs]
  by (auto simp: zod_string_def opt_has_def split: option.split json_value.split)

lemma zod_record_check:
  "list_all (\<lambda>k. zod_string (json_get t k) \<noteq> None) (map fst t) \<longleftrightarrow>
   list_all (\<lambda>k. opt_has is_JStr (json_get t k)) (map fst t)"
  unfolding list_all_iff using zod_string_key [of _ t] by blast

lemma zod_opt_record_ok:
  "(\<exists>r. zod_opt_record v = Some r) \<longleftrightarrow>
   opt_has (\<lambda>v. case v of JObj t \<Rightarrow> list_all (\<lambda>k. opt_has is_JStr (json_get t k)) (map fst t) | _ \<Rightarrow> False) v"
  by (auto simp: zod_opt_record_def opt_has_def zod_record_check simp del: not_None_eq
      split: option.split json_value.split)

lemmas zod_ok = zod_string_ok zod_opt_string_ok zod_opt_boolean_ok zod_opt_record_ok

lemma parse_release_ok: "(\<exists>r. parse_release j = Some r) \<longleftrightarrow> release_shape j"
  by (cases j) (simp_all add: zod_ok bind_ex_Some)

text \<open>
  C32. The schema's type: \<^verbatim>\<open>ReleaseResultZodSchema\<close> accepts exactly the objects
  with an array of releases (each an object with a string \<^verbatim>\<open>version\<close>, a boolean
  \<^verbatim>\<open>isDeprecated\<close> if present and strings for the other named keys if present),
  string-valued \<^verbatim>\<open>tags\<close> if present and strings for the four URL and directory keys
  if present; other keys are ignored.
\<close>

theorem parse_ReleaseResult_shape: "(\<exists>r. parse_ReleaseResult j = Some r) \<longleftrightarrow> result_shape j"
proof (cases j)
  case (JObj kvs)
  have rel: "(\<exists>r. (case json_get kvs ''releases'' of Some (JArr xs) \<Rightarrow> parse_array parse_release xs | _ \<Rightarrow> None) = Some r)
     \<longleftrightarrow> (case json_get kvs ''releases'' of Some (JArr xs) \<Rightarrow> list_all release_shape xs | _ \<Rightarrow> False)"
    by (auto simp: parse_array_ok parse_release_ok split: option.split json_value.split)
  show ?thesis using rel JObj by (simp add: zod_ok bind_ex_Some)
qed simp_all

text \<open>
  C33. Round trip through the release transform: a release written as JSON parses back to
  itself with its \<^verbatim>\<open>digest\<close> moved to \<^verbatim>\<open>newDigest\<close> and no
  \<^verbatim>\<open>digest\<close> left (a \<^verbatim>\<open>newDigest\<close> of the input is dropped with the other
  unknown keys).
\<close>

theorem parse_release_json:
  "parse_release (release_json r) = Some (r\<lparr>rel_digest := None, rel_newDigest := rel_digest r\<rparr>)"
  by (simp add: release_json_def opt_field_def json_get_def zod_string_def zod_opt_string_def
      zod_opt_boolean_def split: option.split)

end
