(* ===== verification/Dep_Metadata.thy ===== *)
theory Dep_Metadata
  imports Source_Url
begin

text \<open>
  The rest of the datasource metadata (\<^verbatim>\<open>src/lib/modules/datasource/metadata.ts\<close>,
  lines 55--219): \<open>normalizeDate\<close>, \<open>massageTimestamps\<close>, \<open>addMetaData\<close>,
  \<open>setSourceUrlToHomepage\<close> and \<open>shouldDeleteHomepage\<close>. These functions call
  modules that are not among the sources (Node's URL parser, \<^verbatim>\<open>util/url\<close>,
  \<^verbatim>\<open>detectPlatform\<close>, \<^verbatim>\<open>github-url-from-git\<close>, the manual URL tables of
  \<^verbatim>\<open>metadata-manual.ts\<close>, Luxon and \<^verbatim>\<open>Date\<close>); the record \<open>MetaLib\<close> collects them,
  and every definition and lemma here holds for any library. A dependency is the part of
  \<^verbatim>\<open>ReleaseResult\<close> the module reads and writes, a timestamp the values
  \<^verbatim>\<open>normalizeDate\<close> distinguishes (numbers are integers, as elsewhere in the
  development). \<^verbatim>\<open>toISOString\<close> of an invalid \<^verbatim>\<open>Date\<close> throws a
  \<^verbatim>\<open>RangeError\<close>, so \<open>normalizeDate\<close> and the functions that call it return
  \<open>meta_error + _\<close>; the mutation of \<^verbatim>\<open>dep\<close> in place is a new \<open>Dep\<close> returned.
\<close>

section \<open>Definitions\<close>

record MetaLib =
  lib_hostname :: "string \<Rightarrow> string option"
  lib_detectPlatform :: "string \<Rightarrow> string option"
  lib_parseGitUrl :: "string \<Rightarrow> string option"
  lib_validateUrl :: "string \<Rightarrow> bool"
  lib_pathname :: "string \<Rightarrow> string option"
  lib_urlPathDepth :: "string \<Rightarrow> nat"
  lib_manualChangelogUrl :: "string \<Rightarrow> string \<Rightarrow> string option"
  lib_manualSourceUrl :: "string \<Rightarrow> string \<Rightarrow> string option"
  lib_now :: int
  lib_toISOString :: "int \<Rightarrow> string"
  lib_fromISO :: "string \<Rightarrow> string option"
  lib_dateParse :: "string \<Rightarrow> js_number"

datatype meta_error = RangeError

text \<open>What a release's \<^verbatim>\<open>releaseTimestamp\<close> may hold: a number, a string, a
  \<^verbatim>\<open>Date\<close> (whose time value is \<open>NaN\<close> when it is invalid) or anything else.\<close>

datatype ts_value = TsNum js_number | TsStr string | TsDate js_number | TsOther

record MetaRelease =
  mr_version :: string
  mr_releaseTimestamp :: "ts_value option"

record Dep =
  dep_releases :: "MetaRelease list"
  dep_changelogUrl :: "string option"
  dep_sourceUrl :: "string option"
  dep_homepage :: "string option"
  dep_dependencyUrl :: "string option"

text \<open>\<^verbatim>\<open>normalizeDate\<close>: a string is read by Luxon as ISO in UTC and otherwise
  handed, through \<^verbatim>\<open>Date.parse\<close>, to the number case; a number must lie in
  \<open>(0, now + 1 day]\<close>.\<close>

fun normalizeDate :: "MetaLib \<Rightarrow> ts_value option \<Rightarrow> meta_error + string option" where
  "normalizeDate lib (Some (TsNum (JsInt n))) =
     Inr (if 0 < n \<and> n \<le> lib_now lib + 24 * 60 * 60 * 1000 then Some (lib_toISOString lib n) else None)"
| "normalizeDate lib (Some (TsNum NaN)) = Inr None"
| "normalizeDate lib (Some (TsStr s)) = (case lib_fromISO lib s of
       Some d \<Rightarrow> Inr (Some d)
     | None \<Rightarrow> (case lib_dateParse lib s of
          JsInt n \<Rightarrow> Inr (if 0 < n \<and> n \<le> lib_now lib + 24 * 60 * 60 * 1000
                          then Some (lib_toISOString lib n) else None)
        | NaN \<Rightarrow> Inr None))"
| "normalizeDate lib (Some (TsDate (JsInt n))) = Inr (Some (lib_toISOString lib n))"
| "normalizeDate lib (Some (TsDate NaN)) = Inl RangeError"
| "normalizeDate lib (Some TsOther) = Inr None"
| "normalizeDate lib None = Inr None"

text \<open>The functions mutate the dependency in place, so one that throws still leaves it
  changed: each returns the exception it throws, if any, with the dependency as it leaves
  it. One release of \<^verbatim>\<open>massageTimestamps\<close>: the timestamp is deleted first, then set
  again only to a truthy normalised value.\<close>

definition massage_release :: "MetaLib \<Rightarrow> MetaRelease \<Rightarrow> meta_error option \<times> MetaRelease" where
  "massage_release lib release = (case normalizeDate lib (mr_releaseTimestamp release) of
       Inl e \<Rightarrow> (Some e, release\<lparr>mr_releaseTimestamp := None\<rparr>)
     | Inr ts \<Rightarrow> (None, release\<lparr>mr_releaseTimestamp := map_option TsStr (nonempty ts)\<rparr>))"

fun massage_releases :: "MetaLib \<Rightarrow> MetaRelease list \<Rightarrow> meta_error option \<times> MetaRelease list" where
  "massage_releases lib [] = (None, [])"
| "massage_releases lib (release # rs) = (case massage_release lib release of
       (Some e, release') \<Rightarrow> (Some e, release' # rs)
     | (None, release') \<Rightarrow> (case massage_releases lib rs of (e, rs') \<Rightarrow> (e, release' # rs')))"

definition massageTimestamps :: "MetaLib \<Rightarrow> Dep \<Rightarrow> meta_error option \<times> Dep" where
  "massageTimestamps lib dep = (case massage_releases lib (dep_releases dep) of
       (e, rs) \<Rightarrow> (e, dep\<lparr>dep_releases := rs\<rparr>))"

text \<open>\<^verbatim>\<open>String.prototype.toLowerCase\<close> on the bytes read as Latin-1: the ASCII capitals
  and the capitals U+00C0--U+00DE but U+00D7.\<close>

definition js_lower_char :: "char \<Rightarrow> char" where
  "js_lower_char c = (let n = (of_char c :: nat) in
     if (65 \<le> n \<and> n \<le> 90) \<or> (192 \<le> n \<and> n \<le> 222 \<and> n \<noteq> 215) then char_of (n + 32) else c)"

definition js_toLowerCase :: "string \<Rightarrow> string" where
  "js_toLowerCase s = map js_lower_char s"

definition shouldDeleteHomepage :: "MetaLib \<Rightarrow> string \<Rightarrow> string \<Rightarrow> bool" where
  "shouldDeleteHomepage lib sourceUrl homepage =
    (let massagedSourceUrl = massageUrl (lib_hostname lib sourceUrl) sourceUrl in
     if massagedSourceUrl = homepage then True
     else (case lib_pathname lib massagedSourceUrl of
             None \<Rightarrow> False
           | Some sourcePath \<Rightarrow> (case lib_pathname lib homepage of
                None \<Rightarrow> False
              | Some hPath0 \<Rightarrow>
                  if lib_urlPathDepth lib homepage \<le> 2 then True
                  else (let hPath = (if hPath0 \<noteq> [] \<and> last hPath0 = CHR ''/'' then butlast hPath0 else hPath0)
                        in hPath = sourcePath))))"

definition setSourceUrlToHomepage :: "MetaLib \<Rightarrow> Dep \<Rightarrow> Dep" where
  "setSourceUrlToHomepage lib dep = (case nonempty (dep_homepage dep) of
       None \<Rightarrow> dep
     | Some homepage \<Rightarrow>
         (let platform = lib_detectPlatform lib homepage in
          if platform \<noteq> Some ''github'' \<and> platform \<noteq> Some ''gitlab'' then dep
          else (let dep' = dep\<lparr>dep_sourceUrl := Some homepage\<rparr> in
                if shouldDeleteHomepage lib homepage homepage then dep'\<lparr>dep_homepage := None\<rparr> else dep')))"

text \<open>The final loop over \<^verbatim>\<open>urlKeys\<close>: a URL is kept trimmed if it validates trimmed,
  and deleted otherwise.\<close>

definition clean_url :: "MetaLib \<Rightarrow> string option \<Rightarrow> string option" where
  "clean_url lib v = (case v of
       None \<Rightarrow> None
     | Some s \<Rightarrow> if lib_validateUrl lib (js_trim s) then Some (js_trim s) else None)"

definition clean_urls :: "MetaLib \<Rightarrow> Dep \<Rightarrow> Dep" where
  "clean_urls lib dep = dep\<lparr>dep_homepage := clean_url lib (dep_homepage dep),
     dep_sourceUrl := clean_url lib (dep_sourceUrl dep),
     dep_changelogUrl := clean_url lib (dep_changelogUrl dep),
     dep_dependencyUrl := clean_url lib (dep_dependencyUrl dep)\<rparr>"

text \<open>\<^verbatim>\<open>if (dep.sourceUrl) { ... }\<close>: the source URL is massaged, dropped when that gives
  the empty string, and otherwise replaced by what \<^verbatim>\<open>github-url-from-git\<close> makes of
  it, if anything; a homepage equal to the result is dropped.\<close>

definition massage_source :: "MetaLib \<Rightarrow> Dep \<Rightarrow> Dep" where
  "massage_source lib dep = (case nonempty (dep_sourceUrl dep) of
       None \<Rightarrow> dep
     | Some sourceUrl \<Rightarrow>
         (let massagedUrl = massageUrl (lib_hostname lib sourceUrl) sourceUrl;
              dep' = (if massagedUrl = [] then dep\<lparr>dep_sourceUrl := None\<rparr>
                      else dep\<lparr>dep_sourceUrl := Some (case nonempty (lib_parseGitUrl lib massagedUrl) of
                                                       Some u \<Rightarrow> u | None \<Rightarrow> sourceUrl)\<rparr>)
          in if js_truthy (dep_homepage dep') \<and> dep_homepage dep' = dep_sourceUrl dep'
             then dep'\<lparr>dep_homepage := None\<rparr> else dep'))"

definition addMetaData :: "MetaLib \<Rightarrow> Dep \<Rightarrow> string \<Rightarrow> string \<Rightarrow> meta_error option \<times> Dep" where
  "addMetaData lib dep0 datasource packageName = (case massageTimestamps lib dep0 of
       (Some e, dep1) \<Rightarrow> (Some e, dep1)
     | (None, dep1) \<Rightarrow>
         (let packageNameLowercase = js_toLowerCase packageName;
              dep2 = (case nonempty (lib_manualChangelogUrl lib datasource packageNameLowercase) of
                        Some u \<Rightarrow> dep1\<lparr>dep_changelogUrl := Some u\<rparr> | None \<Rightarrow> dep1);
              dep3 = (case nonempty (lib_manualSourceUrl lib datasource packageNameLowercase) of
                        Some u \<Rightarrow> dep2\<lparr>dep_sourceUrl := Some u\<rparr> | None \<Rightarrow> dep2);
              dep4 = (case nonempty (dep_changelogUrl dep3) of
                        Some c \<Rightarrow> if lib_detectPlatform lib c = Some ''github'' \<and> \<not> js_truthy (dep_sourceUrl dep3)
                                  then dep3\<lparr>dep_sourceUrl := Some c\<rparr> else dep3
                      | None \<Rightarrow> dep3);
              dep5 = (if js_truthy (dep_homepage dep4) \<and> \<not> js_truthy (dep_sourceUrl dep4)
                      then setSourceUrlToHomepage lib dep4 else dep4);
              dep6 = massage_source lib dep5
          in (None, clean_urls lib dep6)))"

text \<open>The post-condition of the clean-up: an absent URL, or one that validates and is
  trimmed.\<close>

definition url_clean :: "MetaLib \<Rightarrow> string option \<Rightarrow> bool" where
  "url_clean lib v = (case v of None \<Rightarrow> True | Some s \<Rightarrow> lib_validateUrl lib s \<and> js_trim s = s)"

subsection \<open>An example library and dependency\<close>

definition ex_meta_lib :: MetaLib where
  "ex_meta_lib = \<lparr>lib_hostname = (\<lambda>u. if starts_with u ''https://github.com/'' then Some ''github.com'' else None),
     lib_detectPlatform = (\<lambda>u. if starts_with u ''https://github.com/'' then Some ''github'' else None),
     lib_parseGitUrl = Some, lib_validateUrl = (\<lambda>u. starts_with u ''https://''),
     lib_pathname = (\<lambda>u. if starts_with u ''https://github.com'' then Some (drop 18 u) else None),
     lib_urlPathDepth = (\<lambda>u. length (filter ((=) CHR ''/'') (drop 8 u))),
     lib_manualChangelogUrl = (\<lambda>_ _. None), lib_manualSourceUrl = (\<lambda>_ _. None),
     lib_now = 1700000000000, lib_toISOString = (\<lambda>_. ''2020-09-13T12:26:40.000Z''),
     lib_fromISO = (\<lambda>_. None), lib_dateParse = (\<lambda>_. NaN)\<rparr>"

definition ex_dep :: Dep where
  "ex_dep = \<lparr>dep_releases = [\<lparr>mr_version = ''1.0.0'', mr_releaseTimestamp = Some (TsNum (JsInt 1600000000000))\<rparr>],
     dep_changelogUrl = None, dep_sourceUrl = Some ''https://github.com/renovatebot/renovate'',
     dep_homepage = Some ''https://github.com/renovatebot/renovate '', dep_dependencyUrl = Some ''not a url''\<rparr>"

definition ex_dep_out :: Dep where
  "ex_dep_out = \<lparr>dep_releases = [\<lparr>mr_version = ''1.0.0'', mr_releaseTimestamp = Some (TsStr ''2020-09-13T12:26:40.000Z'')\<rparr>],
     dep_changelogUrl = None, dep_sourceUrl = Some ''https://github.com/renovatebot/renovate'',
     dep_homepage = Some ''https://github.com/renovatebot/renovate'', dep_dependencyUrl = None\<rparr>"

text \<open>A release whose timestamp is an invalid \<^verbatim>\<open>Date\<close>, and one after it.\<close>

definition ex_bad_release :: MetaRelease where
  "ex_bad_release = \<lparr>mr_version = ''1.1.0'', mr_releaseTimestamp = Some (TsDate NaN)\<rparr>"

definition ex_late_release :: MetaRelease where
  "ex_late_release = \<lparr>mr_version = ''1.2.0'', mr_releaseTimestamp = Some (TsNum (JsInt 1))\<rparr>"

section \<open>Lemmas\<close>

lemma clean_url_clean: "url_clean lib (clean_url lib v)"
  by (simp add: url_clean_def clean_url_def js_trim_idem split: option.split)

text \<open>
  C34. Whatever the library and the dependency, every URL that \<^verbatim>\<open>addMetaData\<close>
  leaves in the dependency (homepage, source, changelog, dependency URL) validates and is
  trimmed.
\<close>

theorem addMetaData_urls_clean:
  assumes "addMetaData lib dep datasource packageName = (None, dep')"
  shows "url_clean lib (dep_homepage dep') \<and> url_clean lib (dep_sourceUrl dep')
       \<and> url_clean lib (dep_changelogUrl dep') \<and> url_clean lib (dep_dependencyUrl dep')"
  using assms by (auto simp: addMetaData_def clean_urls_def clean_url_clean Let_def split: prod.splits option.splits)

lemma meta_error_eq: "(x::meta_error) = y"
  by (cases x; cases y) simp

lemma normalizeDate_error: "normalizeDate lib v = Inl e \<longleftrightarrow> v = Some (TsDate NaN)"
  by (induction lib v rule: normalizeDate.induct) (auto simp: meta_error_eq split: option.split js_number.split)

lemma massage_release_error:
  "fst (massage_release lib x) = (if mr_releaseTimestamp x = Some (TsDate NaN) then Some RangeError else None)"
  by (auto simp: massage_release_def normalizeDate_error meta_error_eq split: sum.split)

lemma massage_releases_error:
  "fst (massage_releases lib rs) = (if list_ex (\<lambda>r. mr_releaseTimestamp r = Some (TsDate NaN)) rs
                                    then Some RangeError else None)"
proof (induction rs)
  case (Cons x rs)
  then show ?case
    using massage_release_error [of lib x]
    by (auto split: prod.split option.split if_splits)
qed simp

lemma massage_releases_prefix:
  "\<not> list_ex (\<lambda>r. mr_releaseTimestamp r = Some (TsDate NaN)) pre \<Longrightarrow>
   massage_releases lib (pre @ rs) =
     (fst (massage_releases lib rs), map (\<lambda>x. snd (massage_release lib x)) pre @ snd (massage_releases lib rs))"
proof (induction pre)
  case (Cons x pre)
  then have "fst (massage_release lib x) = None" by (simp add: massage_release_error)
  with Cons show ?case by (auto split: prod.split option.split)
qed (simp add: prod_eq_iff)

lemma massage_releases_invalid:
  "mr_releaseTimestamp x = Some (TsDate NaN) \<Longrightarrow>
   massage_releases lib (x # post) = (Some RangeError, x\<lparr>mr_releaseTimestamp := None\<rparr> # post)"
  by (simp add: massage_release_def meta_error_eq)

text \<open>
  C35. \<^verbatim>\<open>addMetaData\<close> throws (a \<^verbatim>\<open>RangeError\<close> of \<^verbatim>\<open>toISOString\<close>) exactly
  when one of the releases has an invalid \<^verbatim>\<open>Date\<close> as its timestamp; otherwise it
  returns.
\<close>

theorem addMetaData_range_error:
  "fst (addMetaData lib dep datasource packageName) = Some RangeError
   \<longleftrightarrow> list_ex (\<lambda>r. mr_releaseTimestamp r = Some (TsDate NaN)) (dep_releases dep)"
proof -
  have "fst (addMetaData lib dep datasource packageName) = fst (massage_releases lib (dep_releases dep))"
    by (simp add: addMetaData_def massageTimestamps_def Let_def split: prod.split option.split)
  then show ?thesis by (simp add: massage_releases_error)
qed

text \<open>
  C36. The state a throw leaves: when the first release with an invalid \<^verbatim>\<open>Date\<close>
  follows valid ones, \<^verbatim>\<open>addMetaData\<close> throws with the earlier releases already
  normalised, that release stripped of its timestamp, the later ones and every URL field
  untouched.
\<close>

theorem addMetaData_throw_state:
  assumes "dep_releases dep = pre @ x # post"
    and "\<not> list_ex (\<lambda>r. mr_releaseTimestamp r = Some (TsDate NaN)) pre"
    and "mr_releaseTimestamp x = Some (TsDate NaN)"
  shows "addMetaData lib dep datasource packageName =
           (Some RangeError, dep\<lparr>dep_releases := map (\<lambda>r. snd (massage_release lib r)) pre
                                                @ x\<lparr>mr_releaseTimestamp := None\<rparr> # post\<rparr>)"
  using assms massage_releases_prefix [OF assms(2), of lib "x # post"] massage_releases_invalid [OF assms(3)]
  by (simp add: addMetaData_def massageTimestamps_def)

lemma ex_addMetaData: "addMetaData ex_meta_lib ex_dep ''npm'' ''renovate'' = (None, ex_dep_out)"
  by code_simp

theorem addMetaData_urls_clean_witness:
  "addMetaData ex_meta_lib ex_dep ''npm'' ''renovate'' = (None, ex_dep_out)
   \<and> url_clean ex_meta_lib (dep_homepage ex_dep_out) \<and> url_clean ex_meta_lib (dep_sourceUrl ex_dep_out)
   \<and> url_clean ex_meta_lib (dep_changelogUrl ex_dep_out) \<and> url_clean ex_meta_lib (dep_dependencyUrl ex_dep_out)"
proof -
  show ?thesis using addMetaData_urls_clean [OF ex_addMetaData] ex_addMetaData by simp
qed

text \<open>The duplicate check of lines 152--154 compares the homepage with the source URL
  before the clean-up trims them: a homepage that differs only by white space survives
  and equals the source URL afterwards.\<close>

lemma addMetaData_duplicate_homepage:
  "addMetaData ex_meta_lib ex_dep ''npm'' ''renovate'' = (None, d) \<Longrightarrow>
   dep_homepage d = dep_sourceUrl d \<and> dep_homepage d \<noteq> None \<and> dep_homepage ex_dep \<noteq> dep_sourceUrl ex_dep"
  using ex_addMetaData by (simp add: ex_dep_out_def ex_dep_def)

theorem addMetaData_throw_state_witness:
  "addMetaData ex_meta_lib (ex_dep\<lparr>dep_releases := dep_releases ex_dep @ [ex_bad_release, ex_late_release]\<rparr>)
      ''npm'' ''renovate''
   = (Some RangeError, ex_dep\<lparr>dep_releases := [\<lparr>mr_version = ''1.0.0'',
        mr_releaseTimestamp = Some (TsStr ''2020-09-13T12:26:40.000Z'')\<rparr>,
        ex_bad_release\<lparr>mr_releaseTimestamp := None\<rparr>, ex_late_release]\<rparr>)"
proof -
  have r: "dep_releases (ex_dep\<lparr>dep_releases := dep_releases ex_dep @ [ex_bad_release, ex_late_release]\<rparr>)
      = dep_releases ex_dep @ ex_bad_release # [ex_late_release]" by simp
  have v: "\<not> list_ex (\<lambda>r. mr_releaseTimestamp r = Some (TsDate NaN)) (dep_releases ex_dep)"
    by (simp add: ex_dep_def)
  have b: "mr_releaseTimestamp ex_bad_release = Some (TsDate NaN)" by (simp add: ex_bad_release_def)
  show ?thesis
    using addMetaData_throw_state [OF r v b, of ex_meta_lib "''npm''" "''renovate''"]
    by (simp add: ex_dep_def massage_release_def ex_meta_lib_def)
qed

end
