(* ===== verification/File_Access.thy ===== *)
theory File_Access
  imports CC_Types
begin

text \<open>
  \<^verbatim>\<open>getRawFile\<close> and \<^verbatim>\<open>getJsonFile\<close> (\<^verbatim>\<open>index.ts\<close> 315--335): one
  \<^verbatim>\<open>client.getFile\<close> request for a file of the given repository, or of the session's
  when none is given, its content decoded by the module's \<^verbatim>\<open>TextDecoder\<close>, and for
  \<^verbatim>\<open>getJsonFile\<close> parsed with \<^verbatim>\<open>JSON5.parse\<close> unless it is empty. The request, the
  decoder and the parser are library code and parameters here: \<open>getFile\<close> answers with
  the file's content, absent when the response has none, or rejects; \<open>decode\<close> turns
  a content into text (\<^verbatim>\<open>decode(undefined)\<close> is the empty string); \<open>parse\<close> returns
  a value or throws.
\<close>

section \<open>Definitions\<close>

definition getRawFile ::
  "(string option \<Rightarrow> string \<Rightarrow> string option \<Rightarrow> error + 'b option) \<Rightarrow> ('b \<Rightarrow> string) \<Rightarrow>
   Config \<Rightarrow> string \<Rightarrow> string option \<Rightarrow> string option \<Rightarrow> error + string option" where
  "getRawFile getFile decode cfg fileName repoName branchOrTag =
     (case getFile (case repoName of Some r \<Rightarrow> Some r | None \<Rightarrow> repository cfg) fileName branchOrTag of
        Inl e \<Rightarrow> Inl e
      | Inr fileContent \<Rightarrow> Inr (Some (case fileContent of None \<Rightarrow> [] | Some c \<Rightarrow> decode c)))"

definition getJsonFile ::
  "(string option \<Rightarrow> string \<Rightarrow> string option \<Rightarrow> error + 'b option) \<Rightarrow> ('b \<Rightarrow> string) \<Rightarrow>
   (string \<Rightarrow> error + 'j) \<Rightarrow> Config \<Rightarrow> string \<Rightarrow> string option \<Rightarrow> string option \<Rightarrow> error + 'j option" where
  "getJsonFile getFile decode parse cfg fileName repoName branchOrTag =
     (case getRawFile getFile decode cfg fileName repoName branchOrTag of
        Inl e \<Rightarrow> Inl e
      | Inr raw \<Rightarrow> (case nonempty raw of
           None \<Rightarrow> Inr None
         | Some text \<Rightarrow> (case parse text of Inl e \<Rightarrow> Inl e | Inr v \<Rightarrow> Inr (Some v))))"

section \<open>Lemmas\<close>

text \<open>The file is looked up in the session's repository unless another is named.\<close>

lemma getRawFile_repository:
  "getRawFile getFile decode cfg fileName None b = getRawFile getFile decode cfg fileName (repository cfg) b"
  by (simp add: getRawFile_def split: option.split)

text \<open>\<^verbatim>\<open>getRawFile\<close> never resolves to \<^verbatim>\<open>null\<close>, though its type allows it: a response
  without content reads as the empty text.\<close>

lemma getRawFile_not_null:
  "getRawFile getFile decode cfg fileName r b \<noteq> Inr None"
  by (simp add: getRawFile_def split: sum.split)

text \<open>An empty or absent file is \<^verbatim>\<open>null\<close> to \<^verbatim>\<open>getJsonFile\<close>, not a parse error;
  the parser is never called on it.\<close>

lemma getJsonFile_empty:
  "getFile (case r of Some x \<Rightarrow> Some x | None \<Rightarrow> repository cfg) fileName b = Inr None \<Longrightarrow>
   getJsonFile getFile decode parse cfg fileName r b = Inr None"
  by (simp add: getJsonFile_def getRawFile_def)

lemma getJsonFile_parses:
  "getFile (case r of Some x \<Rightarrow> Some x | None \<Rightarrow> repository cfg) fileName b = Inr (Some c) \<Longrightarrow>
   decode c \<noteq> [] \<Longrightarrow>
   getJsonFile getFile decode parse cfg fileName r b = map_sum id Some (parse (decode c))"
  by (simp add: getJsonFile_def getRawFile_def split: sum.split)

end
