(* ===== verification/Spec2Isabelle.thy ===== *)
theory Spec2Isabelle
  imports Adapter_Session PR_Mutations Session_Setup Markdown Repo_Stats Source_Url Release_Schema Dep_Metadata File_Access
begin

text \<open>
  \<^bold>\<open>A verification model of the AWS CodeCommit platform adapter of Renovate, with the
  worker statistics and datasource helpers beside it.\<close>

  The program is the adapter \<^verbatim>\<open>src/lib/modules/platform/codecommit/index.ts\<close>: it
  turns CodeCommit's pull-request, comment and merge API into the uniform platform
  contract the Renovate orchestrator calls, one awaited call at a time. Its parts, leaves
  first:
  \<^item> the session context, the module-level \<^verbatim>\<open>config\<close> (repository, default branch,
    region, credentials, user ARN and the one cache slot \<^verbatim>\<open>prList\<close>);
  \<^item> the state translator, which turns a raw CodeCommit pull request into the
    canonical \<open>Pr\<close> (two copies in the source: in \<^verbatim>\<open>getPrList\<close> and in \<^verbatim>\<open>getPr\<close>);
  \<^item> the pull-request directory (\<^verbatim>\<open>getPrList\<close>, \<^verbatim>\<open>findPr\<close>, \<^verbatim>\<open>getBranchPr\<close>,
    \<^verbatim>\<open>getPr\<close>, \<^verbatim>\<open>getRepos\<close>), cached in the session;
  \<^item> the comment reconciler (\<^verbatim>\<open>ensureComment\<close>, \<^verbatim>\<open>ensureCommentRemoval\<close>);
  \<^item> the merge dispatcher (\<^verbatim>\<open>mergePr\<close>) and the other pull-request mutations
    (\<^verbatim>\<open>createPr\<close>, \<^verbatim>\<open>updatePr\<close>, \<^verbatim>\<open>addReviewers\<close>);
  \<^item> session set-up (\<^verbatim>\<open>initPlatform\<close>, \<^verbatim>\<open>initRepo\<close>, \<^verbatim>\<open>iam-client.ts\<close>), which
    starts a repository session; \<^verbatim>\<open>initRepo\<close> is not one of the calls of a session
    in \<open>adapter_op\<close>;
  \<^item> file access (\<^verbatim>\<open>getRawFile\<close>, \<^verbatim>\<open>getJsonFile\<close>);
  \<^item> the text helpers: \<^verbatim>\<open>massageMarkdown\<close> and the unsupported-capability stubs
    (issues, labels, assignees, vulnerability alerts, branch statuses).
  The operations that need the service talk to CodeCommit through \<^verbatim>\<open>codecommit-client.ts\<close>, which is not among
  the sources and is modelled from the specification. Beside the adapter the sources hold
  three smaller modules, modelled on their own: the repository statistics of the worker
  (\<^verbatim>\<open>src/unnamed/part_000\<close> and \<^verbatim>\<open>part_001\<close>), the source-URL normalisation of the
  datasource metadata (\<^verbatim>\<open>datasource/metadata.ts\<close>) and the zod schema of a custom
  datasource (\<^verbatim>\<open>datasource/custom/schema.ts\<close>).

  \<^bold>\<open>Theories and how they correspond to the code.\<close>
  \<^item> \<open>CC_Prelude\<close>: the JavaScript runtime the code relies on: truthiness of
    optional strings (\<open>nonempty\<close>, \<open>js_truthy\<close>), \<^verbatim>\<open>Number.parseInt\<close> (\<open>parseInt\<close>,
    with \<open>NaN\<close>), the rendering \<^verbatim>\<open>`${n}`\<close> (\<open>int_to_str\<close>, \<open>js_str\<close>), \<^verbatim>\<open>trim\<close>,
    \<^verbatim>\<open>startsWith\<close>, the line terminators of \<^verbatim>\<open>.\<close>; and the round trip
    \<open>parseInt (int_to_str i) = JsInt i\<close>.
  \<^item> \<open>CC_Types\<close>: \<open>PrState\<close>, the canonical \<open>Pr\<close>, the AWS SDK shapes as records of
    optional fields, the session record \<open>Config\<close> (index.ts 40--49) and the error type
    (\<open>RemoteError\<close> for a rejected request, \<open>TypeError\<close> for a dereference of
    \<^verbatim>\<open>undefined\<close>, \<open>PlatformError\<close>).
  \<^item> \<open>CC_Client\<close>: the remote service as a record \<open>remote\<close> holding the pull requests,
    comment threads and events, a log of every request (\<open>calls\<close>) and a predicate of
    the requests the transport rejects (\<open>fails\<close>); one function per client operation,
    all through \<open>request\<close>; its \<^verbatim>\<open>getPr\<close> catches a rejected request and answers
    with no data, as the repository's \<^verbatim>\<open>getPr\<close> test requires. An adapter operation is a function from the session and
    the remote to a result \<open>error + 'a\<close> (the promise rejected or resolved), the new
    session and the new remote.
  \<^item> \<open>State_Translator\<close>: \<open>pr_of_listing\<close> (index.ts 179--189) and \<open>pr_of_fetch\<close>
    (252--270), with the state rules \<open>listed_state\<close> and \<open>derived_state\<close>.
  \<^item> \<open>PR_Directory\<close>: the listing loop \<open>fetch_prs\<close> and \<open>getPrList\<close> (152--197),
    \<open>filter_prs\<close>/\<open>state_filter\<close> and \<open>findPr\<close> (199--233), \<open>getBranchPr\<close>
    (235--242), \<open>getPr\<close> (244--271), \<open>getRepos\<close> (273--296); the reference
    behaviour \<open>listed_prs\<close> and \<open>pr_matches\<close> the properties compare against.
  \<^item> \<open>Comment_Reconciler\<close>: the thread scan \<open>find_thread\<close>, \<open>create_comment\<close> and
    \<open>ensureComment\<close> (577--663); \<open>removal_target\<close> and \<open>ensureCommentRemoval\<close>
    (665--715); the invariant \<open>threads_ok\<close> that every comment has a non-empty id.
  \<^item> \<open>Merge_Dispatcher\<close>: \<open>merge_call\<close> (the strategy switch), \<open>close_after_merge\<close>
    and \<open>mergePr\<close> (408--482).
  \<^item> \<open>Js_Json\<close>: \<^verbatim>\<open>JSON.stringify\<close> on a list of strings (\<open>json_stringify_list\<close>, with
    the escapes of QuoteJSONString) and a reference decoder \<open>json_parse_list\<close>, with the
    round trip between them.
  \<^item> \<open>PR_Mutations\<close>: \<open>createPr\<close> (342--374), \<open>updatePr\<close> (376--404) with its three
    requests, \<open>addReviewers\<close> (484--501) with the approval-rule template
    \<open>approval_rule_contents\<close> and its reference reader \<open>read_rule\<close>; \<open>smartTruncate\<close>
    of \<^verbatim>\<open>platform/utils/pr-body\<close> (not among the sources) by its plain-cut path.
  \<^item> \<open>Session_Setup\<close>: \<open>initPlatform\<close> (51--100) with the region regular expression
    (\<open>endpoint_region\<close>, modelled by its backtracking order per line),
    \<open>initIamClient\<close> and \<open>getUserArn\<close> of \<^verbatim>\<open>iam-client.ts\<close> with the ARN regular
    expression (\<open>user_re\<close>), and \<open>initRepo\<close> (102--150) with its three errors. The IAM
    service, the clone and \<^verbatim>\<open>buildCodeCommitClient\<close> are opaque.
  \<^item> \<open>Stubs\<close>: the unsupported capabilities (337--340, 502--575), one constant
    definition each, and \<open>stub_answer\<close> naming their resolved values.
  \<^item> \<open>File_Access\<close>: \<open>getRawFile\<close> and \<open>getJsonFile\<close> (315--335) over the file
    request, the decoder and the JSON5 parser as parameters.
  \<^item> \<open>Adapter_Session\<close>: the orchestrator's view: a datatype \<open>adapter_op\<close> of the
    modelled operations (the stubs included), \<open>run_op\<close> running one to the end, the
    inductive step relation \<open>session_step\<close> interleaving calls with arbitrary changes
    of the service by other actors, and its closure \<open>reach\<close>; \<open>read_op\<close> singles
    out the operations that only read.
  \<^item> \<open>Js_String\<close>: \<^verbatim>\<open>String.prototype.replace\<close> with a string pattern
    (\<open>js_replace\<close>), with a regular expression without \<^verbatim>\<open>g\<close> (\<open>replace_first\<close>) or
    anchored at the start (\<open>replace_anchored\<close>), and with the \<^verbatim>\<open>g\<close> flag
    (\<open>replace_global\<close>, the \<^verbatim>\<open>lastIndex\<close> loop as a \<open>partial_function (option)\<close>); a
    regular expression is a matcher giving the length of the match at the start of a
    suffix, in backtracking order. \<^verbatim>\<open>split\<close> and \<^verbatim>\<open>join\<close> on one character.
  \<^item> \<open>Markdown\<close>: \<open>massageMarkdown\<close> (298--313), its five regular expressions as
    matchers.
  \<^item> \<open>Repo_Stats\<close>: \<open>runRenovateRepoStats\<close> and \<open>runBranchSummary\<close> of
    \<^verbatim>\<open>src/unnamed\<close> as the functions returning the value they log, and the two versions
    of \<open>filterDependencyDashboardData\<close>; the cache records are modelled from their use,
    with a field for the properties neither version names, which a spread keeps.
  \<^item> \<open>Source_Url\<close>: \<open>massageGithubUrl\<close>, \<open>massageGitlabUrl\<close> and \<open>massageUrl\<close> of
    \<^verbatim>\<open>metadata.ts\<close> (12--53), with the \<^verbatim>\<open>gitPrefix\<close> and \<^verbatim>\<open>githubPages\<close> regular
    expressions.
  \<^item> \<open>Dep_Metadata\<close>: the rest of \<^verbatim>\<open>metadata.ts\<close> (55--219): \<open>normalizeDate\<close>
    (a \<open>function\<close> whose string case recurses once into the number case),
    \<open>massageTimestamps\<close>, \<open>shouldDeleteHomepage\<close>, \<open>setSourceUrlToHomepage\<close> and
    \<open>addMetaData\<close>, over a record \<open>MetaLib\<close> of the library functions they call; as
    the code mutates the dependency in place, each returns the exception it throws, if
    any, with the dependency as it leaves it.
  \<^item> \<open>Release_Schema\<close>: \<^verbatim>\<open>ReleaseResultZodSchema\<close> as a parser \<open>parse_ReleaseResult\<close>
    of JSON values (a repeated key read as \<^verbatim>\<open>JSON.parse\<close> does, by its last value),
    with the release transform; the schema as a predicate
    \<open>result_shape\<close> and a writer \<open>release_json\<close> of releases.
  \<^item> this theory: the header and the properties of whole sessions.

  \<^bold>\<open>Properties.\<close> Each property is a theorem after a text naming its claim id; a
  theorem with a hypothesis is followed by a witness applying it at a concrete input.
  \<^item> Translator (C1--C2): the merge flag overrides the raw status on a fetch; the
    listing never reports \<open>Merged\<close>.
  \<^item> Directory (C3--C8): a filled cache survives any remote change; a listing without
    identifiers is not cached; an uncached listing fetches each identifier once, in
    order, and caches the translations (against the reference \<open>listed_prs\<close>, in which
    a rejected fetch, caught by the client, is skipped); \<^verbatim>\<open>findPr\<close> is the first
    match in directory order and, for \<open>Closed\<close> and \<open>Merged\<close>, only returns open pull
    requests; \<^verbatim>\<open>getBranchPr\<close> re-fetches.
  \<^item> Reconciler (C9--C12): \<^verbatim>\<open>ensureComment\<close> is idempotent, updates a matching root
    whose content differs from the body (stated over the service's threads), creates an
    anchored thread when nothing matches and rejects with a \<open>TypeError\<close> on an empty
    event list.
  \<^item> Merge (C13--C15): unsupported strategies never issue a merge request and resolve to
    \<open>false\<close>, also when the fetch fails; squash is followed by one close request whose
    outcome is the result; the requests come in the order fetch, merge, close.
  \<^item> Sessions (C16--C17, C37), by rule induction over \<open>reach\<close>: the only change any
    session makes to \<^verbatim>\<open>config\<close> is filling the empty cache slot; two listings
    separated by any interleaving of calls and remote changes return the same sequence;
    the read operations leave the service's data as it was.
  \<^item> Mutations (C18--C22): \<^verbatim>\<open>createPr\<close> returns the number the service assigned,
    which addresses the created pull request, and sends a description of at most 10239
    characters; \<^verbatim>\<open>updatePr\<close> issues description, title and status in order, swallows a
    rejected status update and reopens a pull request when no state is given;
    \<^verbatim>\<open>addReviewers\<close> adds one approval rule that reads back as the reviewers and their
    number.
  \<^item> Set-up (C23--C25): \<^verbatim>\<open>initRepo\<close> keeps the previous repository's cache;
    \<^verbatim>\<open>initPlatform\<close> fails with its configuration error, changing nothing, when a key,
    secret or region is missing; \<^verbatim>\<open>getUserArn\<close> reads the ARN out of an access-denied
    message.
  \<^item> Text (C26): \<^verbatim>\<open>massageMarkdown\<close> leaves a text without any of its triggers
    unchanged.
  \<^item> Statistics (C27--C29): the counts of \<^verbatim>\<open>runRenovateRepoStats\<close>, the partition of
    the cached branches by \<^verbatim>\<open>runBranchSummary\<close>, and exactly how the two versions of the
    dashboard extract differ.
  \<^item> URLs (C30--C31): \<^verbatim>\<open>massageGithubUrl\<close> keeps at most four slashes and maps a
    GitHub-pages URL to its repository.
  \<^item> Schema (C32--C33): the values the zod schema accepts, and the round trip of a
    release through its transform.
  \<^item> Metadata (C34--C36): every URL \<^verbatim>\<open>addMetaData\<close> leaves validates and is
    trimmed, for any library; it throws exactly on an invalid \<^verbatim>\<open>Date\<close> timestamp, and
    then leaves the dependency partly normalised.
  Lemmas kept beside them cover the rest of the behaviour: the unmerged fetch state, the
  cached listing, the error paths of \<^verbatim>\<open>findPr\<close>, \<^verbatim>\<open>getRepos\<close>,
  \<^verbatim>\<open>ensureComment\<close>, \<^verbatim>\<open>mergePr\<close>, \<^verbatim>\<open>createPr\<close> and \<^verbatim>\<open>updatePr\<close>, fast-forward
  merges, the target and uniqueness of a removal, the comment-id invariant of the
  reconciler, the directory snapshot after a merge (\<open>directory_snapshot\<close>) or a creation
  (\<open>created_pr_not_in_directory\<close>), the identifier round trip of the listing, the
  termination of \<open>massageMarkdown\<close> and the global replacement of a literal, the sum of the
  statistics
  (\<open>runRenovateRepoStats_total\<close>), and the GitLab URL examples.

  \<^bold>\<open>Bounds and fuel.\<close> Every loop of the adapter runs over a finite list the
  service returned (identifiers, threads, comments, targets), so every operation is a
  total, structurally recursive function and none needs fuel. The one loop that could
  run forever is the \<^verbatim>\<open>lastIndex\<close> loop of a global replacement; it is a
  \<open>partial_function (option)\<close>, and \<open>replace_global_terminates\<close> proves it returns for
  every matcher whose matches stay within the input, which all matchers of the
  development satisfy. The reference JSON decoder takes fuel, the length of its input,
  which is enough because every item consumes at least two characters
  (\<open>length_json_join\<close>). The description budget is the source's 10239; the URL keeps
  the source's five pieces.

  \<^bold>\<open>Not modelled.\<close> Logging; the AWS SDK transport and its timing;
  \<^verbatim>\<open>git.initRepo\<close> (a black-box clone); the file request, \<^verbatim>\<open>TextDecoder\<close> and
  \<^verbatim>\<open>JSON5.parse\<close> behind \<^verbatim>\<open>getRawFile\<close> and \<^verbatim>\<open>getJsonFile\<close> (parameters); the path of
  \<^verbatim>\<open>smartTruncate\<close> that shortens release notes inside a body; in \<^verbatim>\<open>metadata.ts\<close>,
  \<^verbatim>\<open>URL.parse\<close> (its host name is a parameter of \<open>massageUrl\<close>),
  and the libraries \<^verbatim>\<open>addMetaData\<close> calls (Luxon, \<^verbatim>\<open>Date\<close>,
  \<^verbatim>\<open>github-url-from-git\<close>, the host rules, the manual URL tables and the WHATWG URL
  parser of \<^verbatim>\<open>util/url\<close>), which are parameters. JavaScript numbers are modelled as unbounded
  integers (pull-request numbers stay far below \<open>2^53\<close>), characters as bytes.
\<close>

section \<open>Examples\<close>

definition ex_cached_config :: Config where
  "ex_cached_config = empty_config\<lparr>prList := Some [ex_listed_pr]\<rparr>"

section \<open>Lemmas on the examples\<close>

lemma ex_merge_closes:
  "prs (snd (mergePr None (JsInt 1) (Some Squash) ex_remote)) ''1''
     = Some (ex_pull_request\<lparr>pullRequestStatus := Some ''CLOSED''\<rparr>)"
  by (simp add: mergePr_def merge_call_def close_after_merge_def client_defs ex_remote_def
      ex_pull_request_def ex_target_def set_status_def Let_def)

lemma ex_matches_feature: "pr_matches ''feature'' None Open ex_listed_pr"
  by (simp add: pr_matches_def getNewBranchName_def state_filter_def ex_listed_pr_def)

section \<open>Properties of sessions\<close>

text \<open>
  C16. Session invariant, by rule induction over any interleaving of adapter calls and
  remote changes: the session config either is unchanged or differs only by a filled
  cache slot that was empty at the start. No operation modelled here resets or replaces
  the cache.
\<close>

theorem session_config_invariant:
  "reach san (cfg, r) (cfg', r') \<Longrightarrow>
     cfg' = cfg \<or> (prList cfg = None \<and> (\<exists>ps. cfg' = cfg\<lparr>prList := Some ps\<rparr>))"
proof (induction "(cfg, r)" "(cfg', r')" arbitrary: cfg' r' rule: reach.induct)
  case refl
  then show ?case by simp
next
  case (step s' cfg' r')
  then have "config_grows cfg (fst s')" by (cases s') (simp add: config_grows_def)
  with session_step_grows [OF step.hyps(3)] have "config_grows cfg cfg'"
    by (auto intro: config_grows_trans)
  then show ?case by (simp add: config_grows_def)
qed

text \<open>
  C17. Cache stability: once a listing has filled the cache, a later listing, after any
  interleaving of adapter calls (merges and comment changes included) and changes of the
  service by other actors, returns the same sequence without a request.
\<close>

theorem cache_stability:
  assumes "getPrList cfg r = (Inr ps, cfg1, r1)" and "prList cfg1 \<noteq> None"
    and "reach san (cfg1, r1) (cfg2, r2)"
  shows "getPrList cfg2 r2 = (Inr ps, cfg1, r2)"
proof -
  have "cfg2 = cfg1" using reach_cached_config [OF assms(3)] assms(2) by simp
  moreover have "prList cfg1 = Some ps" using getPrList_Inr_cached [OF assms(1,2)] .
  ultimately show ?thesis by (simp add: getPrList_cached_Some)
qed

text \<open>
  Directory snapshot: once the cache holds \<open>ps\<close>, every \<^verbatim>\<open>findPr\<close> of the rest of
  the session answers from \<open>ps\<close> (the first match) and issues no request, whatever the
  service holds by then; a pull request that the session itself merged and closed is
  still found as open.
\<close>

theorem directory_snapshot:
  assumes "prList cfg = Some ps" and "reach san (cfg, r) (cfg', r')"
  shows "findPr cfg' b t st r' = (Inr (find (pr_matches b t st) ps), cfg, r')"
proof -
  have "cfg' = cfg" using reach_cached_config [OF assms(2)] assms(1) by simp
  with assms(1) show ?thesis
    using findPr_result [OF getPrList_cached_Some [OF assms(1)]] by simp
qed

text \<open>
  The cache is not invalidated by a mutation (the open question of the
  specification): after \<^verbatim>\<open>createPr\<close> succeeds in a session whose cache holds
  \<open>ps\<close>, the service lists the new pull request under the number \<^verbatim>\<open>createPr\<close>
  returned, yet the session's listing still returns \<open>ps\<close> without a request, and
  stays so through any further interleaving of calls and remote changes.
\<close>

theorem created_pr_not_in_directory:
  assumes "prList cfg = Some ps" and "createPr cfg san src dst t b r = (Inr pr, r1)"
    and "reach san (cfg, r1) (cfg', r')"
  shows "js_str (number pr) \<in> set (the (pr_ids r1))
       \<and> getPrList cfg' r' = (Inr ps, cfg, r')"
proof -
  have "cfg' = cfg" using reach_cached_config [OF assms(3)] assms(1) by simp
  with createPr_Inr [OF assms(2)] assms(1) show ?thesis
    by (auto simp: getPrList_cached_Some fresh_pr_id_def split: option.splits)
qed

text \<open>
  C23. A new repository session keeps the old directory: \<^verbatim>\<open>initRepo\<close> records the new
  repository but leaves the cache slot as it was, so after switching repositories a
  listing returns the pull requests cached for the previous repository, without a
  request.
\<close>

theorem repository_switch_keeps_cache:
  assumes "prList cfg = Some ps" and "initRepo g repo ep cfg r = (Inr res, cfg1, r1)"
  shows "repository cfg1 = Some repo \<and> getPrList cfg1 r1 = (Inr ps, cfg1, r1)"
  using assms
  by (auto simp: initRepo_def getPrList_def Let_def split: prod.splits sum.splits option.splits if_splits)


section \<open>Witnesses\<close>

theorem session_config_invariant_witness:
  "run_op id OpGetPrList empty_config ex_remote
     = (empty_config\<lparr>prList := Some [ex_listed_pr]\<rparr>, ex_remote\<lparr>calls := [ListPullRequests None None, GetPr ''1'']\<rparr>)
   \<and> prList empty_config = None"
proof -
  have r: "reach id (empty_config, ex_remote) (run_op id OpGetPrList empty_config ex_remote)"
    by (rule reach_call [OF reach.refl])
  have e: "run_op id OpGetPrList empty_config ex_remote
     = (empty_config\<lparr>prList := Some [ex_listed_pr]\<rparr>, ex_remote\<lparr>calls := [ListPullRequests None None, GetPr ''1'']\<rparr>)"
    by (simp add: ex_remote_getPrList)
  from session_config_invariant [OF r [unfolded e]] e show ?thesis by (simp add: empty_config_def)
qed

theorem cache_stability_witness:
  "getPrList ex_cached_config (ex_remote\<lparr>calls := [ListPullRequests None None, GetPr ''1''], pr_ids := Some [], prs := \<lambda>_. None\<rparr>)
     = (Inr [ex_listed_pr], ex_cached_config,
        ex_remote\<lparr>calls := [ListPullRequests None None, GetPr ''1''], pr_ids := Some [], prs := \<lambda>_. None\<rparr>)"
proof -
  have g: "getPrList empty_config ex_remote = (Inr [ex_listed_pr], ex_cached_config,
      ex_remote\<lparr>calls := [ListPullRequests None None, GetPr ''1'']\<rparr>)"
    by (simp add: ex_remote_getPrList ex_cached_config_def)
  have r: "reach id (ex_cached_config, ex_remote\<lparr>calls := [ListPullRequests None None, GetPr ''1'']\<rparr>)
      (ex_cached_config, ex_remote\<lparr>calls := [ListPullRequests None None, GetPr ''1''], pr_ids := Some [], prs := \<lambda>_. None\<rparr>)"
    by (rule reach_remote_change [OF reach.refl]) simp
  show ?thesis
    using cache_stability [OF g _ r] by (simp add: ex_cached_config_def)
qed

theorem directory_snapshot_witness:
  "findPr ex_cached_config ''feature'' None Open (snd (mergePr None (JsInt 1) (Some Squash) ex_remote))
     = (Inr (Some ex_listed_pr), ex_cached_config, snd (mergePr None (JsInt 1) (Some Squash) ex_remote))
   \<and> prs (snd (mergePr None (JsInt 1) (Some Squash) ex_remote)) ''1''
     = Some (ex_pull_request\<lparr>pullRequestStatus := Some ''CLOSED''\<rparr>)"
proof -
  have r: "reach id (ex_cached_config, ex_remote)
      (ex_cached_config, snd (mergePr None (JsInt 1) (Some Squash) ex_remote))"
    using reach_call [OF reach.refl, of id ex_cached_config ex_remote "OpMergePr None (JsInt 1) (Some Squash)"]
    by simp
  show ?thesis
    using directory_snapshot [OF _ r, of "[ex_listed_pr]" "''feature''" None Open]
    by (simp add: ex_cached_config_def ex_matches_feature ex_merge_closes)
qed

theorem created_pr_not_in_directory_witness:
  "fst (createPr ex_cached_config id ''renovate/dep-2'' ''main'' ''Update dep 2'' ''b'' ex_remote)
     = Inr \<lparr>number = JsInt 2, sourceBranch = Some ''renovate/dep-2'', targetBranch = Some ''main'',
         title = Some ''Update dep 2'', state = Open, sha = None, sourceRepo = None\<rparr>
   \<and> js_str (JsInt 2) \<in> set (the (pr_ids (snd (createPr ex_cached_config id ''renovate/dep-2'' ''main'' ''Update dep 2'' ''b'' ex_remote))))
   \<and> getPrList ex_cached_config (snd (createPr ex_cached_config id ''renovate/dep-2'' ''main'' ''Update dep 2'' ''b'' ex_remote))
     = (Inr [ex_listed_pr], ex_cached_config,
        snd (createPr ex_cached_config id ''renovate/dep-2'' ''main'' ''Update dep 2'' ''b'' ex_remote))"
proof -
  let ?r1 = "snd (createPr ex_cached_config id ''renovate/dep-2'' ''main'' ''Update dep 2'' ''b'' ex_remote)"
  have f: "fst (createPr ex_cached_config id ''renovate/dep-2'' ''main'' ''Update dep 2'' ''b'' ex_remote)
     = Inr \<lparr>number = JsInt 2, sourceBranch = Some ''renovate/dep-2'', targetBranch = Some ''main'',
         title = Some ''Update dep 2'', state = Open, sha = None, sourceRepo = None\<rparr>"
    by (simp add: createPr_def client_createPr_def created_pr_def ex_cached_config_def empty_config_def
        ex_remote_def fresh_pr_id_def Let_def parseInt_nat_to_str)
  then have c: "createPr ex_cached_config id ''renovate/dep-2'' ''main'' ''Update dep 2'' ''b'' ex_remote
     = (Inr \<lparr>number = JsInt 2, sourceBranch = Some ''renovate/dep-2'', targetBranch = Some ''main'',
         title = Some ''Update dep 2'', state = Open, sha = None, sourceRepo = None\<rparr>, ?r1)"
    by (metis prod.collapse)
  show ?thesis
    using created_pr_not_in_directory [OF _ c reach.refl, of "[ex_listed_pr]"] f
    by (simp add: ex_cached_config_def)
qed


theorem repository_switch_keeps_cache_witness:
  "initRepo (\<lambda>_. True) ''repo'' None (ex_cached_config\<lparr>repository := Some ''other''\<rparr>) ex_remote
     = (Inr \<lparr>rr_repoFingerprint = ''id-1::'', rr_defaultBranch = ''main'', isFork = False\<rparr>,
        ex_cached_config\<lparr>repository := Some ''repo'', defaultBranch := Some ''main''\<rparr>,
        log_call (GetRepositoryInfo ''repo'') ex_remote)
   \<and> getPrList (ex_cached_config\<lparr>repository := Some ''repo'', defaultBranch := Some ''main''\<rparr>)
       (log_call (GetRepositoryInfo ''repo'') ex_remote)
     = (Inr [ex_listed_pr], ex_cached_config\<lparr>repository := Some ''repo'', defaultBranch := Some ''main''\<rparr>,
        log_call (GetRepositoryInfo ''repo'') ex_remote)"
proof -
  have i: "initRepo (\<lambda>_. True) ''repo'' None (ex_cached_config\<lparr>repository := Some ''other''\<rparr>) ex_remote
     = (Inr \<lparr>rr_repoFingerprint = ''id-1::'', rr_defaultBranch = ''main'', isFork = False\<rparr>,
        ex_cached_config\<lparr>repository := Some ''repo'', defaultBranch := Some ''main''\<rparr>,
        log_call (GetRepositoryInfo ''repo'') ex_remote)"
    by (simp add: initRepo_def client_defs ex_remote_def repoFingerprint_def ex_cached_config_def Let_def)
  show ?thesis
    using repository_switch_keeps_cache [OF _ i, of "[ex_listed_pr]"] i
    by (simp add: ex_cached_config_def)
qed

end
